(* ===== verification/Prelude.thy ===== *)
theory Prelude
  imports Main "HOL-Library.Sublist"
begin

text \<open>
  Shared vocabulary of the meeting-service development: the types that name instants and
  identifiers, the Python arithmetic the handlers use (\<open>round\<close> on a quotient, the
  \<open>days\<close> field of a \<open>timedelta\<close>, \<open>str.strip\<close>), counting over row lists
  (the SQLAlchemy \<open>query.filter(...).count()\<close> idiom), and the generic list lemmas the
  component theories share.  The collections \<open>store_simps\<close> and \<open>count_simps\<close>
  gather the rewriting facts that component proofs pass to \<open>simp\<close>.
\<close>

named_theorems store_simps "row-level rewriting facts of the store queries"
named_theorems count_simps "facts about counting rows that satisfy a filter"

section \<open>Instants and identifiers\<close>

text \<open>
  Python \<open>datetime\<close> values have microsecond resolution; an instant is the number of
  microseconds since the epoch, and a \<open>timedelta\<close> is a difference of instants.
  User ids and row ids are the integer primary keys of the tables.
\<close>

type_synonym instant = int
type_synonym user_id = nat
type_synonym row_id = nat

abbreviation seconds :: "int \<Rightarrow> int" where
  "seconds n \<equiv> n * 1000000"

definition day_usec :: int where
  "day_usec = 86400 * 1000000"

text \<open>\<open>timedelta.days\<close>: whole days, rounded towards minus infinity (Python normalises
  a negative delta to a negative day count and a non-negative remainder).\<close>

definition td_days :: "int \<Rightarrow> int" where
  "td_days d = d div day_usec"

text \<open>
  Python's \<open>round(a / b)\<close> for \<open>b > 0\<close>: the nearest integer, ties to the even one.
  \<open>a div b\<close> and \<open>a mod b\<close> round towards minus infinity as Python's \<open>//\<close> and
  \<open>%\<close> do, so the remainder lies in \<open>[0, b)\<close>.
\<close>

definition py_round_div :: "int \<Rightarrow> int \<Rightarrow> int" where
  "py_round_div a b =
     (let q = a div b; r = a mod b in
      if 2 * r < b then q
      else if 2 * r > b then q + 1
      else if even q then q else q + 1)"

text \<open>A character stands for the code point \<open>of_char c < 256\<close>.  \<open>str.isspace()\<close> on these
  code points, which is also what \<open>str.strip()\<close> removes and what the regular-expression
  whitespace class matches on a \<open>str\<close>: tab to carriage return, the separators
  \<open>0x1C\<close>-\<open>0x1F\<close>, space, next-line \<open>0x85\<close> and no-break space \<open>0xA0\<close>.\<close>

definition py_space :: "char \<Rightarrow> bool" where
  "py_space c \<longleftrightarrow> (let n = of_char c :: nat in (9 \<le> n \<and> n \<le> 13) \<or> (28 \<le> n \<and> n \<le> 32) \<or> n = 133 \<or> n = 160)"

definition py_strip :: "string \<Rightarrow> string" where
  "py_strip s = rev (dropWhile py_space (rev (dropWhile py_space s)))"

section \<open>Naive and aware datetimes\<close>

text \<open>
  \<open>datetime.now(UTC)\<close> is an aware value.  A \<open>db.DateTime\<close> column is
  \<open>DateTime(timezone=False)\<close>, a PostgreSQL \<open>timestamp without time zone\<close>; the
  value read back from it (after a commit has expired the attribute, or in a later
  request) is naive.  Python orders two naive or two aware values and raises
  \<open>TypeError\<close> (``can't compare offset-naive and offset-aware datetimes'') for a mixed
  pair: \<open>None\<close> here.  The stored number is the UTC wall-clock reading, so a naive
  and an aware value with the same number denote the same instant.
\<close>

datatype pydatetime = Naive instant | Aware instant

fun dt_less :: "pydatetime \<Rightarrow> pydatetime \<Rightarrow> bool option" where
  "dt_less (Naive x) (Naive y) = Some (x < y)"
| "dt_less (Aware x) (Aware y) = Some (x < y)"
| "dt_less (Naive x) (Aware y) = None"
| "dt_less (Aware x) (Naive y) = None"

abbreviation db_value :: "instant \<Rightarrow> pydatetime" where
  "db_value t \<equiv> Naive t"

abbreviation utc_now :: "instant \<Rightarrow> pydatetime" where
  "utc_now t \<equiv> Aware t"

section \<open>Counting rows\<close>

definition count_where :: "('a \<Rightarrow> bool) \<Rightarrow> 'a list \<Rightarrow> nat" where
  "count_where P xs = length (filter P xs)"

section \<open>Replacing one row of a table\<close>

text \<open>
  The ORM updates a loaded row in place; on the table this replaces the row with the same
  primary key.  When the keys are distinct the replaced row occurs once, and a count over
  the table changes by what the old and the new row contribute.
\<close>

definition replace_by :: "('a \<Rightarrow> 'k) \<Rightarrow> 'a \<Rightarrow> 'a list \<Rightarrow> 'a list" where
  "replace_by key r xs = map (\<lambda>q. if key q = key r then r else q) xs"

section \<open>Python values and dicts\<close>

text \<open>Python values as JSON carries them: \<open>PFloat m e\<close> is the finite float
  \<open>m * 2 ^ e\<close>, \<open>PDict\<close> a dict with its keys in insertion order, \<open>PData\<close> an object
  that is none of these.\<close>

datatype pyval = PNone | PBool bool | PInt int | PStr string | PData nat | PFloat int int
  | PDict "(string \<times> pyval) list"

type_synonym pydict = "(string \<times> pyval) list"

text \<open>Python truthiness, for \<open>if not token\<close> and \<open>if room\<close>.\<close>

fun truthy :: "pyval \<Rightarrow> bool" where
  "truthy PNone = False"
| "truthy (PBool b) = b"
| "truthy (PInt i) = (i \<noteq> 0)"
| "truthy (PStr s) = (s \<noteq> [])"
| "truthy (PData n) = True"
| "truthy (PFloat m e) = (m \<noteq> 0)"
| "truthy (PDict d) = (d \<noteq> [])"

abbreviation dict_get :: "pydict \<Rightarrow> string \<Rightarrow> pyval option" where
  "dict_get d k \<equiv> map_of d k"

text \<open>\<open>d[k] = v\<close>: an existing key keeps its place.  \<open>dict.update\<close> sets the keys of the
  argument in its order.\<close>

definition dict_set :: "string \<Rightarrow> pyval \<Rightarrow> pydict \<Rightarrow> pydict" where
  "dict_set k v d =
     (if k \<in> set (map fst d) then map (\<lambda>(k', v'). if k' = k then (k', v) else (k', v')) d
      else d @ [(k, v)])"

definition dict_update :: "pydict \<Rightarrow> pydict \<Rightarrow> pydict" where
  "dict_update d e = fold (\<lambda>(k, v) r. dict_set k v r) e d"

section \<open>Python's \<open>str.split(' ')\<close>\<close>

text \<open>Splitting on every occurrence of the separator, empty pieces kept:
  \<open>''.split(' ') = ['']\<close>, \<open>'a  b'.split(' ') = ['a', '', 'b']\<close>.\<close>

fun split_on :: "char \<Rightarrow> string \<Rightarrow> string list" where
  "split_on c [] = [[]]"
| "split_on c (x # xs) =
     (if x = c then [] # split_on c xs
      else (case split_on c xs of [] \<Rightarrow> [[x]] | w # ws \<Rightarrow> (x # w) # ws))"

text \<open>\<open>sep.join(ws)\<close>.\<close>

fun py_join :: "string \<Rightarrow> string list \<Rightarrow> string" where
  "py_join sep [] = []"
| "py_join sep [w] = w"
| "py_join sep (w # v # ws) = w @ sep @ py_join sep (v # ws)"

lemma count_where_Nil [simp, count_simps]: "count_where P [] = 0"
  by (simp add: count_where_def)

lemma count_where_Cons [simp, count_simps]:
  "count_where P (x # xs) = (if P x then Suc (count_where P xs) else count_where P xs)"
  by (simp add: count_where_def)

lemma count_where_append [simp, count_simps]:
  "count_where P (xs @ ys) = count_where P xs + count_where P ys"
  by (simp add: count_where_def)

lemma count_where_mono:
  "(\<And>x. x \<in> set xs \<Longrightarrow> P x \<Longrightarrow> Q x) \<Longrightarrow> count_where P xs \<le> count_where Q xs"
  by (induction xs) auto

lemma count_where_cong:
  "(\<And>x. x \<in> set xs \<Longrightarrow> P x = Q x) \<Longrightarrow> count_where P xs = count_where Q xs"
  by (induction xs) auto

lemma count_where_eq_0 [count_simps]:
  "count_where P xs = 0 \<longleftrightarrow> (\<forall>x \<in> set xs. \<not> P x)"
  by (induction xs) auto

lemma replace_by_split:
  assumes "distinct (map key (ys @ x # zs))" and "key r = key x"
  shows "replace_by key r (ys @ x # zs) = ys @ r # zs"
proof -
  from assms(1) have "\<forall>q \<in> set ys. key q \<noteq> key x" and "\<forall>q \<in> set zs. key q \<noteq> key x"
    by (auto simp: image_iff)
  with assms(2) show ?thesis
    by (simp add: replace_by_def map_idI)
qed

lemma map_replace_by_key [simp]: "map key (replace_by key r xs) = map key xs"
  by (induction xs) (auto simp: replace_by_def)

lemma set_replace_by_subset: "set (replace_by key r xs) \<subseteq> insert r (set xs)"
  by (auto simp: replace_by_def)

lemma map_replace_by_same:
  "(\<And>q. q \<in> set xs \<Longrightarrow> key q = key r \<Longrightarrow> f q = f r) \<Longrightarrow> map f (replace_by key r xs) = map f xs"
  by (induction xs) (auto simp: replace_by_def)

lemma count_replace_by:
  assumes "distinct (map key xs)" and "x \<in> set xs" and "key r = key x"
  shows "count_where P (replace_by key r xs) + (if P x then 1 else 0)
         = count_where P xs + (if P r then 1 else 0)"
proof -
  from assms(2) obtain ys zs where xs: "xs = ys @ x # zs"
    by (meson split_list)
  with assms(1,3) have "replace_by key r xs = ys @ r # zs"
    by (simp add: replace_by_split)
  with xs show ?thesis by simp
qed

lemma find_key_distinct:
  "distinct (map key xs) \<Longrightarrow> x \<in> set xs \<Longrightarrow> find (\<lambda>y. key y = key x) xs = Some x"
  by (induction xs) (auto simp: image_iff)

lemma count_where_filter_le [count_simps]: "count_where P (filter Q xs) \<le> count_where P xs"
  by (induction xs) auto

lemma find_append_first:
  "find P (xs @ ys) = (case find P xs of None \<Rightarrow> find P ys | Some x \<Rightarrow> Some x)"
  by (induction xs) auto

lemma replace_by_absent: "key r \<notin> key ` set xs \<Longrightarrow> replace_by key r xs = xs"
  by (induction xs) (auto simp: replace_by_def)

lemma replace_by_other_in:
  "q \<in> set xs \<Longrightarrow> key q \<noteq> key r \<Longrightarrow> q \<in> set (replace_by key r xs)"
  by (force simp: replace_by_def)

lemma find_replace_by_other:
  "key r \<noteq> k \<Longrightarrow> find (\<lambda>q. key q = k) (replace_by key r xs) = find (\<lambda>q. key q = k) xs"
  by (induction xs) (auto simp: replace_by_def)

text \<open>Replacing the first row a filter selects by a row the filter rejects leaves the
  rest of the selection.\<close>

lemma filter_replace_by_first:
  assumes "distinct (map key xs)" and "filter P xs = x # ys" and "key r = key x" and "\<not> P r"
  shows "filter P (replace_by key r xs) = ys"
  using assms
proof (induction xs)
  case Nil then show ?case by simp
next
  case (Cons a xs)
  show ?case
  proof (cases "P a")
    case True
    with Cons.prems have "a = x" "filter P xs = ys" "key a \<notin> key ` set xs" by auto
    moreover from Cons.prems(3) \<open>a = x\<close> have "replace_by key r (a # xs) = r # replace_by key r xs"
      by (simp add: replace_by_def)
    ultimately show ?thesis using Cons.prems(3,4) by (simp add: replace_by_absent)
  next
    case False
    with Cons.prems(2) have "x \<in> set xs" by (metis filter.simps(2) filter_eq_ConsD in_set_conv_decomp)
    with Cons.prems(1) have "key a \<noteq> key x" by auto
    with False Cons show ?thesis by (simp add: replace_by_def)
  qed
qed

text \<open>Deleting one occurrence of a row from a table whose keys are distinct removes every
  row with that key.\<close>

lemma remove1_key_gone:
  "distinct (map f xs) \<Longrightarrow> y \<in> set (remove1 x xs) \<Longrightarrow> x \<in> set xs \<Longrightarrow> f y \<noteq> f x"
proof (induction xs)
  case Nil then show ?case by simp
next
  case (Cons a xs)
  then show ?case by (auto split: if_splits simp: image_iff dest: notin_set_remove1)
qed

section \<open>Lists as append-only logs\<close>

lemma prefix_append_self [simp]: "prefix xs (xs @ ys)"
  by simp

section \<open>Python dicts\<close>

lemma dict_get_set: "dict_get (dict_set k v d) k = Some v"
proof (cases "k \<in> set (map fst d)")
  case True
  have "map_of (map (\<lambda>(k', v'). if k' = k then (k', v) else (k', v')) d) k = Some v"
    using True by (induction d) auto
  with True show ?thesis by (simp add: dict_set_def)
next
  case False
  then have "map_of d k = None" by (simp add: map_of_eq_None_iff image_iff)
  with False show ?thesis by (simp add: dict_set_def map_add_def)
qed

lemma map_of_overwrite:
  "k' \<noteq> k \<Longrightarrow> map_of (map (\<lambda>(a, b). if a = k then (a, v) else (a, b)) d) k' = map_of d k'"
  by (induction d) auto

lemma dict_get_set_other: "k' \<noteq> k \<Longrightarrow> dict_get (dict_set k v d) k' = dict_get d k'"
  by (simp add: dict_set_def map_of_overwrite map_add_def split: option.split)

lemma dict_set_keys: "map fst (dict_set k v d) = (if k \<in> set (map fst d) then map fst d else map fst d @ [k])"
  by (induction d) (auto simp: dict_set_def)

lemma dict_update_fresh:
  "distinct (map fst e) \<Longrightarrow> dict_update [] e = e"
proof (induction e rule: rev_induct)
  case Nil then show ?case by (simp add: dict_update_def)
next
  case (snoc x e)
  then have "dict_update [] e = e" and "fst x \<notin> set (map fst e)" by auto
  then show ?case by (cases x) (simp add: dict_update_def dict_set_def)
qed


section \<open>Splitting and joining strings\<close>

lemma split_on_not_Nil [simp]: "split_on c s \<noteq> []"
  by (induction s) (auto split: list.split)

lemma length_split_on: "length (split_on c s) = Suc (count_list s c)"
  by (induction s) (auto split: list.split)

lemma py_join_Cons_Cons: "py_join sep ((x # w) # ws) = x # py_join sep (w # ws)"
  by (cases ws) simp_all

lemma join_split_on: "py_join [c] (split_on c s) = s"
proof (induction s)
  case Nil
  then show ?case by simp
next
  case (Cons x xs)
  show ?case
  proof (cases "x = c")
    case True
    then show ?thesis using Cons.IH by (cases "split_on c xs") simp_all
  next
    case False
    then show ?thesis using Cons.IH by (cases "split_on c xs") (simp_all add: py_join_Cons_Cons)
  qed
qed

lemma split_on_no_sep: "c \<notin> set s \<Longrightarrow> split_on c s = [s]"
  by (induction s) auto

lemma split_on_sep: "c \<notin> set w \<Longrightarrow> split_on c (w @ c # t) = w # split_on c t"
  by (induction w) auto

end
