(* ===== verification/Store.thy ===== *)
theory Store
  imports Prelude
begin

text \<open>
  The relational store behind the meeting routes (the MeetingRepository): one record per ORM
  model of \<open>src/backend/flask-service/src/models/\<close> with the columns the routes read or
  write, the tables as lists of rows in insertion order, the lookups the routes issue
  (\<open>Meeting.query.get\<close>, \<open>filter_by(...).first()\<close>, \<open>count()\<close>), the commit with
  the integrity constraints of \<open>migrations/versions/initial_schema.py\<close>, and the error
  values every route returns.  Well-formedness of a store (distinct keys, one participant
  row per meeting and user, positive capacities, satisfied constraints) is \<open>wf_store\<close>.
\<close>

section \<open>Rows\<close>

datatype meeting_type = Regular | Recurring | Private

datatype pstatus = Pending | Approved | Declined

datatype prole = Host | CoHost | Attendee

datatype action =
    Created | Joined | ApprovedParticipant | RejectedParticipant
  | AddedCoHost | RemovedCoHost

text \<open>The JSON \<open>details\<close> column of an audit entry, one constructor per shape the routes
  write.  \<open>JoinedDetails r None\<close> is the \<open>'status': 'host'\<close> written when the joining
  user has no participant row.\<close>

datatype details =
    CreatedDetails meeting_type bool bool "string option"
  | JoinedDetails prole "pstatus option"
  | ParticipantDetails row_id
  | CoHostDetails user_id

record meeting =
  mtg_id :: nat
  title :: string
  description :: string
  start_time :: instant
  end_time :: instant
  created_by :: user_id
  mtg_created_at :: instant
  ended_at :: "instant option"
  mtg_type :: meeting_type
  max_participants :: "int option"
  requires_approval :: bool
  is_recorded :: bool
  recurring_pattern :: "string option"
  parent_meeting_id :: "nat option"

record participant =
  p_id :: row_id
  p_meeting :: nat
  p_user :: user_id
  status :: pstatus
  role :: prole
  joined_at :: "instant option"
  left_at :: "instant option"
  is_banned :: bool
  p_created_at :: instant

text \<open>The foreign keys of co-host and audit rows are \<open>option\<close>: Python may construct such a
  row with \<open>meeting_id=None\<close>, and only the commit rejects it (the column is NOT NULL).\<close>

record co_host =
  ch_meeting :: "nat option"
  ch_user :: user_id

record audit_entry =
  log_meeting :: "nat option"
  log_user :: user_id
  log_action :: action
  log_details :: details
  log_at :: instant

record store =
  users :: "user_id list"
  meetings :: "meeting list"
  participants :: "participant list"
  co_hosts :: "co_host list"
  audit_logs :: "audit_entry list"
  next_meeting_id :: nat

section \<open>Errors\<close>

text \<open>One constructor per error response of \<open>src/routes/meetings.py\<close>; \<open>status_code\<close>
  is the HTTP status the route returns with it.\<close>

datatype handler = CreateH | JoinH | DeleteH | EndH | AddCoHostH | RemoveCoHostH
  | WaitingRoomH | ApproveH | RejectH

datatype host_action = DeleteA | EndA | AddCoHostA | RemoveCoHostA

datatype reason =
    NoData | MissingFields | EmptyTitle | TitleTooLong | DescriptionTooLong
  | TimezoneRequired | InvalidDatetime | StartInPast | StartNotBeforeEnd
  | TooShort | TooLong | TooFarAhead | InvalidMeetingType | InvalidMaxParticipants
  | InvalidRecurringPattern | OverlappingMeeting | ActiveMeetingLimit
  | InvalidMeetingId | MeetingNotFound | MeetingEnded | NotStartedYet int
  | MeetingExpired | MeetingFull | UserBanned | InAnotherMeeting
  | AccessDenied | OnlyHost host_action | ParticipantNotFound | NotInWaitingRoom
  | NoUserId | UserNotFound | AlreadyCoHost | NotCoHost
  | ServerError handler

fun status_code :: "reason \<Rightarrow> nat" where
  "status_code MeetingNotFound = 404"
| "status_code ParticipantNotFound = 404"
| "status_code UserNotFound = 404"
| "status_code NotCoHost = 404"
| "status_code UserBanned = 403"
| "status_code AccessDenied = 403"
| "status_code (OnlyHost _) = 403"
| "status_code (ServerError _) = 500"
| "status_code _ = 400"

section \<open>Queries\<close>

text \<open>\<open>Meeting.query.get(id)\<close> and \<open>MeetingParticipant.query.get(id)\<close>: lookup by
  primary key.\<close>

definition meeting_get :: "store \<Rightarrow> nat \<Rightarrow> meeting option" where
  "meeting_get s i = find (\<lambda>m. mtg_id m = i) (meetings s)"

definition participant_get :: "store \<Rightarrow> row_id \<Rightarrow> participant option" where
  "participant_get s i = find (\<lambda>p. p_id p = i) (participants s)"

text \<open>\<open>MeetingParticipant.query.filter_by(meeting_id=m, user_id=u).first()\<close>.\<close>

definition participant_of :: "store \<Rightarrow> nat \<Rightarrow> user_id \<Rightarrow> participant option" where
  "participant_of s mid u = find (\<lambda>p. p_meeting p = mid \<and> p_user p = u) (participants s)"

text \<open>\<open>MeetingCoHost.query.filter_by(meeting_id=m, user_id=u).first()\<close> is not None.\<close>

definition is_co_host :: "store \<Rightarrow> nat \<Rightarrow> user_id \<Rightarrow> bool" where
  "is_co_host s mid u = list_ex (\<lambda>c. ch_meeting c = Some mid \<and> ch_user c = u) (co_hosts s)"

text \<open>A meeting row that exists and has no \<open>ended_at\<close>.\<close>

definition live :: "store \<Rightarrow> nat \<Rightarrow> bool" where
  "live s mid = (case meeting_get s mid of Some m \<Rightarrow> ended_at m = None | None \<Rightarrow> False)"

text \<open>The two capacity counts of the routes: join counts every row of the meeting with
  \<open>left_at = None\<close> (\<open>meetings.py\<close> lines 219-222), approval only the approved ones
  (lines 561-565).\<close>

definition count_present :: "store \<Rightarrow> nat \<Rightarrow> nat" where
  "count_present s mid = count_where (\<lambda>p. p_meeting p = mid \<and> left_at p = None) (participants s)"

definition count_approved :: "store \<Rightarrow> nat \<Rightarrow> nat" where
  "count_approved s mid =
     count_where (\<lambda>p. p_meeting p = mid \<and> left_at p = None \<and> status p = Approved) (participants s)"

text \<open>\<open>if meeting.max_participants and n >= meeting.max_participants\<close>: a limit of
  \<open>None\<close> or \<open>0\<close> is falsy and imposes nothing.\<close>

definition cap_reached :: "int option \<Rightarrow> nat \<Rightarrow> bool" where
  "cap_reached mx n = (case mx of None \<Rightarrow> False | Some k \<Rightarrow> k \<noteq> 0 \<and> int n \<ge> k)"

section \<open>Commit\<close>

text \<open>
  \<open>db.session.commit()\<close> flushes the session; the database rejects the flush when a
  NOT NULL foreign key is \<open>NULL\<close> (\<open>meeting_co_hosts.meeting_id\<close>,
  \<open>meeting_audit_logs.meeting_id\<close>) or when the unique constraint
  \<open>uq_meeting_co_hosts\<close> on \<open>(meeting_id, user_id)\<close> is violated.  A rejected flush raises
  \<open>IntegrityError\<close>: \<open>None\<close> here, and the route's \<open>except\<close> rolls back.
\<close>

definition integrity_ok :: "store \<Rightarrow> bool" where
  "integrity_ok s \<longleftrightarrow>
     list_all (\<lambda>c. ch_meeting c \<noteq> None) (co_hosts s)
   \<and> list_all (\<lambda>a. log_meeting a \<noteq> None) (audit_logs s)
   \<and> distinct (map (\<lambda>c. (ch_meeting c, ch_user c)) (co_hosts s))"

definition commit :: "store \<Rightarrow> store option" where
  "commit s = (if integrity_ok s then Some s else None)"

text \<open>\<open>utils/database.py\<close>: \<open>with_transaction\<close> runs a body on the session, commits
  on success, rolls back (returns to the last committed store) and re-raises on failure.\<close>

definition with_transaction ::
  "(store \<Rightarrow> ('e + 'a) \<times> store) \<Rightarrow> 'e \<Rightarrow> store \<Rightarrow> ('e + 'a) \<times> store" where
  "with_transaction f commit_err s =
     (case f s of
        (Inl e, _) \<Rightarrow> (Inl e, s)
      | (Inr r, s') \<Rightarrow> (case commit s' of None \<Rightarrow> (Inl commit_err, s) | Some s'' \<Rightarrow> (Inr r, s'')))"

section \<open>Row updates\<close>

definition update_participant :: "participant \<Rightarrow> store \<Rightarrow> store" where
  "update_participant r s = s\<lparr>participants := replace_by p_id r (participants s)\<rparr>"

definition add_log :: "audit_entry \<Rightarrow> store \<Rightarrow> store" where
  "add_log e s = s\<lparr>audit_logs := audit_logs s @ [e]\<rparr>"

section \<open>Well-formed stores\<close>

definition wf_store :: "store \<Rightarrow> bool" where
  "wf_store s \<longleftrightarrow>
     distinct (map mtg_id (meetings s))
   \<and> distinct (map p_id (participants s))
   \<and> distinct (map (\<lambda>p. (p_meeting p, p_user p)) (participants s))
   \<and> list_all (\<lambda>m. case max_participants m of None \<Rightarrow> True | Some k \<Rightarrow> 0 < k) (meetings s)
   \<and> integrity_ok s"

section \<open>Invariants of the store\<close>

text \<open>
  Capacity (spec section 3): in every meeting with a limit, the approved participants
  present never outnumber it.  Exclusivity: a participant row \<open>occupies\<close> its meeting
  when it has not left and the meeting is live; the rows of one user that occupy are all in
  one meeting.
\<close>

definition capacity_ok :: "store \<Rightarrow> bool" where
  "capacity_ok s \<longleftrightarrow>
     list_all (\<lambda>m. case max_participants m of
                     None \<Rightarrow> True
                   | Some k \<Rightarrow> int (count_approved s (mtg_id m)) \<le> k) (meetings s)"

definition occupies :: "store \<Rightarrow> participant \<Rightarrow> bool" where
  "occupies s p \<longleftrightarrow> left_at p = None \<and> live s (p_meeting p)"

definition exclusive :: "store \<Rightarrow> bool" where
  "exclusive s \<longleftrightarrow>
     (\<forall>p \<in> set (participants s). \<forall>q \<in> set (participants s).
        p_user p = p_user q \<and> occupies s p \<and> occupies s q \<longrightarrow> p_meeting p = p_meeting q)"

definition store_inv :: "store \<Rightarrow> bool" where
  "store_inv s \<longleftrightarrow> wf_store s \<and> capacity_ok s \<and> exclusive s"

section \<open>Lemmas on lookups\<close>

lemma meeting_get_Some [store_simps]:
  "meeting_get s i = Some m \<Longrightarrow> m \<in> set (meetings s) \<and> mtg_id m = i"
  by (auto simp: meeting_get_def find_Some_iff nth_mem)

lemma meeting_get_in_wf:
  "distinct (map mtg_id (meetings s)) \<Longrightarrow> m \<in> set (meetings s) \<Longrightarrow> meeting_get s (mtg_id m) = Some m"
  by (simp add: meeting_get_def find_key_distinct)

lemma participant_get_Some [store_simps]:
  "participant_get s i = Some p \<Longrightarrow> p \<in> set (participants s) \<and> p_id p = i"
  by (auto simp: participant_get_def find_Some_iff nth_mem)

lemma participant_of_Some [store_simps]:
  "participant_of s mid u = Some p \<Longrightarrow> p \<in> set (participants s) \<and> p_meeting p = mid \<and> p_user p = u"
  by (auto simp: participant_of_def find_Some_iff nth_mem)

lemma participant_of_None [store_simps]:
  "participant_of s mid u = None \<longleftrightarrow> (\<forall>p \<in> set (participants s). \<not> (p_meeting p = mid \<and> p_user p = u))"
  by (auto simp: participant_of_def find_None_iff)

lemma commit_Some_iff [store_simps]: "commit s = Some s' \<longleftrightarrow> integrity_ok s \<and> s' = s"
  by (auto simp: commit_def)

lemma commit_None_iff [store_simps]: "commit s = None \<longleftrightarrow> \<not> integrity_ok s"
  by (simp add: commit_def)

section \<open>Lemmas on row updates\<close>

lemma update_participant_fields [simp, store_simps]:
  "meetings (update_participant r s) = meetings s"
  "co_hosts (update_participant r s) = co_hosts s"
  "audit_logs (update_participant r s) = audit_logs s"
  "users (update_participant r s) = users s"
  "participants (update_participant r s) = replace_by p_id r (participants s)"
  by (simp_all add: update_participant_def)

lemma add_log_fields [simp, store_simps]:
  "meetings (add_log e s) = meetings s"
  "co_hosts (add_log e s) = co_hosts s"
  "participants (add_log e s) = participants s"
  "users (add_log e s) = users s"
  "audit_logs (add_log e s) = audit_logs s @ [e]"
  by (simp_all add: add_log_def)

lemma meeting_get_cong:
  "meetings s' = meetings s \<Longrightarrow> meeting_get s' i = meeting_get s i"
  by (simp add: meeting_get_def)

lemma live_cong: "meetings s' = meetings s \<Longrightarrow> live s' i = live s i"
  by (simp add: live_def meeting_get_def)

lemma is_co_host_cong: "co_hosts s' = co_hosts s \<Longrightarrow> is_co_host s' i u = is_co_host s i u"
  by (simp add: is_co_host_def)

lemma integrity_ok_update_participant [simp]:
  "integrity_ok (update_participant r s) = integrity_ok s"
  by (simp add: integrity_ok_def)

lemma integrity_ok_add_log [simp]:
  "integrity_ok (add_log e s) \<longleftrightarrow> integrity_ok s \<and> log_meeting e \<noteq> None"
  by (auto simp: integrity_ok_def)

text \<open>An in-place update of a row that keeps its meeting and user keeps the store
  well-formed, and so does appending an audit entry with a meeting id.\<close>

lemma wf_update_participant:
  assumes "wf_store s" and "r \<in> set (participants s)" and "p_id r' = p_id r"
    and "p_meeting r' = p_meeting r" and "p_user r' = p_user r"
  shows "wf_store (update_participant r' s)"
proof -
  have "map (\<lambda>p. (p_meeting p, p_user p)) (replace_by p_id r' (participants s))
        = map (\<lambda>p. (p_meeting p, p_user p)) (participants s)"
  proof (rule map_replace_by_same)
    fix q assume "q \<in> set (participants s)" and "p_id q = p_id r'"
    with assms have "q = r" by (auto simp: wf_store_def dest: inj_on_map_eq_map[THEN iffD1] distinct_map[THEN iffD1] inj_onD)
    with assms(4,5) show "(p_meeting q, p_user q) = (p_meeting r', p_user r')" by simp
  qed
  with assms(1) show ?thesis by (simp add: wf_store_def)
qed

lemma wf_add_log:
  "wf_store s \<Longrightarrow> log_meeting e \<noteq> None \<Longrightarrow> wf_store (add_log e s)"
  by (simp add: wf_store_def)

section \<open>Lemmas on the invariants\<close>

lemma live_update_participant [simp]: "live (update_participant r s) i = live s i"
  by (rule live_cong) simp
lemma live_add_log [simp]: "live (add_log e s) i = live s i"
  by (rule live_cong) simp
lemma meeting_get_update_participant [simp]: "meeting_get (update_participant r s) i = meeting_get s i"
  by (rule meeting_get_cong) simp
lemma meeting_get_add_log [simp]: "meeting_get (add_log e s) i = meeting_get s i"
  by (rule meeting_get_cong) simp

lemma count_approved_add_log [simp]: "count_approved (add_log e s) i = count_approved s i"
  by (simp add: count_approved_def)
lemma count_present_add_log [simp]: "count_present (add_log e s) i = count_present s i"
  by (simp add: count_present_def)

lemma capacity_ok_add_log [simp]: "capacity_ok (add_log e s) = capacity_ok s"
  unfolding capacity_ok_def by (simp only: add_log_fields count_approved_add_log)
lemma exclusive_add_log [simp]: "exclusive (add_log e s) = exclusive s"
  by (simp add: exclusive_def occupies_def)

lemma count_approved_update:
  assumes "distinct (map p_id (participants s))" and "r \<in> set (participants s)" and "p_id r' = p_id r"
  shows "count_approved (update_participant r' s) mid
           + (if p_meeting r = mid \<and> left_at r = None \<and> status r = Approved then 1 else 0)
         = count_approved s mid
           + (if p_meeting r' = mid \<and> left_at r' = None \<and> status r' = Approved then 1 else 0)"
  using count_replace_by[OF assms, of "\<lambda>p. p_meeting p = mid \<and> left_at p = None \<and> status p = Approved"]
  by (simp add: count_approved_def)

lemma capacity_update:
  assumes wf: "wf_store s" and cap: "capacity_ok s" and r: "r \<in> set (participants s)"
    and ids: "p_id r' = p_id r" "p_meeting r' = p_meeting r"
    and room: "\<And>m k. meeting_get s (p_meeting r) = Some m \<Longrightarrow> max_participants m = Some k
                 \<Longrightarrow> left_at r' = None \<Longrightarrow> status r' = Approved
                 \<Longrightarrow> \<not> (left_at r = None \<and> status r = Approved)
                 \<Longrightarrow> int (count_approved s (p_meeting r)) < k"
  shows "capacity_ok (update_participant r' s)"
  unfolding capacity_ok_def list_all_iff
proof (intro ballI)
  fix m assume m: "m \<in> set (meetings (update_participant r' s))"
  then have m_in: "m \<in> set (meetings s)" by simp
  from wf have dp: "distinct (map p_id (participants s))" and dm: "distinct (map mtg_id (meetings s))"
    by (simp_all add: wf_store_def)
  note eq = count_approved_update[OF dp r ids(1), of "mtg_id m"]
  from cap m_in have old: "case max_participants m of None \<Rightarrow> True | Some k \<Rightarrow> int (count_approved s (mtg_id m)) \<le> k"
    by (simp add: capacity_ok_def list_all_iff)
  show "case max_participants m of None \<Rightarrow> True
        | Some k \<Rightarrow> int (count_approved (update_participant r' s) (mtg_id m)) \<le> k"
  proof (cases "max_participants m")
    case None then show ?thesis by simp
  next
    case (Some k)
    show ?thesis
    proof (cases "p_meeting r' = mtg_id m \<and> left_at r' = None \<and> status r' = Approved
                  \<and> \<not> (left_at r = None \<and> status r = Approved)")
      case True
      with ids have "meeting_get s (p_meeting r) = Some m"
        using meeting_get_in_wf[OF dm m_in] by simp
      with True Some room have "int (count_approved s (p_meeting r)) < k" by blast
      with True ids eq Some show ?thesis by auto
    next
      case False
      with eq old Some ids show ?thesis by (auto split: if_splits)
    qed
  qed
qed

lemma cap_room:
  assumes "\<not> cap_reached (Some k) n" and "0 < k" and "c \<le> n"
  shows "int c < k"
  using assms by (simp add: cap_reached_def)

lemma wf_max_pos:
  "wf_store s \<Longrightarrow> meeting_get s i = Some m \<Longrightarrow> max_participants m = Some k \<Longrightarrow> 0 < k"
  by (auto simp: wf_store_def list_all_iff dest!: meeting_get_Some)

lemma count_approved_le_present: "count_approved s i \<le> count_present s i"
  unfolding count_approved_def count_present_def by (rule count_where_mono) simp

lemma store_inv_add_log:
  "store_inv s \<Longrightarrow> log_meeting e \<noteq> None \<Longrightarrow> store_inv (add_log e s)"
  by (simp add: store_inv_def wf_add_log)

text \<open>Frame lemmas for the handlers that leave the meeting and participant tables alone
  (co-host changes, audit entries), and for those that only shrink them or end a meeting
  (deletion, ending): the invariant carries over table by table.\<close>

lemma store_inv_frame:
  assumes "store_inv s" and "meetings s' = meetings s" and "participants s' = participants s"
    and "integrity_ok s'"
  shows "store_inv s'"
proof -
  have "\<And>i. live s' i = live s i" by (rule live_cong[OF assms(2)])
  moreover have "\<And>i. count_approved s' i = count_approved s i"
    using assms(3) by (simp add: count_approved_def)
  ultimately have "capacity_ok s' = capacity_ok s" and "exclusive s' = exclusive s"
    unfolding capacity_ok_def exclusive_def occupies_def by (simp_all only: assms(2,3))
  with assms show ?thesis
    by (simp add: store_inv_def wf_store_def)
qed

lemma commit_frame:
  assumes "commit t = Some s'" and "store_inv s"
    and "meetings t = meetings s" and "participants t = participants s"
  shows "store_inv s'"
  using assms store_inv_frame[OF assms(2)] by (simp add: commit_def split: if_splits)

lemma capacity_shrink:
  assumes "capacity_ok s"
    and "\<And>x. x \<in> set (meetings s') \<Longrightarrow>
           \<exists>y \<in> set (meetings s). mtg_id x = mtg_id y \<and> max_participants x = max_participants y"
    and "\<And>j. count_approved s' j \<le> count_approved s j"
  shows "capacity_ok s'"
  unfolding capacity_ok_def list_all_iff
proof
  fix x assume "x \<in> set (meetings s')"
  with assms(2) obtain y where y: "y \<in> set (meetings s)" "mtg_id x = mtg_id y"
    "max_participants x = max_participants y" by blast
  with assms(1) have "case max_participants y of None \<Rightarrow> True
      | Some k \<Rightarrow> int (count_approved s (mtg_id y)) \<le> k"
    by (simp add: capacity_ok_def list_all_iff)
  with y assms(3)[of "mtg_id x"] show "case max_participants x of None \<Rightarrow> True
      | Some k \<Rightarrow> int (count_approved s' (mtg_id x)) \<le> k"
    by (auto split: option.splits)
qed

lemma exclusive_shrink:
  assumes "exclusive s" and "set (participants s') \<subseteq> set (participants s)"
    and "\<And>p. occupies s' p \<Longrightarrow> occupies s p"
  shows "exclusive s'"
  using assms unfolding exclusive_def by blast

end
