(* ===== verification/Admission.thy ===== *)
theory Admission
  imports Store
begin

text \<open>
  The admission engine of \<open>src/routes/meetings.py\<close>: \<open>join_meeting\<close> (lines 188-305),
  \<open>get_waiting_room\<close> (500-534), \<open>approve_participant\<close> (536-588) and
  \<open>reject_participant\<close> (590-631).  Each route takes the acting user (the
  \<open>current_user\<close> that \<open>token_required\<close> resolves), its URL arguments, the instant
  \<open>datetime.now(UTC)\<close> returns, and the committed store, and returns its response (an
  error \<open>reason\<close> or a success value) with the store after the request.  Every
  \<open>except Exception: db.session.rollback()\<close> is the return of the last committed store.
\<close>

section \<open>Join\<close>

text \<open>Lines 235-241: a participant row of the user, with \<open>left_at = None\<close>, in another
  meeting that exists and has not ended.\<close>

definition active_elsewhere :: "store \<Rightarrow> nat \<Rightarrow> user_id \<Rightarrow> bool" where
  "active_elsewhere s mid u =
     list_ex (\<lambda>p. p_user p = u \<and> live s (p_meeting p) \<and> p_meeting p \<noteq> mid \<and> left_at p = None)
       (participants s)"

text \<open>Lines 192-244: the checks before any write, in the order of the source.  On success
  they hand on the meeting, the user's participant row (if any) and the count of present
  participants that the response reports.  Lines 206 and 215 compare the aware
  \<open>datetime.now(UTC)\<close> with \<open>start_time\<close> and \<open>end_time\<close> as read back from
  their columns, which are naive: the comparison raises \<open>TypeError\<close>, and the
  \<open>except\<close> of lines 303-305 answers 500.\<close>

definition join_checks ::
  "user_id \<Rightarrow> int \<Rightarrow> instant \<Rightarrow> store \<Rightarrow> reason + (meeting \<times> participant option \<times> nat)" where
  "join_checks u i now s =
     (if i \<le> 0 then Inl InvalidMeetingId else
      case meeting_get s (nat i) of
        None \<Rightarrow> Inl MeetingNotFound
      | Some m \<Rightarrow>
          if ended_at m \<noteq> None then Inl MeetingEnded
          else (case dt_less (utc_now now) (db_value (start_time m)) of
            None \<Rightarrow> Inl (ServerError JoinH)
          | Some before \<Rightarrow>
          if before \<and> start_time m - now > seconds 300
          then Inl (NotStartedYet (py_round_div (start_time m - now) (seconds 60)))
          else (case dt_less (db_value (end_time m)) (utc_now now) of
            None \<Rightarrow> Inl (ServerError JoinH)
          | Some after \<Rightarrow>
          if after then Inl MeetingExpired
          else let n = count_present s (mtg_id m) in
          if cap_reached (max_participants m) n then Inl MeetingFull
          else let p = participant_of s (mtg_id m) u in
          if (case p of Some r \<Rightarrow> is_banned r | None \<Rightarrow> False) then Inl UserBanned
          else if active_elsewhere s (mtg_id m) u then Inl InAnotherMeeting
          else Inr (m, p, n))))"

text \<open>Lines 246-251: the role is derived at each join, never read from the row.\<close>

definition derive_role :: "store \<Rightarrow> meeting \<Rightarrow> user_id \<Rightarrow> prole" where
  "derive_role s m u =
     (if created_by m = u then Host
      else if is_co_host s (mtg_id m) u then CoHost
      else Attendee)"

text \<open>Lines 265-268: a returning participant's row is refreshed; its \<open>status\<close> is left
  as it was.\<close>

definition rejoin_row :: "meeting \<Rightarrow> instant \<Rightarrow> prole \<Rightarrow> participant \<Rightarrow> participant" where
  "rejoin_row m now rl r =
     r\<lparr>joined_at := (if requires_approval m then None else Some now), left_at := None, role := rl\<rparr>"

datatype join_response =
    Waiting
  | Admitted prole nat int \<comment> \<open>role, \<open>participant_count\<close>, \<open>time_remaining_minutes\<close>\<close>

text \<open>Lines 279-301: the \<open>joined\<close> audit entry, its commit, and the 200 response.  The
  entry records the status of the participant row, or \<open>'host'\<close> when there is none.\<close>

definition join_log :: "meeting \<Rightarrow> user_id \<Rightarrow> prole \<Rightarrow> participant option \<Rightarrow> instant \<Rightarrow> audit_entry" where
  "join_log m u rl p now =
     \<lparr>log_meeting = Some (mtg_id m), log_user = u, log_action = Joined,
      log_details = JoinedDetails rl (map_option status p), log_at = now\<rparr>"

definition join_finish ::
  "meeting \<Rightarrow> user_id \<Rightarrow> prole \<Rightarrow> participant option \<Rightarrow> nat \<Rightarrow> instant \<Rightarrow> store
   \<Rightarrow> (reason + join_response) \<times> store" where
  "join_finish m u rl p n now s =
     (case commit (add_log (join_log m u rl p now) s) of
        None \<Rightarrow> (Inl (ServerError JoinH), s)
      | Some s' \<Rightarrow> (Inr (Admitted rl n (py_round_div (end_time m - now) (seconds 60))), s'))"

text \<open>
  The whole route.  Past the clock check, a user who is not the creator and has no row
  yet would reach lines 256-262, which call \<open>MeetingParticipant(..., joined_at=...)\<close>; the model's
  \<open>__init__(self, meeting_id, user_id, status, role)\<close> takes no \<open>joined_at\<close>, so the
  call raises \<open>TypeError\<close> and the route answers 500 (lines 303-305) with nothing
  written.  A returning participant's row is committed first (line 270); the waiting
  response (lines 273-277) is returned without an audit entry.
\<close>

definition join_meeting ::
  "user_id \<Rightarrow> int \<Rightarrow> instant \<Rightarrow> store \<Rightarrow> (reason + join_response) \<times> store" where
  "join_meeting u i now s =
     (case join_checks u i now s of
        Inl e \<Rightarrow> (Inl e, s)
      | Inr (m, p, n) \<Rightarrow>
          (let rl = derive_role s m u in
           if created_by m \<noteq> u then
             (case p of
                None \<Rightarrow> (Inl (ServerError JoinH), s)
              | Some r \<Rightarrow>
                  (let r' = rejoin_row m now rl r in
                   case commit (update_participant r' s) of
                     None \<Rightarrow> (Inl (ServerError JoinH), s)
                   | Some s1 \<Rightarrow>
                       if requires_approval m \<and> status r' = Pending then (Inr Waiting, s1)
                       else join_finish m u rl (Some r') n now s1))
           else join_finish m u rl p n now s))"

section \<open>Waiting room, approval, rejection\<close>

text \<open>Lines 509-514, 545-550, 599-604: the creator or a co-host of the meeting.\<close>

definition can_moderate :: "store \<Rightarrow> meeting \<Rightarrow> user_id \<Rightarrow> bool" where
  "can_moderate s m u \<longleftrightarrow> created_by m = u \<or> is_co_host s (mtg_id m) u"

text \<open>Lines 500-534: the pending rows of the meeting, each with its user (the lookup
  \<open>User.query.get(p.user_id).to_dict()\<close> fails with 500 for a user that does not exist)
  and its creation time.\<close>

definition get_waiting_room ::
  "user_id \<Rightarrow> nat \<Rightarrow> store \<Rightarrow> reason + (row_id \<times> user_id \<times> instant) list" where
  "get_waiting_room u i s =
     (case meeting_get s i of
        None \<Rightarrow> Inl MeetingNotFound
      | Some m \<Rightarrow>
          if \<not> can_moderate s m u then Inl AccessDenied
          else let w = filter (\<lambda>p. p_meeting p = i \<and> status p = Pending) (participants s) in
          if list_all (\<lambda>p. p_user p \<in> set (users s)) w
          then Inr (map (\<lambda>p. (p_id p, p_user p, p_created_at p)) w)
          else Inl (ServerError WaitingRoomH))"

text \<open>Lines 540-558 and 594-612: the checks that approval and rejection share.\<close>

definition decision_checks :: "user_id \<Rightarrow> nat \<Rightarrow> row_id \<Rightarrow> store \<Rightarrow> reason + (meeting \<times> participant)" where
  "decision_checks u i pid s =
     (case meeting_get s i of
        None \<Rightarrow> Inl MeetingNotFound
      | Some m \<Rightarrow>
          if \<not> can_moderate s m u then Inl AccessDenied
          else case participant_get s pid of
            None \<Rightarrow> Inl ParticipantNotFound
          | Some p \<Rightarrow>
              if p_meeting p \<noteq> i then Inl ParticipantNotFound
              else if status p \<noteq> Pending then Inl NotInWaitingRoom
              else Inr (m, p))"

definition decision_log :: "nat \<Rightarrow> user_id \<Rightarrow> action \<Rightarrow> row_id \<Rightarrow> instant \<Rightarrow> audit_entry" where
  "decision_log i u a pid now =
     \<lparr>log_meeting = Some i, log_user = u, log_action = a,
      log_details = ParticipantDetails pid, log_at = now\<rparr>"

text \<open>Lines 536-588: approval re-checks capacity against the approved rows present now.\<close>

definition approve_participant ::
  "user_id \<Rightarrow> nat \<Rightarrow> row_id \<Rightarrow> instant \<Rightarrow> store \<Rightarrow> (reason + unit) \<times> store" where
  "approve_participant u i pid now s =
     (case decision_checks u i pid s of
        Inl e \<Rightarrow> (Inl e, s)
      | Inr (m, p) \<Rightarrow>
          if cap_reached (max_participants m) (count_approved s i) then (Inl MeetingFull, s)
          else
            (case commit (add_log (decision_log i u ApprovedParticipant pid now)
                            (update_participant (p\<lparr>status := Approved, joined_at := Some now\<rparr>) s)) of
               None \<Rightarrow> (Inl (ServerError ApproveH), s)
             | Some s' \<Rightarrow> (Inr (), s')))"

text \<open>Lines 590-631.\<close>

definition reject_participant ::
  "user_id \<Rightarrow> nat \<Rightarrow> row_id \<Rightarrow> instant \<Rightarrow> store \<Rightarrow> (reason + unit) \<times> store" where
  "reject_participant u i pid now s =
     (case decision_checks u i pid s of
        Inl e \<Rightarrow> (Inl e, s)
      | Inr (m, p) \<Rightarrow>
          (case commit (add_log (decision_log i u RejectedParticipant pid now)
                          (update_participant (p\<lparr>status := Declined\<rparr>) s)) of
             None \<Rightarrow> (Inl (ServerError RejectH), s)
           | Some s' \<Rightarrow> (Inr (), s')))"

section \<open>Example store\<close>

text \<open>A store with three meetings of user 1, used by the witnesses: meeting 1 starts in ten
  minutes, needs approval and admits one participant, and has two queued users; meeting 2
  is open, with a declined user (4) and a banned user (5) who have left; meeting 3 needs
  approval and has a pending user (6) who has left.\<close>

definition demo_meeting :: "nat \<Rightarrow> instant \<Rightarrow> bool \<Rightarrow> int option \<Rightarrow> meeting" where
  "demo_meeting i st appr mx =
     \<lparr>mtg_id = i, title = ''Standup'', description = '''', start_time = st,
      end_time = st + seconds 3600, created_by = 1, mtg_created_at = 0, ended_at = None,
      mtg_type = Regular, max_participants = mx, requires_approval = appr, is_recorded = False,
      recurring_pattern = None, parent_meeting_id = None\<rparr>"

definition demo_row :: "row_id \<Rightarrow> nat \<Rightarrow> user_id \<Rightarrow> pstatus \<Rightarrow> instant option \<Rightarrow> bool \<Rightarrow> participant" where
  "demo_row i mid u st lft ban =
     \<lparr>p_id = i, p_meeting = mid, p_user = u, status = st, role = Attendee, joined_at = None,
      left_at = lft, is_banned = ban, p_created_at = 0\<rparr>"

definition demo_store :: store where
  "demo_store =
     \<lparr>users = [1, 2, 3, 4, 5, 6],
      meetings = [demo_meeting 1 (seconds 600) True (Some 1), demo_meeting 2 0 False None,
                  demo_meeting 3 0 True None],
      participants = [demo_row 10 1 2 Pending None False, demo_row 11 1 3 Pending None False,
                      demo_row 12 2 4 Declined (Some 0) False, demo_row 13 2 5 Approved (Some 0) True,
                      demo_row 14 3 6 Pending (Some 0) False],
      co_hosts = [], audit_logs = [], next_meeting_id = 4\<rparr>"

section \<open>Lemmas\<close>

lemmas demo_defs = demo_store_def demo_meeting_def demo_row_def

lemma exclusive_update:
  assumes ex: "exclusive s" and wf: "wf_store s" and r: "r \<in> set (participants s)"
    and ids: "p_id r' = p_id r" "p_meeting r' = p_meeting r" "p_user r' = p_user r"
    and new: "left_at r' = None \<Longrightarrow> left_at r = None \<or> \<not> active_elsewhere s (p_meeting r) (p_user r)"
  shows "exclusive (update_participant r' s)"
  unfolding exclusive_def
proof (intro ballI impI)
  let ?s' = "update_participant r' s"
  have occ: "\<And>q. occupies ?s' q = occupies s q" by (simp add: occupies_def)
  have sub: "set (participants ?s') \<subseteq> insert r' (set (participants s))"
    by (simp add: set_replace_by_subset)
  have old: "\<And>p q. p \<in> set (participants s) \<Longrightarrow> q \<in> set (participants s) \<Longrightarrow> p_user p = p_user q
              \<Longrightarrow> occupies s p \<Longrightarrow> occupies s q \<Longrightarrow> p_meeting p = p_meeting q"
    using ex unfolding exclusive_def by blast
  have new': "\<And>q. q \<in> set (participants s) \<Longrightarrow> p_user q = p_user r' \<Longrightarrow> occupies s r'
              \<Longrightarrow> occupies s q \<Longrightarrow> p_meeting q = p_meeting r'"
  proof -
    fix q assume q: "q \<in> set (participants s)" "p_user q = p_user r'" "occupies s r'" "occupies s q"
    from q(3) have "left_at r' = None" by (simp add: occupies_def)
    from new[OF this] show "p_meeting q = p_meeting r'"
    proof
      assume "left_at r = None"
      with q(3) ids have "occupies s r" by (simp add: occupies_def)
      with old[OF q(1) r] q(2,4) ids show ?thesis by simp
    next
      assume na: "\<not> active_elsewhere s (p_meeting r) (p_user r)"
      show ?thesis
      proof (rule ccontr)
        assume "p_meeting q \<noteq> p_meeting r'"
        with q ids have "active_elsewhere s (p_meeting r) (p_user r)"
          unfolding active_elsewhere_def list_ex_iff occupies_def by auto
        with na show False by simp
      qed
    qed
  qed
  fix p q assume p: "p \<in> set (participants ?s')" and q: "q \<in> set (participants ?s')"
    and h: "p_user p = p_user q \<and> occupies ?s' p \<and> occupies ?s' q"
  from p sub have p': "p = r' \<or> p \<in> set (participants s)" by auto
  from q sub have q': "q = r' \<or> q \<in> set (participants s)" by auto
  from h occ have hu: "p_user p = p_user q" and hp: "occupies s p" and hq: "occupies s q"
    by simp_all
  show "p_meeting p = p_meeting q"
  proof (cases "p = r'")
    case True
    show ?thesis
    proof (cases "q = r'")
      case True
      with \<open>p = r'\<close> show ?thesis by simp
    next
      case False
      with q' have "q \<in> set (participants s)" by simp
      from new'[OF this] hu hp hq \<open>p = r'\<close> show ?thesis by simp
    qed
  next
    case False
    with p' have pin: "p \<in> set (participants s)" by simp
    show ?thesis
    proof (cases "q = r'")
      case True
      from new'[OF pin] hu hp hq True show ?thesis by simp
    next
      case False
      with q' have "q \<in> set (participants s)" by simp
      from old[OF pin this hu hp hq] show ?thesis .
    qed
  qed
qed

text \<open>No join gets past the clock check of line 206: the checks answer an error for
  every request, and the route writes nothing.\<close>

lemma join_checks_error:
  "join_checks u i now s =
     Inl (if i \<le> 0 then InvalidMeetingId
          else case meeting_get s (nat i) of
            None \<Rightarrow> MeetingNotFound
          | Some m \<Rightarrow> if ended_at m \<noteq> None then MeetingEnded else ServerError JoinH)"
  by (cases "meeting_get s (nat i)") (simp_all add: join_checks_def)

lemma join_meeting_Inl_eq:
  "join_meeting u i now s = (Inl (projl (join_checks u i now s)), s)"
  by (simp add: join_meeting_def join_checks_error)

lemma join_meeting_store [simp]: "snd (join_meeting u i now s) = s"
  by (simp add: join_meeting_Inl_eq)

lemma decision_checks_Inr:
  "decision_checks u i pid s = Inr (m, p) \<longleftrightarrow>
     meeting_get s i = Some m \<and> can_moderate s m u \<and> participant_get s pid = Some p
   \<and> p_meeting p = i \<and> status p = Pending"
  by (auto simp: decision_checks_def split: option.splits if_splits)

lemma decision_inv:
  assumes inv: "store_inv s" and chk: "decision_checks u i pid s = Inr (m, p)"
    and room: "status p' = Approved \<Longrightarrow> \<not> cap_reached (max_participants m) (count_approved s i)"
    and keys: "p_id p' = p_id p" "p_meeting p' = p_meeting p" "p_user p' = p_user p"
      "left_at p' = left_at p"
  shows "store_inv (update_participant p' s)"
proof -
  from inv have wf: "wf_store s" and cap: "capacity_ok s" and ex: "exclusive s"
    by (simp_all add: store_inv_def)
  from chk have mg: "meeting_get s i = Some m" and pg: "participant_get s pid = Some p"
    and pm: "p_meeting p = i" and pend: "status p = Pending"
    by (simp_all add: decision_checks_Inr)
  from pg have r: "p \<in> set (participants s)" by (simp add: participant_get_Some)
  have "wf_store (update_participant p' s)"
    by (rule wf_update_participant[OF wf r]) (simp_all add: keys)
  moreover have "capacity_ok (update_participant p' s)"
  proof (rule capacity_update[OF wf cap r])
    fix m' k
    assume m': "meeting_get s (p_meeting p) = Some m'" and k: "max_participants m' = Some k"
      and "status p' = Approved"
    with mg pm have "m' = m" by simp
    with wf m' k have "0 < k" by (blast intro: wf_max_pos)
    moreover from room \<open>status p' = Approved\<close> k \<open>m' = m\<close> have "\<not> cap_reached (Some k) (count_approved s (p_meeting p))"
      by (simp add: pm)
    ultimately show "int (count_approved s (p_meeting p)) < k"
      using cap_room by blast
  qed (simp_all add: keys)
  moreover have "exclusive (update_participant p' s)"
    by (rule exclusive_update[OF ex wf r]) (simp_all add: keys)
  ultimately show ?thesis by (simp add: store_inv_def)
qed

lemma join_log_meeting [simp]: "log_meeting (join_log m u rl p now) = Some (mtg_id m)"
  by (simp add: join_log_def)

lemma decision_log_meeting [simp]: "log_meeting (decision_log i u a pid now) = Some i"
  by (simp add: decision_log_def)

lemma join_meeting_inv: "store_inv s \<Longrightarrow> store_inv (snd (join_meeting u i now s))"
  by simp

lemma demo_inv: "store_inv demo_store"
  by (simp add: store_inv_def wf_store_def capacity_ok_def exclusive_def occupies_def live_def
      meeting_get_def count_approved_def integrity_ok_def demo_defs)

lemmas eval_simps = join_meeting_def join_checks_def meeting_get_def count_present_def cap_reached_def
      participant_of_def active_elsewhere_def derive_role_def is_co_host_def rejoin_row_def commit_def
      integrity_ok_def update_participant_def replace_by_def join_finish_def add_log_def join_log_def
      py_round_div_def live_def participant_get_def decision_checks_def can_moderate_def
      approve_participant_def reject_participant_def decision_log_def count_approved_def

text \<open>C3. What the join route answers on every request: a non-positive id is refused, an
  unknown meeting is not found, an ended meeting is refused as ended, and the join of
  any other meeting answers 500, because line 206 compares the aware current time with
  the naive start_time read from the database and raises TypeError; no request to the
  route changes the store.\<close>

theorem join_meeting_result:
  "join_meeting u i now s =
     (Inl (if i \<le> 0 then InvalidMeetingId
           else case meeting_get s (nat i) of
             None \<Rightarrow> MeetingNotFound
           | Some m \<Rightarrow> if ended_at m \<noteq> None then MeetingEnded else ServerError JoinH), s)"
  by (cases "meeting_get s (nat i)") (simp_all add: join_meeting_def join_checks_def)

lemma approve_participant_Inl:
  "approve_participant u i pid now s = (Inl e, s') \<Longrightarrow> s' = s"
  by (auto simp: approve_participant_def split: sum.splits prod.splits if_splits option.splits)

lemma approve_participant_Inr:
  "approve_participant u i pid now s = (Inr x, s') \<Longrightarrow>
     \<exists>m p. decision_checks u i pid s = Inr (m, p)
       \<and> \<not> cap_reached (max_participants m) (count_approved s i) \<and> integrity_ok s
       \<and> s' = add_log (decision_log i u ApprovedParticipant pid now)
                (update_participant (p\<lparr>status := Approved, joined_at := Some now\<rparr>) s)"
  by (auto simp: approve_participant_def commit_def split: sum.splits prod.splits if_splits)

lemma approve_participant_inv:
  assumes "store_inv s"
  shows "store_inv (snd (approve_participant u i pid now s))"
proof (cases "approve_participant u i pid now s")
  case (Pair res s')
  show ?thesis
  proof (cases res)
    case (Inl e)
    with Pair assms approve_participant_Inl show ?thesis by fastforce
  next
    case (Inr x)
    with Pair obtain m p where chk: "decision_checks u i pid s = Inr (m, p)"
      and room: "\<not> cap_reached (max_participants m) (count_approved s i)"
      and s': "s' = add_log (decision_log i u ApprovedParticipant pid now)
                (update_participant (p\<lparr>status := Approved, joined_at := Some now\<rparr>) s)"
      using approve_participant_Inr by blast
    have "store_inv (update_participant (p\<lparr>status := Approved, joined_at := Some now\<rparr>) s)"
      by (rule decision_inv[OF assms chk]) (simp_all add: room)
    with Pair s' show ?thesis by (simp add: store_inv_add_log)
  qed
qed

lemma reject_participant_Inl:
  "reject_participant u i pid now s = (Inl e, s') \<Longrightarrow> s' = s"
  by (auto simp: reject_participant_def split: sum.splits prod.splits if_splits option.splits)

lemma reject_participant_Inr:
  "reject_participant u i pid now s = (Inr x, s') \<Longrightarrow>
     \<exists>m p. decision_checks u i pid s = Inr (m, p) \<and> integrity_ok s
       \<and> s' = add_log (decision_log i u RejectedParticipant pid now)
                (update_participant (p\<lparr>status := Declined\<rparr>) s)"
  by (auto simp: reject_participant_def commit_def split: sum.splits prod.splits if_splits)

lemma reject_participant_inv:
  assumes "store_inv s"
  shows "store_inv (snd (reject_participant u i pid now s))"
proof (cases "reject_participant u i pid now s")
  case (Pair res s')
  show ?thesis
  proof (cases res)
    case (Inl e)
    with Pair assms reject_participant_Inl show ?thesis by fastforce
  next
    case (Inr x)
    with Pair obtain m p where chk: "decision_checks u i pid s = Inr (m, p)"
      and s': "s' = add_log (decision_log i u RejectedParticipant pid now)
                (update_participant (p\<lparr>status := Declined\<rparr>) s)"
      using reject_participant_Inr by blast
    have "store_inv (update_participant (p\<lparr>status := Declined\<rparr>) s)"
      by (rule decision_inv[OF assms chk]) simp_all
    with Pair s' show ?thesis by (simp add: store_inv_add_log)
  qed
qed

text \<open>C6. An approval succeeds only when the acting user is the creator or a co-host, the
  row belongs to the meeting and is pending, and the approved participants present are
  below the limit; it then approves the row, stamps joined_at and appends one audit
  entry.\<close>

theorem approve_success:
  assumes "approve_participant u i pid now s = (Inr x, s')"
  shows "\<exists>m p. meeting_get s i = Some m \<and> can_moderate s m u \<and> participant_get s pid = Some p
     \<and> p_meeting p = i \<and> status p = Pending
     \<and> \<not> cap_reached (max_participants m) (count_approved s i)
     \<and> s' = add_log (decision_log i u ApprovedParticipant pid now)
             (update_participant (p\<lparr>status := Approved, joined_at := Some now\<rparr>) s)"
  using approve_participant_Inr[OF assms] by (auto simp: decision_checks_Inr)

text \<open>C7. An approval of a pending participant of a meeting with a positive limit is refused
  as full exactly when the approved participants present number at least the limit,
  and a refused approval writes nothing.\<close>

theorem approve_full_rejected:
  assumes "decision_checks u i pid s = Inr (m, p)" and "max_participants m = Some k" and "0 < k"
  shows "(fst (approve_participant u i pid now s) = Inl MeetingFull \<longleftrightarrow> k \<le> int (count_approved s i))
     \<and> (k \<le> int (count_approved s i) \<longrightarrow> snd (approve_participant u i pid now s) = s)"
  using assms by (auto simp: approve_participant_def cap_reached_def split: option.split)

text \<open>The waiting-room scenario: meeting 1 admits one participant and has users 2 and 3
  queued; the host approves user 2, and then user 3's approval is refused as full.\<close>

theorem approve_full_rejected_witness:
  "fst (approve_participant 1 1 10 (seconds 300) demo_store) = Inr ()
   \<and> fst (approve_participant 1 1 11 (seconds 310) (snd (approve_participant 1 1 10 (seconds 300) demo_store)))
       = Inl MeetingFull
   \<and> snd (approve_participant 1 1 11 (seconds 310) (snd (approve_participant 1 1 10 (seconds 300) demo_store)))
       = snd (approve_participant 1 1 10 (seconds 300) demo_store)"
proof -
  let ?s1 = "snd (approve_participant 1 1 10 (seconds 300) demo_store)"
  have a: "fst (approve_participant 1 1 10 (seconds 300) demo_store) = Inr ()"
    by (simp add: eval_simps demo_defs)
  have c: "decision_checks 1 1 11 ?s1 = Inr (demo_meeting 1 (seconds 600) True (Some 1), demo_row 11 1 3 Pending None False)"
    by (simp add: eval_simps demo_defs)
  have k: "max_participants (demo_meeting 1 (seconds 600) True (Some 1)) = Some 1"
    by (simp add: demo_meeting_def)
  have f: "1 \<le> int (count_approved ?s1 1)"
    by (simp add: eval_simps demo_defs)
  from approve_full_rejected[OF c k, of "seconds 310"] a f show ?thesis by simp
qed

theorem approve_success_witness:
  "approve_participant 1 1 10 (seconds 300) demo_store = (Inr (), snd (approve_participant 1 1 10 (seconds 300) demo_store))
   \<and> status (demo_row 10 1 2 Pending None False) = Pending"
proof -
  have a: "approve_participant 1 1 10 (seconds 300) demo_store = (Inr (), snd (approve_participant 1 1 10 (seconds 300) demo_store))"
    by (simp add: eval_simps demo_defs)
  from approve_success[OF a] have "\<exists>m p. participant_get demo_store 10 = Some p \<and> status p = Pending" by blast
  with a show ?thesis by (simp add: demo_row_def)
qed

lemma decision_Inl_store:
  "fst (approve_participant u i p now s) = Inl e \<Longrightarrow> snd (approve_participant u i p now s) = s"
  "fst (reject_participant u i p now s) = Inl e \<Longrightarrow> snd (reject_participant u i p now s) = s"
  by (metis approve_participant_Inl prod.collapse, metis reject_participant_Inl prod.collapse)


section \<open>Rejection of a queued participant\<close>

text \<open>The creator or a co-host can always reject a pending row of the meeting: every
  check of \<open>decision_checks\<close> passes and the commit cannot fail.\<close>

lemma reject_pending:
  assumes inv: "store_inv s" and mg: "meeting_get s i = Some m" and md: "can_moderate s m u"
    and p: "p \<in> set (participants s)" "p_meeting p = i" "status p = Pending"
  shows "reject_participant u i (p_id p) now s =
     (Inr (), add_log (decision_log i u RejectedParticipant (p_id p) now) (update_participant (p\<lparr>status := Declined\<rparr>) s))"
proof -
  from inv have wf: "wf_store s" by (simp add: store_inv_def)
  then have "participant_get s (p_id p) = Some p"
    using p(1) by (simp add: wf_store_def participant_get_def find_key_distinct)
  with mg md p(2,3) have "decision_checks u i (p_id p) s = Inr (m, p)" by (simp add: decision_checks_Inr)
  moreover from wf have "integrity_ok s" by (simp add: wf_store_def)
  ultimately show ?thesis by (simp add: reject_participant_def commit_def decision_log_def)
qed

end
