(* ===== verification/Lifecycle.thy ===== *)
theory Lifecycle
  imports Admission
begin

text \<open>
  The meeting lifecycle of \<open>src/routes/meetings.py\<close>: \<open>create_meeting\<close> (lines
  43-186), \<open>delete_meeting\<close> (367-386) and \<open>end_meeting\<close> (388-407); the co-host
  routes are in \<open>CoHosts\<close>, the reads in \<open>Queries\<close>.  As in \<open>Admission\<close>, a route takes the acting user,
  its arguments, the current instant and the committed store, and returns its response with
  the store after the request; a failing commit or any exception is the 500 answer with
  the last committed store.  The JSON body of \<open>create_meeting\<close> is a
  \<open>create_request\<close>, its absent or empty body \<open>None\<close>; \<open>bleach.clean\<close> is the
  parameter \<open>clean\<close>.
\<close>

section \<open>Request values\<close>

text \<open>The JSON values \<open>max_participants\<close> may hold: \<open>isinstance(x, int)\<close> holds for
  integers and for booleans (\<open>bool\<close> is a subclass of \<open>int\<close>), and any other value
  (string, float, list, object) is \<open>JOther\<close>.\<close>

datatype json = JNull | JBool bool | JInt int | JOther

text \<open>\<open>datetime.fromisoformat\<close> on a request string: an instant with or without
  \<open>tzinfo\<close>, or a \<open>ValueError\<close>.\<close>

datatype ts_input = TsAware instant | TsNaive instant | TsInvalid

record create_request =
  req_title :: "string option"
  req_description :: "string option"
  req_start :: "ts_input option"
  req_end :: "ts_input option"
  req_type :: "string option"
  req_max :: json
  req_approval :: bool
  req_recorded :: bool
  req_pattern :: "string option"
  req_co_hosts :: "user_id list"

section \<open>Create\<close>

definition ts_value :: "ts_input \<Rightarrow> (instant \<times> bool) option" where
  "ts_value x = (case x of TsAware t \<Rightarrow> Some (t, True) | TsNaive t \<Rightarrow> Some (t, False) | TsInvalid \<Rightarrow> None)"

text \<open>Lines 80-99: the time checks, in source order.\<close>

definition check_times :: "instant \<Rightarrow> instant \<Rightarrow> instant \<Rightarrow> reason option" where
  "check_times now st en =
     (if st < now then Some StartInPast
      else if st \<ge> en then Some StartNotBeforeEnd
      else if en - st < seconds 300 then Some TooShort
      else if en - st > seconds 86400 then Some TooLong
      else if td_days (st - now) > 365 then Some TooFarAhead
      else None)"

definition parse_meeting_type :: "string \<Rightarrow> meeting_type option" where
  "parse_meeting_type t =
     (if t = ''regular'' then Some Regular
      else if t = ''recurring'' then Some Recurring
      else if t = ''private'' then Some Private
      else None)"

text \<open>Lines 106-109; a boolean \<open>True\<close> is stored as the integer 1.\<close>

definition json_max :: "json \<Rightarrow> reason + int option" where
  "json_max j =
     (case j of
        JNull \<Rightarrow> Inr None
      | JInt n \<Rightarrow> if n \<le> 0 then Inl InvalidMaxParticipants else Inr (Some n)
      | JBool b \<Rightarrow> if b then Inr (Some 1) else Inl InvalidMaxParticipants
      | JOther \<Rightarrow> Inl InvalidMaxParticipants)"

definition valid_pattern :: "string option \<Rightarrow> bool" where
  "valid_pattern p = (case p of None \<Rightarrow> False | Some x \<Rightarrow> x \<in> set [''daily'', ''weekly'', ''monthly'', ''custom''])"

text \<open>Lines 101-119: type, limit and recurrence pattern.\<close>

definition check_settings :: "create_request \<Rightarrow> reason + (meeting_type \<times> int option \<times> string option)" where
  "check_settings r =
     (case parse_meeting_type (case req_type r of None \<Rightarrow> ''regular'' | Some x \<Rightarrow> x) of
        None \<Rightarrow> Inl InvalidMeetingType
      | Some ty \<Rightarrow>
          (case json_max (req_max r) of
             Inl e \<Rightarrow> Inl e
           | Inr mx \<Rightarrow>
               if ty = Recurring \<and> \<not> valid_pattern (req_pattern r) then Inl InvalidRecurringPattern
               else Inr (ty, mx, if ty = Recurring then req_pattern r else None)))"

text \<open>Lines 121-139: an active meeting of the creator whose interval meets the new one,
  and the number of the creator's active meetings.\<close>

definition has_overlap :: "store \<Rightarrow> user_id \<Rightarrow> instant \<Rightarrow> instant \<Rightarrow> bool" where
  "has_overlap s u st en =
     list_ex (\<lambda>m. created_by m = u \<and> ended_at m = None \<and> end_time m > st \<and> start_time m < en)
       (meetings s)"

definition active_count :: "store \<Rightarrow> user_id \<Rightarrow> nat" where
  "active_count s u = count_where (\<lambda>m. created_by m = u \<and> ended_at m = None) (meetings s)"

text \<open>Lines 48-152: all checks before the first write, and the meeting row of lines
  142-155; its id is the one the flush will assign.\<close>

definition create_validate ::
  "(string \<Rightarrow> string) \<Rightarrow> user_id \<Rightarrow> create_request option \<Rightarrow> instant \<Rightarrow> store
   \<Rightarrow> reason + (create_request \<times> meeting)" where
  "create_validate clean u d now s =
     (case d of
        None \<Rightarrow> Inl NoData
      | Some r \<Rightarrow>
          (case (req_title r, req_description r, req_start r, req_end r) of
             (Some t0, Some d0, Some st0, Some en0) \<Rightarrow>
               (let t = clean (py_strip t0); ds = clean (py_strip d0) in
                if t = [] then Inl EmptyTitle
                else if length t > 200 then Inl TitleTooLong
                else if length ds > 2000 then Inl DescriptionTooLong
                else
                  (case (ts_value st0, ts_value en0) of
                     (Some (st, a1), Some (en, a2)) \<Rightarrow>
                       if \<not> a1 \<or> \<not> a2 then Inl TimezoneRequired
                       else (case check_times now st en of
                         Some e \<Rightarrow> Inl e
                       | None \<Rightarrow>
                           (case check_settings r of
                              Inl e \<Rightarrow> Inl e
                            | Inr (ty, mx, pat) \<Rightarrow>
                                if has_overlap s u st en then Inl OverlappingMeeting
                                else if active_count s u \<ge> 50 then Inl ActiveMeetingLimit
                                else Inr (r,
                                  \<lparr>mtg_id = next_meeting_id s, title = t, description = ds,
                                   start_time = st, end_time = en, created_by = u,
                                   mtg_created_at = now, ended_at = None, mtg_type = ty,
                                   max_participants = mx, requires_approval = req_approval r,
                                   is_recorded = req_recorded r, recurring_pattern = pat,
                                   parent_meeting_id = None\<rparr>)))
                   | _ \<Rightarrow> Inl InvalidDatetime))
           | _ \<Rightarrow> Inl MissingFields))"

text \<open>
  Lines 157-180.  The co-host rows (163) and the audit entry (167-168) are built with
  \<open>meeting_id=meeting.id\<close> right after \<open>db.session.add(meeting)\<close>: no flush has
  happened yet, so \<open>meeting.id\<close> is still \<open>None\<close>.  The flush at the commit inserts
  the meeting with its new id, and the dependent rows with \<open>NULL\<close> meeting ids.
\<close>

definition create_rows :: "user_id \<Rightarrow> create_request \<Rightarrow> meeting \<Rightarrow> store \<Rightarrow> store" where
  "create_rows u r m s =
     (let unflushed_id = (None :: nat option) in
      s\<lparr>meetings := meetings s @ [m],
        next_meeting_id := Suc (next_meeting_id s),
        co_hosts := co_hosts s @ map (\<lambda>c. \<lparr>ch_meeting = unflushed_id, ch_user = c\<rparr>)
                                   (filter (\<lambda>c. c \<noteq> u) (req_co_hosts r)),
        audit_logs := audit_logs s @
          [\<lparr>log_meeting = unflushed_id, log_user = u, log_action = Created,
            log_details = CreatedDetails (mtg_type m) (requires_approval m) (is_recorded m)
                            (recurring_pattern m),
            log_at = mtg_created_at m\<rparr>]\<rparr>)"

definition create_meeting ::
  "(string \<Rightarrow> string) \<Rightarrow> user_id \<Rightarrow> create_request option \<Rightarrow> instant \<Rightarrow> store
   \<Rightarrow> (reason + meeting) \<times> store" where
  "create_meeting clean u d now s =
     (case create_validate clean u d now s of
        Inl e \<Rightarrow> (Inl e, s)
      | Inr (r, m) \<Rightarrow>
          (case commit (create_rows u r m s) of
             None \<Rightarrow> (Inl (ServerError CreateH), s)
           | Some s' \<Rightarrow> (Inr m, s')))"

section \<open>End and delete\<close>

definition update_meeting :: "meeting \<Rightarrow> store \<Rightarrow> store" where
  "update_meeting m s = s\<lparr>meetings := replace_by mtg_id m (meetings s)\<rparr>"

text \<open>Lines 388-407: no check that the meeting has already ended, and no audit entry.\<close>

definition end_meeting :: "user_id \<Rightarrow> nat \<Rightarrow> instant \<Rightarrow> store \<Rightarrow> (reason + unit) \<times> store" where
  "end_meeting u i now s =
     (case meeting_get s i of
        None \<Rightarrow> (Inl MeetingNotFound, s)
      | Some m \<Rightarrow>
          if created_by m \<noteq> u then (Inl (OnlyHost EndA), s)
          else (case commit (update_meeting (m\<lparr>ended_at := Some now\<rparr>) s) of
                  None \<Rightarrow> (Inl (ServerError EndH), s)
                | Some s' \<Rightarrow> (Inr (), s')))"

text \<open>
  Lines 379-380, \<open>db.session.delete(meeting)\<close> and the flush, with the relationships of
  \<open>models/meeting.py\<close>: \<open>participants\<close> and \<open>co_hosts\<close> cascade
  (\<open>all, delete-orphan\<close>) and are deleted; \<open>child_meetings\<close> and the
  \<open>audit_logs\<close> backref of \<open>MeetingAuditLog.meeting\<close> have the default cascade, so
  the unit of work sets the children's foreign keys to \<open>NULL\<close>.
\<close>

definition delete_rows :: "nat \<Rightarrow> store \<Rightarrow> store" where
  "delete_rows i s =
     s\<lparr>meetings := map (\<lambda>m. if parent_meeting_id m = Some i then m\<lparr>parent_meeting_id := None\<rparr> else m)
                     (filter (\<lambda>m. mtg_id m \<noteq> i) (meetings s)),
       participants := filter (\<lambda>p. p_meeting p \<noteq> i) (participants s),
       co_hosts := filter (\<lambda>c. ch_meeting c \<noteq> Some i) (co_hosts s),
       audit_logs := map (\<lambda>a. if log_meeting a = Some i then a\<lparr>log_meeting := None\<rparr> else a)
                       (audit_logs s)\<rparr>"

definition delete_meeting :: "user_id \<Rightarrow> nat \<Rightarrow> store \<Rightarrow> (reason + unit) \<times> store" where
  "delete_meeting u i s =
     (case meeting_get s i of
        None \<Rightarrow> (Inl MeetingNotFound, s)
      | Some m \<Rightarrow>
          if created_by m \<noteq> u then (Inl (OnlyHost DeleteA), s)
          else (case commit (delete_rows i s) of
                  None \<Rightarrow> (Inl (ServerError DeleteH), s)
                | Some s' \<Rightarrow> (Inr (), s')))"

section \<open>Example request\<close>

text \<open>A request of user 7 for an hour-long meeting, half an hour long, with a padded title, the
  boolean \<open>true\<close> as its limit and two co-hosts, one of whom is not a user.\<close>

definition demo_request :: create_request where
  "demo_request =
     \<lparr>req_title = Some '' Retro '', req_description = Some ''notes'',
      req_start = Some (TsAware (seconds 3600)), req_end = Some (TsAware (seconds 5400)),
      req_type = None, req_max = JBool True, req_approval = True, req_recorded = False,
      req_pattern = None, req_co_hosts = [2, 7]\<rparr>"

text \<open>An audit entry of meeting 2, as the host's join writes it.\<close>

definition demo_entry :: audit_entry where
  "demo_entry = \<lparr>log_meeting = Some 2, log_user = 1, log_action = Joined,
                  log_details = JoinedDetails Host None, log_at = 0\<rparr>"

section \<open>Create\<close>

lemma check_times_None:
  "check_times now st en = None \<longleftrightarrow>
     now \<le> st \<and> st < en \<and> seconds 300 \<le> en - st \<and> en - st \<le> seconds 86400 \<and> td_days (st - now) \<le> 365"
  by (auto simp: check_times_def)

lemma check_settings_Inr:
  "check_settings r = Inr (ty, mx, pat) \<Longrightarrow>
     (case mx of None \<Rightarrow> True | Some k \<Rightarrow> 0 < k)
   \<and> (ty = Recurring \<longrightarrow> pat = req_pattern r \<and> valid_pattern pat)
   \<and> (ty \<noteq> Recurring \<longrightarrow> pat = None)"
  by (auto simp: check_settings_def json_max_def split: option.splits sum.splits json.splits if_splits)

lemma valid_pattern_not_None: "valid_pattern p \<Longrightarrow> p \<noteq> None"
  by (cases p) (simp_all add: valid_pattern_def)

text \<open>The rows a successful validation would write never pass the commit: the audit entry
  of the new meeting has no meeting id.\<close>

lemma create_rows_not_ok: "\<not> integrity_ok (create_rows u r m s)"
  by (simp add: create_rows_def integrity_ok_def)

lemma create_meeting_store: "snd (create_meeting clean u d now s) = s"
  by (simp add: create_meeting_def commit_def create_rows_not_ok split: sum.split prod.split)

text \<open>C10. Creating a meeting never succeeds: whatever the request, the route answers an
  error and the store is unchanged.\<close>

theorem create_meeting_never_succeeds:
  "\<exists>e. create_meeting clean u d now s = (Inl e, s)"
  by (auto simp: create_meeting_def commit_def create_rows_not_ok split: sum.split)

text \<open>C15. The checks of meeting creation: a meeting row that passes them starts no earlier
  than now and before its end, lasts between five minutes and a day, starts at most a
  year ahead, has a non-empty title of at most 200 characters and a description of at
  most 2000, a positive limit if any, a recurrence pattern exactly for recurring
  meetings, and overlaps no active meeting of its creator, who has fewer than 50.\<close>

theorem create_validate_sound:
  assumes "create_validate clean u d now s = Inr (r, m)"
  shows "now \<le> start_time m \<and> start_time m < end_time m
     \<and> seconds 300 \<le> end_time m - start_time m \<and> end_time m - start_time m \<le> seconds 86400
     \<and> td_days (start_time m - now) \<le> 365
     \<and> title m \<noteq> [] \<and> length (title m) \<le> 200 \<and> length (description m) \<le> 2000
     \<and> created_by m = u \<and> ended_at m = None \<and> mtg_id m = next_meeting_id s
     \<and> (case max_participants m of None \<Rightarrow> True | Some k \<Rightarrow> 0 < k)
     \<and> (mtg_type m = Recurring \<longleftrightarrow> recurring_pattern m \<noteq> None)
     \<and> (mtg_type m = Recurring \<longrightarrow> valid_pattern (recurring_pattern m))
     \<and> \<not> has_overlap s u (start_time m) (end_time m) \<and> active_count s u < 50"
proof -
  from assms obtain t0 d0 st0 en0 st en ty mx pat where
      d: "d = Some r" and f: "req_title r = Some t0" "req_description r = Some d0"
      "req_start r = Some st0" "req_end r = Some en0"
    and ts: "ts_value st0 = Some (st, True)" "ts_value en0 = Some (en, True)"
    and tm: "check_times now st en = None" and cs: "check_settings r = Inr (ty, mx, pat)"
    and ov: "\<not> has_overlap s u st en" and ac: "\<not> active_count s u \<ge> 50"
    and t: "clean (py_strip t0) \<noteq> []" "\<not> length (clean (py_strip t0)) > 200"
      "\<not> length (clean (py_strip d0)) > 2000"
    and m: "m = \<lparr>mtg_id = next_meeting_id s, title = clean (py_strip t0),
                 description = clean (py_strip d0), start_time = st, end_time = en, created_by = u,
                 mtg_created_at = now, ended_at = None, mtg_type = ty, max_participants = mx,
                 requires_approval = req_approval r, is_recorded = req_recorded r,
                 recurring_pattern = pat, parent_meeting_id = None\<rparr>"
    by (auto simp: create_validate_def Let_def split: option.splits prod.splits if_splits sum.splits bool.splits)
  from check_settings_Inr[OF cs] have "mtg_type m = Recurring \<longleftrightarrow> recurring_pattern m \<noteq> None"
    using m valid_pattern_not_None by (cases "ty = Recurring") auto
  moreover have "mtg_type m = Recurring \<longrightarrow> valid_pattern (recurring_pattern m)"
    using check_settings_Inr[OF cs] m by auto
  moreover have "case max_participants m of None \<Rightarrow> True | Some k \<Rightarrow> 0 < k"
    using check_settings_Inr[OF cs] m by simp
  ultimately show ?thesis
    using tm ov ac t m by (simp add: check_times_None)
qed

theorem create_validate_sound_witness:
  "\<exists>m. create_validate (\<lambda>x. x) 7 (Some demo_request) 0 demo_store = Inr (demo_request, m)
     \<and> title m = ''Retro'' \<and> max_participants m = Some 1 \<and> seconds 300 \<le> end_time m - start_time m"
proof -
  have "\<exists>m. create_validate (\<lambda>x. x) 7 (Some demo_request) 0 demo_store = Inr (demo_request, m)
          \<and> title m = ''Retro'' \<and> max_participants m = Some 1"
    by (simp add: create_validate_def demo_request_def py_strip_def py_space_def ts_value_def
        check_times_def td_days_def day_usec_def check_settings_def parse_meeting_type_def json_max_def
        has_overlap_def active_count_def demo_defs Let_def)
  then obtain m where v: "create_validate (\<lambda>x. x) 7 (Some demo_request) 0 demo_store = Inr (demo_request, m)"
    and "title m = ''Retro''" "max_participants m = Some 1" by blast
  with create_validate_sound[OF v] show ?thesis by blast
qed

section \<open>End\<close>

lemma meeting_get_update_meeting:
  assumes "distinct (map mtg_id (meetings s))" and "m \<in> set (meetings s)" and "mtg_id m' = mtg_id m"
  shows "meeting_get (update_meeting m' s) j = (if j = mtg_id m' then Some m' else meeting_get s j)"
proof -
  from assms(2) obtain ys zs where ms: "meetings s = ys @ m # zs" by (meson split_list)
  with assms(1,3) have rep: "replace_by mtg_id m' (meetings s) = ys @ m' # zs"
    by (simp add: replace_by_split)
  from assms(1) ms have "\<forall>q \<in> set ys. mtg_id q \<noteq> mtg_id m" by (auto simp: image_iff)
  then have ys: "find (\<lambda>q. mtg_id q = mtg_id m) ys = None" by (simp add: find_None_iff)
  show ?thesis
  proof (cases "j = mtg_id m'")
    case True
    with ys assms(3) rep show ?thesis
      by (simp add: meeting_get_def update_meeting_def find_append_first)
  next
    case False
    with assms(3) rep ms show ?thesis
      by (simp add: meeting_get_def update_meeting_def find_append_first split: option.splits)
  qed
qed

lemma end_occupies:
  assumes dm: "distinct (map mtg_id (meetings s))" and m: "meeting_get s i = Some m"
    and occ: "occupies (update_meeting (m\<lparr>ended_at := Some now\<rparr>) s) p"
  shows "occupies s p"
proof -
  from m have "m \<in> set (meetings s)" and "mtg_id m = i" by (simp_all add: meeting_get_Some)
  with dm have "\<And>j. meeting_get (update_meeting (m\<lparr>ended_at := Some now\<rparr>) s) j
      = (if j = i then Some (m\<lparr>ended_at := Some now\<rparr>) else meeting_get s j)"
    using meeting_get_update_meeting[of s m "m\<lparr>ended_at := Some now\<rparr>"] by simp
  with occ show ?thesis by (auto simp: occupies_def live_def update_meeting_def split: if_splits)
qed

lemma end_meeting_inv:
  assumes inv: "store_inv s"
  shows "store_inv (snd (end_meeting u i now s))"
proof (cases "meeting_get s i")
  case None
  with inv show ?thesis by (simp add: end_meeting_def)
next
  case (Some m)
  let ?m' = "m\<lparr>ended_at := Some now\<rparr>" and ?s' = "update_meeting (m\<lparr>ended_at := Some now\<rparr>) s"
  from inv have wf: "wf_store s" and cap: "capacity_ok s" and ex: "exclusive s"
    by (simp_all add: store_inv_def)
  from Some have min: "m \<in> set (meetings s)" and mid: "mtg_id m = i" by (simp_all add: meeting_get_Some)
  from wf have dm: "distinct (map mtg_id (meetings s))" by (simp add: wf_store_def)
  have mg: "\<And>j. meeting_get ?s' j = (if j = i then Some ?m' else meeting_get s j)"
    using meeting_get_update_meeting[OF dm min, of ?m'] mid by simp
  have sub: "set (meetings ?s') \<subseteq> insert ?m' (set (meetings s))"
    by (simp add: update_meeting_def set_replace_by_subset)
  have ca: "\<And>j. count_approved ?s' j = count_approved s j"
    by (simp add: count_approved_def update_meeting_def)
  have "wf_store ?s'"
    using wf sub min by (auto simp: wf_store_def update_meeting_def integrity_ok_def list_all_iff)
  moreover have "capacity_ok ?s'"
  proof (rule capacity_shrink[OF cap])
    fix x assume "x \<in> set (meetings ?s')"
    with sub have "x = ?m' \<or> x \<in> set (meetings s)" by blast
    with min show "\<exists>y \<in> set (meetings s). mtg_id x = mtg_id y \<and> max_participants x = max_participants y"
      by auto
  qed (simp add: ca)
  moreover have "exclusive ?s'"
    using end_occupies[OF dm Some] by (intro exclusive_shrink[OF ex]) (simp_all add: update_meeting_def)
  ultimately have "store_inv ?s'" by (simp add: store_inv_def)
  then show ?thesis using Some inv by (auto simp: end_meeting_def commit_def)
qed

lemma end_meeting_logs: "audit_logs (snd (end_meeting u i now s)) = audit_logs s"
  by (auto simp: end_meeting_def commit_def update_meeting_def split: option.split)

lemma end_meeting_Inl_store:
  "fst (end_meeting u i now s) = Inl e \<Longrightarrow> snd (end_meeting u i now s) = s"
  by (auto simp: end_meeting_def commit_def split: option.splits if_splits)

text \<open>C13. The creator ends a meeting by stamping ended_at with the current instant, even
  when the meeting has already ended: a second end succeeds and overwrites the first
  end instant, and no audit entry is written.\<close>

theorem end_meeting_overwrites:
  assumes "meeting_get s i = Some m" and "created_by m = u" and "integrity_ok s"
  shows "end_meeting u i now s = (Inr (), update_meeting (m\<lparr>ended_at := Some now\<rparr>) s)"
  using assms by (simp add: end_meeting_def commit_def update_meeting_def integrity_ok_def)

theorem end_meeting_overwrites_witness:
  "let m = (demo_meeting 2 0 False None)\<lparr>ended_at := Some (seconds 60)\<rparr>;
       s = update_meeting m demo_store
   in meeting_get s 2 = Some m \<and> created_by m = 1 \<and> integrity_ok s
      \<and> end_meeting 1 2 (seconds 120) s = (Inr (), update_meeting (m\<lparr>ended_at := Some (seconds 120)\<rparr>) s)"
proof -
  define m where "m = (demo_meeting 2 0 False None)\<lparr>ended_at := Some (seconds 60)\<rparr>"
  define s where "s = update_meeting m demo_store"
  have g: "meeting_get s 2 = Some m" and c: "created_by m = 1" and ok: "integrity_ok s"
    by (simp_all add: m_def s_def update_meeting_def replace_by_def meeting_get_def
        integrity_ok_def demo_defs)
  show ?thesis
    using end_meeting_overwrites[OF g c ok, of "seconds 120"] g c ok
    by (simp add: Let_def m_def s_def)
qed

section \<open>Delete\<close>

lemma delete_rows_fields [simp]:
  "participants (delete_rows i s) = filter (\<lambda>p. p_meeting p \<noteq> i) (participants s)"
  "co_hosts (delete_rows i s) = filter (\<lambda>c. ch_meeting c \<noteq> Some i) (co_hosts s)"
  "users (delete_rows i s) = users s"
  by (simp_all add: delete_rows_def)

lemma delete_rows_meetings_eq:
  "meetings (delete_rows i s) =
     map (\<lambda>m. if parent_meeting_id m = Some i then m\<lparr>parent_meeting_id := None\<rparr> else m)
       (filter (\<lambda>m. mtg_id m \<noteq> i) (meetings s))"
  by (simp add: delete_rows_def)

lemma delete_rows_meetings:
  "x \<in> set (meetings (delete_rows i s)) \<longleftrightarrow>
     (\<exists>y \<in> set (meetings s). mtg_id y \<noteq> i \<and>
        x = (if parent_meeting_id y = Some i then y\<lparr>parent_meeting_id := None\<rparr> else y))"
  unfolding delete_rows_meetings_eq set_map set_filter image_iff mem_Collect_eq by blast

lemma map_mtg_id_delete_rows:
  "map mtg_id (meetings (delete_rows i s)) = map mtg_id (filter (\<lambda>m. mtg_id m \<noteq> i) (meetings s))"
  by (simp add: delete_rows_def)

lemma delete_rows_occupies:
  assumes dm: "distinct (map mtg_id (meetings s))" and occ: "occupies (delete_rows i s) p"
  shows "occupies s p"
proof -
  from occ obtain x where x: "meeting_get (delete_rows i s) (p_meeting p) = Some x" "ended_at x = None"
    by (auto simp: occupies_def live_def split: option.splits)
  then have "x \<in> set (meetings (delete_rows i s))" "mtg_id x = p_meeting p" by (simp_all add: meeting_get_Some)
  then obtain y where "y \<in> set (meetings s)" "mtg_id y = p_meeting p" "ended_at y = None"
    using x(2) by (auto simp: delete_rows_meetings split: if_split_asm)
  with dm have "meeting_get s (p_meeting p) = Some y" using meeting_get_in_wf by metis
  with \<open>ended_at y = None\<close> have "live s (p_meeting p)" by (simp add: live_def)
  with occ show "occupies s p" by (simp add: occupies_def)
qed

lemma delete_rows_inv:
  assumes inv: "store_inv s" and ok: "integrity_ok (delete_rows i s)"
  shows "store_inv (delete_rows i s)"
proof -
  let ?s' = "delete_rows i s"
  from inv have wf: "wf_store s" and cap: "capacity_ok s" and ex: "exclusive s"
    by (simp_all add: store_inv_def)
  from wf have dm: "distinct (map mtg_id (meetings s))" by (simp add: wf_store_def)
  have corr: "\<And>x. x \<in> set (meetings ?s') \<Longrightarrow>
      \<exists>y \<in> set (meetings s). mtg_id x = mtg_id y \<and> max_participants x = max_participants y
        \<and> ended_at x = ended_at y"
    by (auto simp: delete_rows_meetings)
  have "wf_store ?s'"
  proof -
    have "distinct (map mtg_id (meetings ?s'))"
      using dm by (simp add: map_mtg_id_delete_rows distinct_map_filter)
    moreover have "list_all (\<lambda>m. case max_participants m of None \<Rightarrow> True | Some k \<Rightarrow> 0 < k) (meetings ?s')"
      using wf corr by (fastforce simp: wf_store_def list_all_iff)
    ultimately show ?thesis using wf ok by (simp add: wf_store_def distinct_map_filter)
  qed
  moreover have "capacity_ok ?s'"
  proof (rule capacity_shrink[OF cap])
    fix x assume "x \<in> set (meetings ?s')"
    then show "\<exists>y \<in> set (meetings s). mtg_id x = mtg_id y \<and> max_participants x = max_participants y"
      using corr by blast
  next
    fix j show "count_approved ?s' j \<le> count_approved s j"
      by (simp add: count_approved_def count_where_filter_le)
  qed
  moreover have "exclusive ?s'"
    by (rule exclusive_shrink[OF ex]) (auto dest: delete_rows_occupies[OF dm])
  ultimately show ?thesis by (simp add: store_inv_def)
qed

lemma delete_rows_log_ok:
  assumes "integrity_ok (delete_rows i s)" and "a \<in> set (audit_logs s)"
  shows "log_meeting a \<noteq> Some i"
proof
  assume ai: "log_meeting a = Some i"
  let ?f = "\<lambda>a. if log_meeting a = Some i then a\<lparr>log_meeting := None\<rparr> else a"
  have "?f a \<in> set (audit_logs (delete_rows i s))"
    using assms(2) by (simp add: delete_rows_def)
  moreover have "log_meeting (?f a) = None" using ai by simp
  ultimately show False using assms(1) by (auto simp: integrity_ok_def list_all_iff)
qed

lemma delete_meeting_inv:
  assumes "store_inv s"
  shows "store_inv (snd (delete_meeting u i s))"
  using assms delete_rows_inv
  by (auto simp: delete_meeting_def commit_def split: option.splits)

lemma delete_meeting_logs: "audit_logs (snd (delete_meeting u i s)) = audit_logs s"
proof -
  have "audit_logs (delete_rows i s) = audit_logs s" if ok: "integrity_ok (delete_rows i s)"
  proof -
    have "map (\<lambda>a. if log_meeting a = Some i then a\<lparr>log_meeting := None\<rparr> else a) (audit_logs s)
          = audit_logs s"
      by (rule map_idI) (simp add: delete_rows_log_ok[OF ok])
    then show ?thesis by (simp add: delete_rows_def)
  qed
  then show ?thesis by (auto simp: delete_meeting_def commit_def split: option.split)
qed

lemma delete_meeting_Inl_store:
  "fst (delete_meeting u i s) = Inl e \<Longrightarrow> snd (delete_meeting u i s) = s"
  by (auto simp: delete_meeting_def commit_def split: option.splits if_splits)

text \<open>C12. Deleting a meeting that has an audit entry fails: the ORM sets the entry's
  meeting id to NULL, which the NOT NULL column refuses, so the creator gets a server
  error and nothing is deleted.\<close>

theorem delete_meeting_history_fails:
  assumes "meeting_get s i = Some m" and "created_by m = u"
    and "list_ex (\<lambda>a. log_meeting a = Some i) (audit_logs s)"
  shows "delete_meeting u i s = (Inl (ServerError DeleteH), s)"
proof -
  from assms(3) obtain a where "a \<in> set (audit_logs s)" "log_meeting a = Some i"
    by (auto simp: list_ex_iff)
  then have "\<not> integrity_ok (delete_rows i s)"
    using delete_rows_log_ok by blast
  with assms(1,2) show ?thesis by (simp add: delete_meeting_def commit_def)
qed

text \<open>C16. A successful deletion is by the creator and removes the meeting with its
  participant and co-host rows, while the audit trail stays as it was.\<close>

theorem delete_meeting_success:
  assumes "delete_meeting u i s = (Inr x, s')"
  shows "\<exists>m. meeting_get s i = Some m \<and> created_by m = u \<and> s' = delete_rows i s
     \<and> audit_logs s' = audit_logs s \<and> meeting_get s' i = None
     \<and> (\<forall>p \<in> set (participants s'). p_meeting p \<noteq> i)
     \<and> (\<forall>c \<in> set (co_hosts s'). ch_meeting c \<noteq> Some i)"
proof -
  from assms obtain m where m: "meeting_get s i = Some m" "created_by m = u"
    and ok: "integrity_ok (delete_rows i s)" and s': "s' = delete_rows i s"
    by (auto simp: delete_meeting_def commit_def split: option.splits if_splits)
  from assms have "audit_logs s' = audit_logs s"
    using delete_meeting_logs[of u i s] by simp
  moreover have "meeting_get s' i = None"
    by (auto simp: s' meeting_get_def find_None_iff delete_rows_meetings)
  ultimately show ?thesis using m s' by auto
qed

theorem delete_meeting_history_fails_witness:
  "let s = add_log demo_entry demo_store
   in meeting_get s 2 = Some (demo_meeting 2 0 False None) \<and> created_by (demo_meeting 2 0 False None) = 1
      \<and> list_ex (\<lambda>a. log_meeting a = Some 2) (audit_logs s)
      \<and> delete_meeting 1 2 s = (Inl (ServerError DeleteH), s)"
proof -
  define s where "s = add_log demo_entry demo_store"
  have g: "meeting_get s 2 = Some (demo_meeting 2 0 False None)"
    and c: "created_by (demo_meeting 2 0 False None) = 1"
    and l: "list_ex (\<lambda>a. log_meeting a = Some 2) (audit_logs s)"
    by (simp_all add: s_def add_log_def demo_entry_def meeting_get_def demo_defs)
  show ?thesis using delete_meeting_history_fails[OF g c l] g c l by (simp add: s_def)
qed

theorem delete_meeting_success_witness:
  "\<exists>s'. delete_meeting 1 3 demo_store = (Inr (), s') \<and> meeting_get s' 3 = None
     \<and> audit_logs s' = [] \<and> length (participants s') = 4"
proof -
  have "delete_meeting 1 3 demo_store = (Inr (), delete_rows 3 demo_store)"
    by (simp add: delete_meeting_def commit_def integrity_ok_def delete_rows_def meeting_get_def demo_defs)
  moreover have "length (participants (delete_rows 3 demo_store)) = 4"
    by (simp add: demo_defs)
  moreover note d = calculation(1)
  from delete_meeting_success[OF d] have "meeting_get (delete_rows 3 demo_store) 3 = None"
    and "audit_logs (delete_rows 3 demo_store) = audit_logs demo_store" by blast+
  ultimately show ?thesis by (intro exI[of _ "delete_rows 3 demo_store"]) (simp add: demo_store_def)
qed

end
