(* ===== verification/CoHosts.thy ===== *)
theory CoHosts
  imports Admission
begin

text \<open>
  The co-host routes of \<open>src/routes/meetings.py\<close>: \<open>add_co_host\<close> (lines 409-459)
  inserts a \<open>MeetingCoHost\<close> row and a co-host audit entry, \<open>remove_co_host\<close>
  (461-498) deletes the first matching row and writes its audit entry.  Only the creator may
  change the co-hosts.  Being a co-host changes the role a later join derives
  (\<open>derive_role\<close> of \<open>Admission\<close>) and the right to decide on the waiting room
  (\<open>can_moderate\<close>).  Neither route touches the meeting or participant tables, so the
  store invariant carries over by the frame lemma of \<open>Store\<close>.
\<close>

section \<open>Co-host routes\<close>

definition cohost_log :: "nat \<Rightarrow> user_id \<Rightarrow> action \<Rightarrow> user_id \<Rightarrow> instant \<Rightarrow> audit_entry" where
  "cohost_log i u a c now =
     \<lparr>log_meeting = Some i, log_user = u, log_action = a, log_details = CoHostDetails c, log_at = now\<rparr>"

text \<open>Lines 409-459; the request body's \<open>user_id\<close> is \<open>None\<close> when the body or the
  key is missing.\<close>

definition add_co_host ::
  "user_id \<Rightarrow> nat \<Rightarrow> user_id option \<Rightarrow> instant \<Rightarrow> store \<Rightarrow> (reason + unit) \<times> store" where
  "add_co_host u i req now s =
     (case meeting_get s i of
        None \<Rightarrow> (Inl MeetingNotFound, s)
      | Some m \<Rightarrow>
          if created_by m \<noteq> u then (Inl (OnlyHost AddCoHostA), s)
          else (case req of
            None \<Rightarrow> (Inl NoUserId, s)
          | Some c \<Rightarrow>
              if c \<notin> set (users s) then (Inl UserNotFound, s)
              else if is_co_host s i c then (Inl AlreadyCoHost, s)
              else (case commit (add_log (cohost_log i u AddedCoHost c now)
                                   (s\<lparr>co_hosts := co_hosts s @ [\<lparr>ch_meeting = Some i, ch_user = c\<rparr>]\<rparr>)) of
                      None \<Rightarrow> (Inl (ServerError AddCoHostH), s)
                    | Some s' \<Rightarrow> (Inr (), s'))))"

text \<open>Lines 461-498: the first matching co-host row is deleted.\<close>

definition remove_co_host ::
  "user_id \<Rightarrow> nat \<Rightarrow> user_id \<Rightarrow> instant \<Rightarrow> store \<Rightarrow> (reason + unit) \<times> store" where
  "remove_co_host u i c now s =
     (case meeting_get s i of
        None \<Rightarrow> (Inl MeetingNotFound, s)
      | Some m \<Rightarrow>
          if created_by m \<noteq> u then (Inl (OnlyHost RemoveCoHostA), s)
          else (case find (\<lambda>x. ch_meeting x = Some i \<and> ch_user x = c) (co_hosts s) of
            None \<Rightarrow> (Inl NotCoHost, s)
          | Some x \<Rightarrow>
              (case commit (add_log (cohost_log i u RemovedCoHost c now)
                              (s\<lparr>co_hosts := remove1 x (co_hosts s)\<rparr>)) of
                 None \<Rightarrow> (Inl (ServerError RemoveCoHostH), s)
               | Some s' \<Rightarrow> (Inr (), s'))))"

section \<open>Lemmas\<close>

lemma add_co_host_inv:
  assumes "store_inv s"
  shows "store_inv (snd (add_co_host u i req now s))"
  using assms unfolding add_co_host_def
  by (auto split: option.split elim!: commit_frame[OF _ assms] simp: add_log_def)

lemma remove_co_host_inv:
  assumes "store_inv s"
  shows "store_inv (snd (remove_co_host u i c now s))"
  using assms unfolding remove_co_host_def
  by (auto split: option.split elim!: commit_frame[OF _ assms] simp: add_log_def)

lemma co_host_Inl_store:
  "fst (add_co_host u i req now s) = Inl e \<Longrightarrow> snd (add_co_host u i req now s) = s"
  "fst (remove_co_host u i c now s) = Inl e \<Longrightarrow> snd (remove_co_host u i c now s) = s"
  by (auto simp: add_co_host_def remove_co_host_def commit_def split: option.splits if_splits)

lemma co_host_logs:
  "\<exists>es. audit_logs (snd (add_co_host u i req now s)) = audit_logs s @ es"
  "\<exists>es. audit_logs (snd (remove_co_host u i c now s)) = audit_logs s @ es"
  by (auto simp: add_co_host_def remove_co_host_def commit_def add_log_def split: option.split)

text \<open>C17. Adding a co-host succeeds only for the meeting's creator and an existing user who
  is not yet a co-host; it then makes that user a co-host, so that a later join would
  derive the co-host role for them, leaves participants and meetings alone and appends
  one audit entry.\<close>

theorem add_co_host_success:
  assumes "add_co_host u i req now s = (Inr x, s')"
  shows "\<exists>m c. meeting_get s i = Some m \<and> created_by m = u \<and> req = Some c \<and> c \<in> set (users s)
     \<and> \<not> is_co_host s i c \<and> is_co_host s' i c
     \<and> (c \<noteq> u \<longrightarrow> derive_role s' m c = CoHost)
     \<and> participants s' = participants s \<and> meetings s' = meetings s
     \<and> audit_logs s' = audit_logs s @ [cohost_log i u AddedCoHost c now]"
proof -
  from assms obtain m c where m: "meeting_get s i = Some m" "created_by m = u" "req = Some c"
    "c \<in> set (users s)" "\<not> is_co_host s i c"
    and s': "s' = add_log (cohost_log i u AddedCoHost c now)
                     (s\<lparr>co_hosts := co_hosts s @ [\<lparr>ch_meeting = Some i, ch_user = c\<rparr>]\<rparr>)"
    by (auto simp: add_co_host_def commit_def split: option.splits if_splits)
  have "is_co_host s' i c" by (simp add: s' is_co_host_def add_log_def)
  moreover from m(1) have "mtg_id m = i" by (simp add: meeting_get_Some)
  ultimately show ?thesis using m s'
    by (auto simp: derive_role_def add_log_def)
qed

text \<open>C18. Removing a co-host succeeds only for the meeting's creator and a user who is a
  co-host of it; in a store that satisfies the database constraints the user is then
  no co-host at all, participants and meetings are untouched and one audit entry is
  appended.\<close>

theorem remove_co_host_success:
  assumes "remove_co_host u i c now s = (Inr x, s')" and "integrity_ok s"
  shows "\<exists>m. meeting_get s i = Some m \<and> created_by m = u \<and> is_co_host s i c \<and> \<not> is_co_host s' i c
     \<and> participants s' = participants s \<and> meetings s' = meetings s
     \<and> audit_logs s' = audit_logs s @ [cohost_log i u RemovedCoHost c now]"
proof -
  from assms(1) obtain m y where m: "meeting_get s i = Some m" "created_by m = u"
    and y: "find (\<lambda>x. ch_meeting x = Some i \<and> ch_user x = c) (co_hosts s) = Some y"
    and s': "s' = add_log (cohost_log i u RemovedCoHost c now) (s\<lparr>co_hosts := remove1 y (co_hosts s)\<rparr>)"
    by (auto simp: remove_co_host_def commit_def split: option.splits if_splits)
  from y have yin: "y \<in> set (co_hosts s)" and yk: "ch_meeting y = Some i" "ch_user y = c"
    by (auto simp: find_Some_iff nth_mem)
  from assms(2) have d: "distinct (map (\<lambda>c. (ch_meeting c, ch_user c)) (co_hosts s))"
    by (simp add: integrity_ok_def)
  have "\<not> is_co_host s' i c"
  proof
    assume "is_co_host s' i c"
    then obtain z where "z \<in> set (remove1 y (co_hosts s))" "ch_meeting z = Some i" "ch_user z = c"
      by (auto simp: is_co_host_def list_ex_iff s' add_log_def)
    with remove1_key_gone[OF d _ yin] yk show False by fastforce
  qed
  moreover have "is_co_host s i c" using yin yk by (auto simp: is_co_host_def list_ex_iff)
  ultimately show ?thesis using m s' by (simp add: add_log_def)
qed

theorem add_co_host_success_witness:
  "let s' = add_log (cohost_log 2 1 AddedCoHost 3 0)
              (demo_store\<lparr>co_hosts := [\<lparr>ch_meeting = Some 2, ch_user = 3\<rparr>]\<rparr>)
   in add_co_host 1 2 (Some 3) 0 demo_store = (Inr (), s')
      \<and> derive_role s' (demo_meeting 2 0 False None) 3 = CoHost"
proof -
  define s' where "s' = add_log (cohost_log 2 1 AddedCoHost 3 0)
              (demo_store\<lparr>co_hosts := [\<lparr>ch_meeting = Some 2, ch_user = 3\<rparr>]\<rparr>)"
  have a: "add_co_host 1 2 (Some 3) 0 demo_store = (Inr (), s')"
    by (simp add: s'_def add_co_host_def commit_def integrity_ok_def add_log_def cohost_log_def
        is_co_host_def meeting_get_def demo_defs)
  have g: "meeting_get demo_store 2 = Some (demo_meeting 2 0 False None)"
    by (simp add: meeting_get_def demo_defs)
  from add_co_host_success[OF a] g have "derive_role s' (demo_meeting 2 0 False None) 3 = CoHost"
    by auto
  with a show ?thesis by (simp add: s'_def)
qed

theorem remove_co_host_success_witness:
  "let s = add_log (cohost_log 2 1 AddedCoHost 3 0)
             (demo_store\<lparr>co_hosts := [\<lparr>ch_meeting = Some 2, ch_user = 3\<rparr>]\<rparr>)
   in integrity_ok s \<and> fst (remove_co_host 1 2 3 0 s) = Inr ()
      \<and> \<not> is_co_host (snd (remove_co_host 1 2 3 0 s)) 2 3"
proof -
  define s where "s = add_log (cohost_log 2 1 AddedCoHost 3 0)
             (demo_store\<lparr>co_hosts := [\<lparr>ch_meeting = Some 2, ch_user = 3\<rparr>]\<rparr>)"
  have ok: "integrity_ok s"
    by (simp add: s_def integrity_ok_def add_log_def cohost_log_def demo_defs)
  have r: "remove_co_host 1 2 3 0 s = (Inr (), add_log (cohost_log 2 1 RemovedCoHost 3 0) (s\<lparr>co_hosts := []\<rparr>))"
    by (simp add: s_def remove_co_host_def commit_def integrity_ok_def add_log_def cohost_log_def
        meeting_get_def demo_defs)
  from remove_co_host_success[OF r ok]
  have "\<not> is_co_host (add_log (cohost_log 2 1 RemovedCoHost 3 0) (s\<lparr>co_hosts := []\<rparr>)) 2 3"
    by blast
  then have "\<not> is_co_host (snd (remove_co_host 1 2 3 0 s)) 2 3" unfolding r snd_conv .
  with ok r show ?thesis by (simp add: s_def)
qed

end
