(* ===== verification/Queries.thy ===== *)
theory Queries
  imports Admission
begin

text \<open>
  The read routes of \<open>src/routes/meetings.py\<close>: \<open>list_meetings\<close> (lines 307-340) and
  \<open>get_meeting\<close> (349-365).  Neither writes.  The lemmas characterise the listed set,
  show the list free of repetitions and ordered newest first, characterise who may read a
  meeting, and show the two routes agree: every listed meeting can be read by the user.
\<close>

section \<open>Read routes\<close>

text \<open>Lines 307-340: the meetings the user created or has a participant row in, without
  repetition, newest first (\<open>sorted(set(...), key=created_at, reverse=True)\<close>; the order
  of meetings created at the same instant is the set's, left open by the source).\<close>

definition list_meetings :: "user_id \<Rightarrow> bool \<Rightarrow> store \<Rightarrow> meeting list" where
  "list_meetings u active_only s =
     (let ok = (\<lambda>m. \<not> active_only \<or> ended_at m = None);
          mine = filter (\<lambda>m. created_by m = u \<and> ok m) (meetings s);
          joined = filter (\<lambda>m. ok m \<and> list_ex (\<lambda>p. p_meeting p = mtg_id m \<and> p_user p = u) (participants s))
                     (meetings s)
      in sort_key (\<lambda>m. - mtg_created_at m) (remdups (mine @ joined)))"

text \<open>Lines 349-365: the creator and every user with a participant row of the meeting,
  whatever its status, may read it.\<close>

definition get_meeting :: "user_id \<Rightarrow> nat \<Rightarrow> store \<Rightarrow> reason + meeting" where
  "get_meeting u i s =
     (case meeting_get s i of
        None \<Rightarrow> Inl MeetingNotFound
      | Some m \<Rightarrow>
          if created_by m \<noteq> u \<and> u \<notin> set (map p_user (filter (\<lambda>p. p_meeting p = i) (participants s)))
          then Inl AccessDenied
          else Inr m)"

section \<open>Lemmas\<close>

lemma related_iff:
  "list_ex (\<lambda>p. p_meeting p = i \<and> p_user p = u) ps \<longleftrightarrow>
     u \<in> set (map p_user (filter (\<lambda>p. p_meeting p = i) ps))"
  by (auto simp: list_ex_iff)

text \<open>C14. The meeting list holds exactly the meetings the user created or has a participant
  row in (restricted to those not ended when only active ones are asked for), each
  once, newest first.\<close>

theorem list_meetings_spec:
  "set (list_meetings u a s) =
     {m \<in> set (meetings s). (\<not> a \<or> ended_at m = None)
        \<and> (created_by m = u \<or> (\<exists>p. p \<in> set (participants s) \<and> p_meeting p = mtg_id m \<and> p_user p = u))}
   \<and> distinct (list_meetings u a s)
   \<and> sorted (map (\<lambda>m. - mtg_created_at m) (list_meetings u a s))"
  by (auto simp: list_meetings_def Let_def list_ex_iff distinct_sort sorted_sort_key)

text \<open>A user may read a meeting exactly when it exists and the user created it or has a
  participant row in it, whatever the row's status: declined and banned participants
  included.\<close>

theorem get_meeting_iff:
  "get_meeting u i s = Inr m \<longleftrightarrow>
     meeting_get s i = Some m
     \<and> (created_by m = u \<or> (\<exists>p. p \<in> set (participants s) \<and> p_meeting p = i \<and> p_user p = u))"
  by (auto simp: get_meeting_def image_iff split: option.split)

text \<open>The two read routes agree: in a well-formed store every meeting the list route
  shows a user is one the detail route lets that user read.\<close>

theorem list_get_consistent:
  assumes "wf_store s" and "m \<in> set (list_meetings u a s)"
  shows "get_meeting u (mtg_id m) s = Inr m"
proof -
  from assms(1) have "distinct (map mtg_id (meetings s))" by (simp add: wf_store_def)
  moreover from assms(2) have "m \<in> set (meetings s)"
    and "created_by m = u \<or> list_ex (\<lambda>p. p_meeting p = mtg_id m \<and> p_user p = u) (participants s)"
    by (auto simp: list_meetings_def Let_def)
  ultimately show ?thesis
    by (auto simp: get_meeting_def meeting_get_in_wf related_iff)
qed

theorem list_get_consistent_witness:
  "wf_store demo_store \<and> demo_meeting 2 0 False None \<in> set (list_meetings 5 False demo_store)
   \<and> get_meeting 5 2 demo_store = Inr (demo_meeting 2 0 False None)"
proof -
  have w: "wf_store demo_store" using demo_inv by (simp add: store_inv_def)
  have l: "demo_meeting 2 0 False None \<in> set (list_meetings 5 False demo_store)"
    by (simp add: list_meetings_def demo_defs)
  from list_get_consistent[OF w l] w l show ?thesis by (simp add: demo_meeting_def)
qed

theorem list_meetings_spec_witness:
  "distinct (list_meetings 4 False demo_store)
   \<and> demo_meeting 2 0 False None \<in> set (list_meetings 4 False demo_store)"
proof -
  note spec = list_meetings_spec[of 4 False demo_store]
  have "demo_row 12 2 4 Declined (Some 0) False \<in> set (participants demo_store)"
    by (simp add: demo_store_def)
  moreover have "demo_meeting 2 0 False None \<in> set (meetings demo_store)"
    by (simp add: demo_store_def)
  ultimately have "demo_meeting 2 0 False None \<in> set (list_meetings 4 False demo_store)"
    using spec by (auto simp: demo_row_def demo_meeting_def)
  with spec show ?thesis by blast
qed

theorem get_meeting_iff_witness:
  "get_meeting 5 2 demo_store = Inr (demo_meeting 2 0 False None)"
proof -
  have g: "meeting_get demo_store 2 = Some (demo_meeting 2 0 False None)"
    by (simp add: meeting_get_def demo_defs)
  have "demo_row 13 2 5 Approved (Some 0) True \<in> set (participants demo_store)"
    by (simp add: demo_store_def)
  with g show ?thesis
    using get_meeting_iff[of 5 2 demo_store "demo_meeting 2 0 False None"]
    by (auto simp: demo_row_def)
qed

end
