(* ===== verification/Service.thy ===== *)
theory Service
  imports Lifecycle CoHosts Queries
begin

text \<open>
  The meeting service as one state machine.  \<open>src/__init__.py\<close> registers the meetings
  blueprint under \<open>/api/meetings\<close> (lines 83-88); each route of
  \<open>src/routes/meetings.py\<close> is one constructor of \<open>request\<close>, and \<open>handle\<close>
  dispatches a request to the route's definition in \<open>Lifecycle\<close>, \<open>CoHosts\<close>,
  \<open>Admission\<close> or \<open>Queries\<close>.  The inductive relation \<open>reach\<close> is the set of stores a
  sequence of requests, at any instants, leads to; \<open>run\<close> executes such a sequence.
\<close>

section \<open>Requests and responses\<close>

datatype request =
    CreateR user_id "create_request option"
  | JoinR user_id int
  | ListR user_id bool
  | GetR user_id nat
  | DeleteR user_id nat
  | EndR user_id nat
  | AddCoHostR user_id nat "user_id option"
  | RemoveCoHostR user_id nat user_id
  | WaitingRoomR user_id nat
  | ApproveR user_id nat row_id
  | RejectR user_id nat row_id

datatype response =
    RCreated meeting
  | RJoin join_response
  | RDone
  | RMeetings "meeting list"
  | RMeeting meeting
  | RQueue "(row_id \<times> user_id \<times> instant) list"

definition reply :: "('a \<Rightarrow> response) \<Rightarrow> (reason + 'a) \<times> store \<Rightarrow> (reason + response) \<times> store" where
  "reply f r = (map_sum id f (fst r), snd r)"

fun handle :: "(string \<Rightarrow> string) \<Rightarrow> request \<Rightarrow> instant \<Rightarrow> store \<Rightarrow> (reason + response) \<times> store" where
  "handle clean (CreateR u d) now s = reply RCreated (create_meeting clean u d now s)"
| "handle clean (JoinR u i) now s = reply RJoin (join_meeting u i now s)"
| "handle clean (ListR u a) now s = (Inr (RMeetings (list_meetings u a s)), s)"
| "handle clean (GetR u i) now s = (map_sum id RMeeting (get_meeting u i s), s)"
| "handle clean (DeleteR u i) now s = reply (\<lambda>_. RDone) (delete_meeting u i s)"
| "handle clean (EndR u i) now s = reply (\<lambda>_. RDone) (end_meeting u i now s)"
| "handle clean (AddCoHostR u i c) now s = reply (\<lambda>_. RDone) (add_co_host u i c now s)"
| "handle clean (RemoveCoHostR u i c) now s = reply (\<lambda>_. RDone) (remove_co_host u i c now s)"
| "handle clean (WaitingRoomR u i) now s = (map_sum id RQueue (get_waiting_room u i s), s)"
| "handle clean (ApproveR u i p) now s = reply (\<lambda>_. RDone) (approve_participant u i p now s)"
| "handle clean (RejectR u i p) now s = reply (\<lambda>_. RDone) (reject_participant u i p now s)"

abbreviation next_store :: "(string \<Rightarrow> string) \<Rightarrow> request \<Rightarrow> instant \<Rightarrow> store \<Rightarrow> store" where
  "next_store clean r now s \<equiv> snd (handle clean r now s)"

inductive reach :: "(string \<Rightarrow> string) \<Rightarrow> store \<Rightarrow> store \<Rightarrow> bool"
  for clean :: "string \<Rightarrow> string" where
  reach_refl: "reach clean s s"
| reach_step: "reach clean s0 s \<Longrightarrow> reach clean s0 (next_store clean r now s)"

fun run :: "(string \<Rightarrow> string) \<Rightarrow> (request \<times> instant) list \<Rightarrow> store \<Rightarrow> store" where
  "run clean [] s = s"
| "run clean ((r, now) # rs) s = run clean rs (next_store clean r now s)"

text \<open>A trace on the example store of \<open>Admission\<close>: the host approves user 2 into the
  one-seat meeting 1, then tries to approve user 3 as well.\<close>

definition demo_trace :: "(request \<times> instant) list" where
  "demo_trace = [(ApproveR 1 1 10, seconds 300), (ApproveR 1 1 11, seconds 310)]"

section \<open>Lemmas\<close>

lemma reply_snd [simp]: "snd (reply f r) = snd r"
  by (simp add: reply_def)

lemma reply_fst_Inl [simp]: "fst (reply f r) = Inl e \<longleftrightarrow> fst r = Inl e"
  by (cases "fst r") (simp_all add: reply_def)

lemma handle_inv:
  assumes "store_inv s"
  shows "store_inv (next_store clean r now s)"
  using assms
  by (cases r) (simp_all add: create_meeting_store join_meeting_inv delete_meeting_inv end_meeting_inv
      add_co_host_inv remove_co_host_inv approve_participant_inv reject_participant_inv)

lemma join_meeting_tables:
  "(\<exists>es. audit_logs (snd (join_meeting u i now s)) = audit_logs s @ es)
   \<and> meetings (snd (join_meeting u i now s)) = meetings s"
  by simp

lemma decision_stores:
  "snd (approve_participant u i p now s) = s
   \<or> (\<exists>q e. snd (approve_participant u i p now s) = add_log e (update_participant q s))"
  "snd (reject_participant u i p now s) = s
   \<or> (\<exists>q e. snd (reject_participant u i p now s) = add_log e (update_participant q s))"
proof -
  obtain r s' where a: "approve_participant u i p now s = (r, s')" by fastforce
  then show "snd (approve_participant u i p now s) = s
   \<or> (\<exists>q e. snd (approve_participant u i p now s) = add_log e (update_participant q s))"
    by (cases r) (auto dest!: approve_participant_Inl approve_participant_Inr)
  obtain r' s'' where b: "reject_participant u i p now s = (r', s'')" by fastforce
  then show "snd (reject_participant u i p now s) = s
   \<or> (\<exists>q e. snd (reject_participant u i p now s) = add_log e (update_participant q s))"
    by (cases r') (auto dest!: reject_participant_Inl reject_participant_Inr)
qed

lemma decision_tables:
  "(\<exists>es. audit_logs (snd (approve_participant u i p now s)) = audit_logs s @ es)
   \<and> meetings (snd (approve_participant u i p now s)) = meetings s"
  "(\<exists>es. audit_logs (snd (reject_participant u i p now s)) = audit_logs s @ es)
   \<and> meetings (snd (reject_participant u i p now s)) = meetings s"
  using decision_stores[of u i p now s] by auto

lemma co_host_meetings:
  "meetings (snd (add_co_host u i c now s)) = meetings s"
  "meetings (snd (remove_co_host u i c' now s)) = meetings s"
  by (auto simp: add_co_host_def remove_co_host_def commit_def split: option.split)

lemma end_meeting_ids: "map mtg_id (meetings (snd (end_meeting u i now s))) = map mtg_id (meetings s)"
  by (auto simp: end_meeting_def commit_def update_meeting_def split: option.split)

lemma delete_meeting_ids: "subseq (map mtg_id (meetings (snd (delete_meeting u i s)))) (map mtg_id (meetings s))"
  by (auto simp: delete_meeting_def commit_def map_mtg_id_delete_rows intro: subseq_map split: option.split)

lemma handle_logs: "\<exists>es. audit_logs (next_store clean r now s) = audit_logs s @ es"
  by (cases r) (auto simp: create_meeting_store join_meeting_tables decision_tables co_host_logs
      end_meeting_logs delete_meeting_logs intro: exI[of _ "[]"])

lemma handle_ids: "subseq (map mtg_id (meetings (next_store clean r now s))) (map mtg_id (meetings s))"
  by (cases r) (simp_all add: create_meeting_store join_meeting_tables decision_tables co_host_meetings
      end_meeting_ids delete_meeting_ids)

lemma handle_Inl_store:
  "fst (handle clean r now s) = Inl e \<Longrightarrow> next_store clean r now s = s"
  by (cases r) (auto simp: create_meeting_store delete_meeting_Inl_store
      end_meeting_Inl_store co_host_Inl_store decision_Inl_store)

lemma reach_inv: "reach clean s0 s \<Longrightarrow> store_inv s0 \<Longrightarrow> store_inv s"
  by (induction rule: reach.induct) (simp_all add: handle_inv)

lemma run_append: "run clean (rs @ [(r, now)]) s = next_store clean r now (run clean rs s)"
  by (induction rs arbitrary: s) auto

lemma reach_run: "reach clean s0 (run clean rs s0)"
proof (induction rs rule: rev_induct)
  case Nil
  then show ?case by (simp add: reach_refl)
next
  case (snoc x rs)
  then show ?case by (cases x) (simp add: run_append reach_step)
qed

text \<open>C1. Capacity in every reachable store: starting from a store that satisfies the
  invariant, after any sequence of requests at any instants, no meeting with a limit
  has more approved participants present than its limit.\<close>

theorem reach_capacity:
  assumes "reach clean s0 s" and "store_inv s0"
    and "m \<in> set (meetings s)" and "max_participants m = Some k"
  shows "int (count_approved s (mtg_id m)) \<le> k"
  using reach_inv[OF assms(1,2)] assms(3,4)
  by (auto simp: store_inv_def capacity_ok_def list_all_iff)

text \<open>C2. Exclusivity in every reachable store: two participant rows of one user that have
  not left and whose meetings are live are rows of the same meeting.\<close>

theorem reach_exclusive:
  assumes "reach clean s0 s" and "store_inv s0"
    and "p \<in> set (participants s)" and "q \<in> set (participants s)" and "p_user p = p_user q"
    and "occupies s p" and "occupies s q"
  shows "p_meeting p = p_meeting q"
  using reach_inv[OF assms(1,2)] assms(3-7)
  unfolding store_inv_def exclusive_def by blast

text \<open>C5. The audit trail is append-only: along any sequence of requests every earlier trail
  is a prefix of every later one.\<close>

theorem reach_audit_prefix:
  assumes "reach clean s0 s"
  shows "prefix (audit_logs s0) (audit_logs s)"
  using assms
proof induction
  case (reach_refl s)
  then show ?case by simp
next
  case (reach_step s0 s r now)
  from handle_logs obtain es where "audit_logs (next_store clean r now s) = audit_logs s @ es" by blast
  with reach_step.IH show ?case by (metis prefix_append_self prefix_order.trans)
qed

text \<open>C11. No request ever adds a meeting: along any sequence of requests the meeting ids of
  the later store are a subsequence of those of the earlier one, because creation
  always fails and the other routes only end or delete meetings.\<close>

theorem reach_no_new_meeting:
  assumes "reach clean s0 s"
  shows "subseq (map mtg_id (meetings s)) (map mtg_id (meetings s0))"
  using assms
proof induction
  case (reach_refl s)
  then show ?case by simp
next
  case (reach_step s0 s r now)
  with handle_ids[of clean r now s] show ?case by (blast intro: subseq_order.trans)
qed

text \<open>C4. Failed requests are atomic: whenever a route answers an error, the store is
  exactly the store before the request, so no row and no audit entry of a failed
  request is kept.\<close>

theorem handle_error_atomic:
  assumes "fst (handle clean r now s) = Inl e"
  shows "next_store clean r now s = s"
  using assms by (rule handle_Inl_store)

text \<open>The inductive reachability relation and the executable trace semantics agree: a
  store is reachable exactly when some finite sequence of timed requests leads to it.\<close>

theorem reach_iff_run: "reach clean s0 s \<longleftrightarrow> (\<exists>rs. run clean rs s0 = s)"
proof
  assume "reach clean s0 s"
  then show "\<exists>rs. run clean rs s0 = s"
  proof induction
    case (reach_refl s)
    show ?case by (rule exI[of _ "[]"]) simp
  next
    case (reach_step s0 s r now)
    then obtain rs where "run clean rs s0 = s" by blast
    then show ?case by (intro exI[of _ "rs @ [(r, now)]"]) (simp add: run_append)
  qed
next
  assume "\<exists>rs. run clean rs s0 = s"
  then show "reach clean s0 s" using reach_run by blast
qed

theorem reach_capacity_witness:
  "reach (\<lambda>x. x) demo_store (run (\<lambda>x. x) demo_trace demo_store) \<and> store_inv demo_store
   \<and> demo_meeting 1 (seconds 600) True (Some 1) \<in> set (meetings (run (\<lambda>x. x) demo_trace demo_store))
   \<and> int (count_approved (run (\<lambda>x. x) demo_trace demo_store) 1) \<le> 1"
proof -
  have r: "reach (\<lambda>x. x) demo_store (run (\<lambda>x. x) demo_trace demo_store)" by (rule reach_run)
  have m: "demo_meeting 1 (seconds 600) True (Some 1) \<in> set (meetings (run (\<lambda>x. x) demo_trace demo_store))"
    by (simp add: demo_trace_def reply_def eval_simps demo_defs)
  have k: "max_participants (demo_meeting 1 (seconds 600) True (Some 1)) = Some 1"
    by (simp add: demo_meeting_def)
  from reach_capacity[OF r demo_inv m k] r m show ?thesis
    by (simp add: demo_inv demo_meeting_def)
qed

theorem reach_exclusive_witness:
  "reach (\<lambda>x. x) demo_store (run (\<lambda>x. x) demo_trace demo_store) \<and> store_inv demo_store
   \<and> demo_row 11 1 3 Pending None False \<in> set (participants (run (\<lambda>x. x) demo_trace demo_store))
   \<and> occupies (run (\<lambda>x. x) demo_trace demo_store) (demo_row 11 1 3 Pending None False)
   \<and> p_meeting (demo_row 11 1 3 Pending None False) = 1"
proof -
  let ?s = "run (\<lambda>x. x) demo_trace demo_store" and ?p = "demo_row 11 1 3 Pending None False"
  have r: "reach (\<lambda>x. x) demo_store ?s" by (rule reach_run)
  have p: "?p \<in> set (participants ?s)" and o: "occupies ?s ?p"
    by (simp_all add: demo_trace_def reply_def eval_simps occupies_def demo_defs)
  from reach_exclusive[OF r demo_inv p p refl o o] r p o demo_inv show ?thesis
    by (simp add: demo_row_def)
qed

theorem reach_audit_prefix_witness:
  "reach (\<lambda>x. x) demo_store (run (\<lambda>x. x) demo_trace demo_store)
   \<and> prefix (audit_logs demo_store) (audit_logs (run (\<lambda>x. x) demo_trace demo_store))"
  using reach_audit_prefix[OF reach_run] reach_run by blast

theorem reach_no_new_meeting_witness:
  "reach (\<lambda>x. x) demo_store (run (\<lambda>x. x) demo_trace demo_store)
   \<and> subseq (map mtg_id (meetings (run (\<lambda>x. x) demo_trace demo_store))) [1, 2, 3]"
proof -
  have "map mtg_id (meetings demo_store) = [1, 2, 3]" by (simp add: demo_defs)
  then show ?thesis using reach_no_new_meeting[OF reach_run] reach_run by metis
qed

theorem handle_error_atomic_witness:
  "fst (handle (\<lambda>x. x) (ApproveR 1 1 11) (seconds 310) (run (\<lambda>x. x) (take 1 demo_trace) demo_store))
     = Inl MeetingFull
   \<and> next_store (\<lambda>x. x) (ApproveR 1 1 11) (seconds 310) (run (\<lambda>x. x) (take 1 demo_trace) demo_store)
     = run (\<lambda>x. x) (take 1 demo_trace) demo_store"
proof -
  have f: "fst (handle (\<lambda>x. x) (ApproveR 1 1 11) (seconds 310) (run (\<lambda>x. x) (take 1 demo_trace) demo_store))
     = Inl MeetingFull"
    by (simp add: demo_trace_def reply_def eval_simps demo_defs)
  with handle_error_atomic[OF f] show ?thesis by simp
qed


section \<open>The waiting room can always be emptied\<close>

text \<open>C9. The waiting room of a meeting can always be emptied: from a store that satisfies
  the invariant, its creator or a co-host rejects the pending rows of the meeting one
  by one, in the order of the table, and afterwards the waiting room is empty.\<close>

theorem waiting_room_drains:
  assumes "store_inv s" and "meeting_get s i = Some m" and "can_moderate s m u"
  shows "get_waiting_room u i
           (run clean (map (\<lambda>p. (RejectR u i (p_id p), now))
                         (filter (\<lambda>p. p_meeting p = i \<and> status p = Pending) (participants s))) s)
         = Inr []"
proof -
  let ?P = "\<lambda>p. p_meeting p = i \<and> status p = Pending"
  let ?f = "\<lambda>p. (RejectR u i (p_id p), now)"
  have "\<And>s. filter ?P (participants s) = ps \<Longrightarrow> store_inv s \<Longrightarrow> meeting_get s i = Some m
          \<Longrightarrow> can_moderate s m u \<Longrightarrow> get_waiting_room u i (run clean (map ?f ps) s) = Inr []"
    for ps
  proof (induction ps)
    case Nil
    then show ?case by (simp add: get_waiting_room_def)
  next
    case (Cons p ps)
    from Cons.prems(1) have "p \<in> set (filter ?P (participants s))" by simp
    then have p: "p \<in> set (participants s)" "p_meeting p = i" "status p = Pending" by simp_all
    define s' where "s' = next_store clean (RejectR u i (p_id p)) now s"
    have s': "s' = add_log (decision_log i u RejectedParticipant (p_id p) now)
                     (update_participant (p\<lparr>status := Declined\<rparr>) s)"
      using reject_pending[OF Cons.prems(2-4) p] by (simp add: s'_def reply_def)
    from Cons.prems(2) have "distinct (map p_id (participants s))" by (simp add: store_inv_def wf_store_def)
    from filter_replace_by_first[OF this Cons.prems(1), of "p\<lparr>status := Declined\<rparr>"]
    have f': "filter ?P (participants s') = ps" by (simp add: s' update_participant_def)
    have i': "store_inv s'" unfolding s'_def by (rule handle_inv[OF Cons.prems(2)])
    have g': "meeting_get s' i = Some m" using Cons.prems(3) by (simp add: s')
    have c': "can_moderate s' m u" using Cons.prems(4) by (simp add: s' can_moderate_def is_co_host_def)
    have "get_waiting_room u i (run clean (map ?f ps) s') = Inr []" by (rule Cons.IH[OF f' i' g' c'])
    then show ?case by (simp add: s'_def)
  qed
  with assms show ?thesis by blast
qed

theorem waiting_room_drains_witness:
  "store_inv demo_store \<and> meeting_get demo_store 1 = Some (demo_meeting 1 (seconds 600) True (Some 1))
   \<and> can_moderate demo_store (demo_meeting 1 (seconds 600) True (Some 1)) 1
   \<and> get_waiting_room 1 1 (run (\<lambda>x. x) [(RejectR 1 1 10, 0), (RejectR 1 1 11, 0)] demo_store) = Inr []"
proof -
  have g: "meeting_get demo_store 1 = Some (demo_meeting 1 (seconds 600) True (Some 1))"
    and c: "can_moderate demo_store (demo_meeting 1 (seconds 600) True (Some 1)) 1"
    and q: "map (\<lambda>p. (RejectR 1 1 (p_id p), 0 :: instant))
              (filter (\<lambda>p. p_meeting p = 1 \<and> status p = Pending) (participants demo_store))
            = [(RejectR 1 1 10, 0), (RejectR 1 1 11, 0)]"
    by (simp_all add: eval_simps demo_defs)
  from waiting_room_drains[OF demo_inv g c, of "\<lambda>x. x" 0] q g c demo_inv show ?thesis by simp
qed

end
