(* ===== verification/Concurrency.thy ===== *)
theory Concurrency
  imports Service
begin

text \<open>
  Interleaving of two approvals.  \<open>approve_participant\<close> of \<open>src/routes/meetings.py\<close>
  (lines 536-588) reads the meeting, the participant row and the count of approved
  participants present, then updates the row and commits; nothing locks the meeting row
  between the count and the commit.  The route is split here into its read phase,
  evaluated on the store the request sees, and its write phase, applied to the store
  current at commit time; run back to back on one store they are the route.  Two
  requests whose read phases both run before either commits interleave as
  read, read, write, write.
\<close>

section \<open>Read and write phases of an approval\<close>

text \<open>Lines 539-567: the checks and the capacity count, giving the row to write and
  the audit entry.\<close>

definition approve_read ::
  "user_id \<Rightarrow> nat \<Rightarrow> row_id \<Rightarrow> instant \<Rightarrow> store \<Rightarrow> reason + (participant \<times> audit_entry)" where
  "approve_read u i pid now s =
     (case decision_checks u i pid s of
        Inl e \<Rightarrow> Inl e
      | Inr (m, p) \<Rightarrow>
          if cap_reached (max_participants m) (count_approved s i) then Inl MeetingFull
          else Inr (p\<lparr>status := Approved, joined_at := Some now\<rparr>,
                    decision_log i u ApprovedParticipant pid now))"

text \<open>Lines 569-588: the row update, the audit entry and the commit.\<close>

definition approve_write :: "participant \<times> audit_entry \<Rightarrow> store \<Rightarrow> (reason + unit) \<times> store" where
  "approve_write w s =
     (case commit (add_log (snd w) (update_participant (fst w) s)) of
        None \<Rightarrow> (Inl (ServerError ApproveH), s)
      | Some s' \<Rightarrow> (Inr (), s'))"

text \<open>Two approval requests served by two workers: both read phases run on the store
  \<open>s\<close>, then the first commits and the second commits on the store the first left.
  A request whose checks fail answers its error and writes nothing.\<close>

definition approve_interleaved ::
  "user_id \<times> nat \<times> row_id \<Rightarrow> user_id \<times> nat \<times> row_id \<Rightarrow> instant \<Rightarrow> store
   \<Rightarrow> (reason + unit) \<times> (reason + unit) \<times> store" where
  "approve_interleaved a b now s =
     (let ra = approve_read (fst a) (fst (snd a)) (snd (snd a)) now s;
          rb = approve_read (fst b) (fst (snd b)) (snd (snd b)) now s;
          (r1, s1) = (case ra of Inl e \<Rightarrow> (Inl e, s) | Inr w \<Rightarrow> approve_write w s);
          (r2, s2) = (case rb of Inl e \<Rightarrow> (Inl e, s1) | Inr w \<Rightarrow> approve_write w s1)
      in (r1, r2, s2))"

section \<open>Lemmas\<close>

text \<open>The approval route is its read phase followed, when the checks pass, by its write
  phase on the same store: the split used for interleavings is the route.\<close>

lemma approve_split:
  "approve_participant u i pid now s =
     (case approve_read u i pid now s of Inl e \<Rightarrow> (Inl e, s) | Inr w \<Rightarrow> approve_write w s)"
  by (simp add: approve_participant_def approve_read_def approve_write_def split: sum.split prod.split)

abbreviation approved_row :: "participant \<Rightarrow> instant \<Rightarrow> participant" where
  "approved_row p now \<equiv> p\<lparr>status := Approved, joined_at := Some now\<rparr>"

lemma approve_read_room:
  assumes "decision_checks u i pid s = Inr (m, p)" and "max_participants m = Some k"
    and "int (count_approved s i) < k"
  shows "approve_read u i pid now s = Inr (approved_row p now, decision_log i u ApprovedParticipant pid now)"
  using assms by (simp add: approve_read_def cap_reached_def)

lemma approve_write_ok:
  "integrity_ok s \<Longrightarrow>
     approve_write (r, decision_log i u a pid now) s = (Inr (), add_log (decision_log i u a pid now) (update_participant r s))"
  by (simp add: approve_write_def commit_def)

text \<open>Writing the approval of a pending row of meeting \<open>i\<close> that has not left adds one
  approved participant present.\<close>

lemma count_approved_approve:
  assumes "distinct (map p_id (participants s))" and "p \<in> set (participants s)"
    and "p_meeting p = i" and "status p = Pending" and "left_at p = None"
  shows "count_approved (add_log e (update_participant (approved_row p now) s)) i = Suc (count_approved s i)"
  using count_approved_update[OF assms(1,2), of "approved_row p now" i] assms(3-5) by simp

lemma decision_checks_other:
  assumes "p_id r \<noteq> pid"
  shows "decision_checks u i pid (add_log e (update_participant r s)) = decision_checks u i pid s"
proof -
  have pg: "participant_get (add_log e (update_participant r s)) pid = participant_get s pid"
    using assms by (simp add: participant_get_def find_replace_by_other)
  have mg: "meeting_get (add_log e (update_participant r s)) i = meeting_get s i"
    by (simp add: meeting_get_def)
  have cm: "\<And>m. can_moderate (add_log e (update_participant r s)) m u = can_moderate s m u"
    by (simp add: can_moderate_def is_co_host_def)
  show ?thesis unfolding decision_checks_def pg mg cm ..
qed

text \<open>C8. Two approvals that interleave break capacity: whenever a meeting with a limit has
  one free place and two pending participants present, two moderators' approvals whose
  read phases both run before either commits both succeed, and the store left has one
  approved participant more than the limit; served one after the other, the second is
  refused as full.\<close>

theorem approve_race:
  assumes inv: "store_inv s"
    and c1: "decision_checks u1 i p1 s = Inr (m, r1)" and c2: "decision_checks u2 i p2 s = Inr (m, r2)"
    and ne: "p1 \<noteq> p2" and k: "max_participants m = Some k" and room: "int (count_approved s i) + 1 = k"
    and l1: "left_at r1 = None" and l2: "left_at r2 = None"
  shows "(\<exists>s'. approve_interleaved (u1, i, p1) (u2, i, p2) now s = (Inr (), Inr (), s')
            \<and> int (count_approved s' i) = k + 1 \<and> \<not> capacity_ok s')
         \<and> fst (approve_participant u2 i p2 now (snd (approve_participant u1 i p1 now s))) = Inl MeetingFull"
proof -
  from inv have wf: "wf_store s" by (simp add: store_inv_def)
  then have ok: "integrity_ok s" and dp: "distinct (map p_id (participants s))"
    by (simp_all add: wf_store_def)
  from c1 have mg: "meeting_get s i = Some m" and g1: "participant_get s p1 = Some r1"
    and m1: "p_meeting r1 = i" and s1: "status r1 = Pending" by (simp_all add: decision_checks_Inr)
  from c2 have g2: "participant_get s p2 = Some r2" and m2: "p_meeting r2 = i" and s2: "status r2 = Pending"
    by (simp_all add: decision_checks_Inr)
  from g1 have r1: "r1 \<in> set (participants s)" "p_id r1 = p1" by (simp_all add: participant_get_Some)
  from g2 have r2: "r2 \<in> set (participants s)" "p_id r2 = p2" by (simp_all add: participant_get_Some)
  define e1 where "e1 = decision_log i u1 ApprovedParticipant p1 now"
  define e2 where "e2 = decision_log i u2 ApprovedParticipant p2 now"
  define t1 where "t1 = add_log e1 (update_participant (approved_row r1 now) s)"
  define t2 where "t2 = add_log e2 (update_participant (approved_row r2 now) t1)"
  have a1: "approve_read u1 i p1 now s = Inr (approved_row r1 now, e1)"
    using approve_read_room[OF c1 k] room by (simp add: e1_def)
  have a2: "approve_read u2 i p2 now s = Inr (approved_row r2 now, e2)"
    using approve_read_room[OF c2 k] room by (simp add: e2_def)
  have ok1: "integrity_ok t1" using ok by (simp add: t1_def e1_def)
  have w1: "approve_write (approved_row r1 now, e1) s = (Inr (), t1)"
    using approve_write_ok[OF ok] by (simp add: t1_def e1_def)
  have w2: "approve_write (approved_row r2 now, e2) t1 = (Inr (), t2)"
    using approve_write_ok[OF ok1] by (simp add: t2_def e2_def)
  have n1: "count_approved t1 i = Suc (count_approved s i)"
    unfolding t1_def by (rule count_approved_approve[OF dp r1(1) m1 s1 l1])
  have r2': "r2 \<in> set (participants t1)" using r1(2) r2 ne
    by (simp add: t1_def replace_by_other_in)
  have dp1: "distinct (map p_id (participants t1))" using dp by (simp add: t1_def)
  have n2: "count_approved t2 i = Suc (count_approved t1 i)"
    unfolding t2_def by (rule count_approved_approve[OF dp1 r2' m2 s2 l2])
  have "m \<in> set (meetings t2)" using mg by (simp add: t2_def t1_def meeting_get_Some)
  moreover have "int (count_approved t2 i) = k + 1" using n1 n2 room by simp
  ultimately have cap: "\<not> capacity_ok t2"
    using k mg meeting_get_Some[OF mg] by (force simp: capacity_ok_def list_all_iff)
  have seq1: "approve_participant u1 i p1 now s = (Inr (), t1)" using a1 w1 by (simp add: approve_split)
  have c2': "decision_checks u2 i p2 t1 = Inr (m, r2)"
    using decision_checks_other[of "approved_row r1 now" p2] c2 r1(2) ne by (simp add: t1_def)
  have "fst (approve_participant u2 i p2 now t1) = Inl MeetingFull"
    using c2' k n1 room by (simp add: approve_participant_def cap_reached_def)
  with seq1 have "fst (approve_participant u2 i p2 now (snd (approve_participant u1 i p1 now s))) = Inl MeetingFull"
    by simp
  moreover have "approve_interleaved (u1, i, p1) (u2, i, p2) now s = (Inr (), Inr (), t2)"
    using a1 a2 w1 w2 by (simp add: approve_interleaved_def)
  ultimately show ?thesis using \<open>int (count_approved t2 i) = k + 1\<close> cap by blast
qed

theorem approve_race_witness:
  "\<exists>s'. approve_interleaved (1, 1, 10) (1, 1, 11) (seconds 300) demo_store = (Inr (), Inr (), s')
      \<and> int (count_approved s' 1) = 2 \<and> \<not> capacity_ok s'"
proof -
  have c1: "decision_checks 1 1 10 demo_store = Inr (demo_meeting 1 (seconds 600) True (Some 1), demo_row 10 1 2 Pending None False)"
    and c2: "decision_checks 1 1 11 demo_store = Inr (demo_meeting 1 (seconds 600) True (Some 1), demo_row 11 1 3 Pending None False)"
    and k: "max_participants (demo_meeting 1 (seconds 600) True (Some 1)) = Some 1"
    and n: "int (count_approved demo_store 1) + 1 = 1"
    and l: "left_at (demo_row 10 1 2 Pending None False) = None" "left_at (demo_row 11 1 3 Pending None False) = None"
    by (simp_all add: eval_simps demo_defs)
  from approve_race[OF demo_inv c1 c2 _ k n l, of "seconds 300"] show ?thesis by simp
qed

end
