(* ===== verification/Validation.thy ===== *)
theory Validation
  imports Prelude
begin

text \<open>
  The input validators of \<open>src/routes/auth.py\<close> (\<open>validate_email\<close>, lines 14-18;
  \<open>validate_password\<close>, 20-34; \<open>validate_name\<close>, 36-40) and the case-insensitive
  \<open>LIKE\<close> match behind SQLAlchemy's \<open>ilike\<close>, which the auth routes use to look users
  up.  Each regular expression is translated into the predicate on strings that describes
  the language it matches: \<open>re.match\<close> anchors at the start, and \<open>$\<close> matches at the
  end of the string or before a final newline.  Characters are code points below 256, and
  \<open>str.lower()\<close> is modelled on ASCII letters.
\<close>

section \<open>Character classes\<close>

definition is_upper :: "char \<Rightarrow> bool" where
  "is_upper c \<longleftrightarrow> 65 \<le> (of_char c :: nat) \<and> (of_char c :: nat) \<le> 90"

definition is_lower :: "char \<Rightarrow> bool" where
  "is_lower c \<longleftrightarrow> 97 \<le> (of_char c :: nat) \<and> (of_char c :: nat) \<le> 122"

definition is_digit :: "char \<Rightarrow> bool" where
  "is_digit c \<longleftrightarrow> 48 \<le> (of_char c :: nat) \<and> (of_char c :: nat) \<le> 57"

definition is_alpha :: "char \<Rightarrow> bool" where
  "is_alpha c \<longleftrightarrow> is_upper c \<or> is_lower c"

definition is_alnum :: "char \<Rightarrow> bool" where
  "is_alnum c \<longleftrightarrow> is_alpha c \<or> is_digit c"

text \<open>\<open>str.lower()\<close> on ASCII letters.\<close>

definition py_lower :: "string \<Rightarrow> string" where
  "py_lower s = map (\<lambda>c. if is_upper c then char_of (of_char c + (32 :: nat)) else c) s"

section \<open>E-mail addresses\<close>

text \<open>\<open>[a-zA-Z0-9._%+-]\<close> and \<open>[a-zA-Z0-9.-]\<close>.\<close>

definition local_char :: "char \<Rightarrow> bool" where
  "local_char c \<longleftrightarrow> is_alnum c \<or> c \<in> set ''._%+-''"

definition domain_char :: "char \<Rightarrow> bool" where
  "domain_char c \<longleftrightarrow> is_alnum c \<or> c \<in> set ''.-''"

text \<open>The language of \<open>[a-zA-Z0-9.-]+\.[a-zA-Z]{2,}\<close>: some split of the string into a
  non-empty run of domain characters, a dot, and at least two letters.\<close>

definition domain_re :: "string \<Rightarrow> bool" where
  "domain_re r \<longleftrightarrow>
     list_ex (\<lambda>k. let x = take k r; t = drop (Suc k) r in
                    r ! k = CHR ''.'' \<and> x \<noteq> [] \<and> list_all domain_char x
                    \<and> 2 \<le> length t \<and> list_all is_alpha t) [0..<length r]"

text \<open>The language of the whole pattern, without the anchor at the end.\<close>

definition email_re :: "string \<Rightarrow> bool" where
  "email_re s \<longleftrightarrow>
     list_ex (\<lambda>k. let l = take k s in
                    s ! k = CHR ''@'' \<and> l \<noteq> [] \<and> list_all local_char l
                    \<and> domain_re (drop (Suc k) s)) [0..<length s]"

text \<open>\<open>re.match(pattern, s)\<close> for a pattern ending in \<open>$\<close>.\<close>

definition re_match_end :: "(string \<Rightarrow> bool) \<Rightarrow> string \<Rightarrow> bool" where
  "re_match_end L s \<longleftrightarrow> L s \<or> (s \<noteq> [] \<and> last s = CHR ''\<newline>'' \<and> L (butlast s))"

definition validate_email :: "string \<Rightarrow> bool" where
  "validate_email e \<longleftrightarrow> e \<noteq> [] \<and> \<not> length e > 120 \<and> re_match_end email_re e"

text \<open>A direct scan: the top-level domain is what follows the last dot, and the local part
  is what precedes the only \<open>@\<close>.\<close>

definition email_scan :: "string \<Rightarrow> bool" where
  "email_scan s =
     (let l = takeWhile (\<lambda>c. c \<noteq> CHR ''@'') s; r = drop (Suc (length l)) s;
          t = rev (takeWhile (\<lambda>c. c \<noteq> CHR ''.'') (rev r)); x = take (length r - Suc (length t)) r
      in length l < length s \<and> l \<noteq> [] \<and> list_all local_char l
         \<and> length t < length r \<and> x \<noteq> [] \<and> list_all domain_char x
         \<and> 2 \<le> length t \<and> list_all is_alpha t)"

section \<open>Passwords and names\<close>

text \<open>\<open>[!@#$%^&*(),.?":{}|<>]\<close>.\<close>

definition special_char :: "char \<Rightarrow> bool" where
  "special_char c \<longleftrightarrow> c \<in> set ''!@#$%^&*(),.?:{}|<>'' \<or> c = CHR 0x22"

definition validate_password :: "string \<Rightarrow> bool" where
  "validate_password p \<longleftrightarrow>
     p \<noteq> [] \<and> \<not> length p > 72 \<and> \<not> length p < 8
     \<and> list_ex is_upper p \<and> list_ex is_lower p \<and> list_ex is_digit p \<and> list_ex special_char p"

text \<open>\<open>[a-zA-Z0-9\s.-]{3,100}\<close>.\<close>

definition name_re :: "string \<Rightarrow> bool" where
  "name_re n \<longleftrightarrow> 3 \<le> length n \<and> length n \<le> 100
     \<and> list_all (\<lambda>c. is_alnum c \<or> py_space c \<or> c = CHR ''.'' \<or> c = CHR ''-'') n"

definition validate_name :: "string \<Rightarrow> bool" where
  "validate_name n \<longleftrightarrow> n \<noteq> [] \<and> \<not> length n > 100 \<and> re_match_end name_re n"

section \<open>Case-insensitive LIKE\<close>

text \<open>\<open>column.ilike(pattern)\<close>: \<open>%\<close> matches any run of characters, \<open>_\<close> any one
  character, every other character itself, ignoring case.  The validated e-mail addresses
  and names contain no backslash, so the escape character plays no part.\<close>

fun like_match :: "string \<Rightarrow> string \<Rightarrow> bool" where
  "like_match [] s \<longleftrightarrow> s = []"
| "like_match (c # p) [] \<longleftrightarrow> c = CHR ''%'' \<and> like_match p []"
| "like_match (c # p) (d # s) \<longleftrightarrow>
     (if c = CHR ''%'' then like_match p (d # s) \<or> like_match (c # p) s
      else (c = CHR ''_'' \<or> c = d) \<and> like_match p s)"

definition ilike :: "string \<Rightarrow> string \<Rightarrow> bool" where
  "ilike x pattern \<longleftrightarrow> like_match (py_lower pattern) (py_lower x)"

section \<open>Lemmas\<close>

lemma upt_ex: "list_ex P [0..<n] \<longleftrightarrow> (\<exists>k<n. P k)"
  by (auto simp: list_ex_iff)

lemma split_at_iff:
  "(\<exists>k<length s. s ! k = c \<and> Q (take k s) (drop (Suc k) s)) \<longleftrightarrow> (\<exists>l r. s = l @ c # r \<and> Q l r)"
proof
  assume "\<exists>k<length s. s ! k = c \<and> Q (take k s) (drop (Suc k) s)"
  then obtain k where k: "k < length s" "s ! k = c" "Q (take k s) (drop (Suc k) s)" by blast
  then have "s = take k s @ c # drop (Suc k) s" by (metis id_take_nth_drop)
  with k(3) show "\<exists>l r. s = l @ c # r \<and> Q l r" by blast
next
  assume "\<exists>l r. s = l @ c # r \<and> Q l r"
  then obtain l r where "s = l @ c # r" "Q l r" by blast
  then show "\<exists>k<length s. s ! k = c \<and> Q (take k s) (drop (Suc k) s)"
    by (intro exI[of _ "length l"]) simp
qed

lemma email_re_iff:
  "email_re s \<longleftrightarrow> (\<exists>l r. s = l @ CHR ''@'' # r \<and> l \<noteq> [] \<and> list_all local_char l \<and> domain_re r)"
  unfolding email_re_def upt_ex Let_def
  using split_at_iff[of s "CHR ''@''" "\<lambda>l r. l \<noteq> [] \<and> list_all local_char l \<and> domain_re r"] by simp

lemma domain_re_iff:
  "domain_re r \<longleftrightarrow> (\<exists>x t. r = x @ CHR ''.'' # t \<and> x \<noteq> [] \<and> list_all domain_char x
                      \<and> 2 \<le> length t \<and> list_all is_alpha t)"
  unfolding domain_re_def upt_ex Let_def
  using split_at_iff[of r "CHR ''.''" "\<lambda>x t. x \<noteq> [] \<and> list_all domain_char x \<and> 2 \<le> length t \<and> list_all is_alpha t"]
  by simp

lemma takeWhile_sep: "c \<notin> set l \<Longrightarrow> takeWhile (\<lambda>x. x \<noteq> c) (l @ c # r) = l"
  by (induction l) auto

lemma takeWhile_split:
  assumes "length (takeWhile P s) < length s"
  shows "\<exists>d rest. s = takeWhile P s @ d # rest \<and> \<not> P d"
proof -
  have "dropWhile P s \<noteq> []" using assms by (metis append_Nil2 takeWhile_dropWhile_id nat_less_le)
  then obtain d rest where dw: "dropWhile P s = d # rest" by (cases "dropWhile P s") auto
  then have "\<not> P d" by (metis hd_dropWhile list.sel(1) list.simps(3))
  with dw show ?thesis by (metis takeWhile_dropWhile_id)
qed

lemma not_local_at: "\<not> local_char (CHR ''@'')"
  by (simp add: local_char_def is_alnum_def is_alpha_def is_upper_def is_lower_def is_digit_def)

lemma not_alpha_dot: "\<not> is_alpha (CHR ''.'')"
  by (simp add: is_alpha_def is_upper_def is_lower_def)

text \<open>C26. The e-mail pattern accepts exactly the addresses a direct scan accepts: a non-
  empty local part before the only at sign, and a domain whose part after the last dot
  has at least two letters and whose part before it is a non-empty run of domain
  characters.\<close>

theorem email_scan_eq: "email_scan s \<longleftrightarrow> email_re s"
proof
  assume "email_re s"
  then obtain l r x t where s: "s = l @ CHR ''@'' # r" and l: "l \<noteq> []" "list_all local_char l"
    and r: "r = x @ CHR ''.'' # t" and x: "x \<noteq> []" "list_all domain_char x"
    and t: "2 \<le> length t" "list_all is_alpha t"
    by (auto simp: email_re_iff domain_re_iff)
  from l(2) not_local_at have la: "CHR ''@'' \<notin> set l" by (auto simp: list_all_iff)
  from t(2) not_alpha_dot have td: "CHR ''.'' \<notin> set (rev t)" by (auto simp: list_all_iff)
  have tw: "takeWhile (\<lambda>c. c \<noteq> CHR ''.'') (rev r) = rev t"
    using takeWhile_sep[OF td, of "rev x"] r by simp
  show "email_scan s"
    unfolding email_scan_def Let_def using s l r x t la tw by (simp add: takeWhile_sep)
next
  assume sc: "email_scan s"
  define l where "l = takeWhile (\<lambda>c. c \<noteq> CHR ''@'') s"
  define r where "r = drop (Suc (length l)) s"
  define t where "t = rev (takeWhile (\<lambda>c. c \<noteq> CHR ''.'') (rev r))"
  define x where "x = take (length r - Suc (length t)) r"
  from sc have c: "length l < length s" "l \<noteq> []" "list_all local_char l" "length t < length r"
    "x \<noteq> []" "list_all domain_char x" "2 \<le> length t" "list_all is_alpha t"
    unfolding email_scan_def Let_def l_def r_def t_def x_def by simp_all
  from takeWhile_split[of "\<lambda>c. c \<noteq> CHR ''@''" s] c(1) obtain d rest
    where "s = l @ d # rest" "d = CHR ''@''" unfolding l_def by auto
  then have s: "s = l @ CHR ''@'' # r" by (simp add: r_def)
  have "length (takeWhile (\<lambda>c. c \<noteq> CHR ''.'') (rev r)) < length (rev r)"
    using c(4) by (simp add: t_def)
  from takeWhile_split[OF this] obtain d' rest'
    where rr: "rev r = rev t @ d' # rest'" "d' = CHR ''.''" unfolding t_def by auto
  then have r: "r = rev rest' @ CHR ''.'' # t" by (metis rev_append rev_rev_ident rev.simps(2) append_assoc append_Cons append_Nil)
  then have "x = rev rest'" by (simp add: x_def)
  with r have "r = x @ CHR ''.'' # t" by simp
  then show "email_re s" unfolding email_re_iff domain_re_iff using s c by blast
qed

lemma like_match_pct: "like_match q s \<Longrightarrow> like_match (CHR ''%'' # q) s"
  by (cases s) simp_all

lemma like_match_refl: "like_match p p"
proof (induction p)
  case Nil then show ?case by simp
next
  case (Cons c p)
  then show ?case using like_match_pct[OF Cons.IH] by simp
qed

lemma ilike_refl: "ilike x x"
  by (simp add: ilike_def like_match_refl)

lemma like_match_any: "like_match ''%'' s"
  by (induction s) simp_all

lemma like_match_exact:
  "CHR ''%'' \<notin> set p \<Longrightarrow> CHR ''_'' \<notin> set p \<Longrightarrow> like_match p s \<longleftrightarrow> p = s"
  by (induction p s rule: like_match.induct) auto

end
