(* ===== verification/Users.thy ===== *)
theory Users
  imports Validation
begin

text \<open>
  The \<open>User\<close> model of \<open>src/models/user.py\<close>: its row (lines 6-34), the constructor
  (36-42), the password methods (44-53), the lockout methods (55-70), the login record
  (72-77), the token generators (79-91) and \<open>verify_email\<close> (93-102).  Hashing is
  werkzeug's library call: \<open>generate_password_hash\<close> is the injective \<open>PwHash\<close> and
  \<open>check_password_hash\<close> compares with it.  The random tokens of \<open>secrets.token_urlsafe\<close>
  are an argument.  The row is a persistent one, as the methods find it: the
  \<open>db.session.commit()\<close> of a method writes the updated row and expires its attributes,
  so a datetime column is read back naive (\<open>Prelude\<close>, \<open>pydatetime\<close>), while
  \<open>datetime.now(UTC)\<close> is aware.
\<close>

section \<open>The user row\<close>

datatype pw_hash = PwHash string

record user_row =
  u_id :: nat
  u_email :: string
  u_name :: string
  password_hash :: pw_hash
  u_created_at :: instant
  updated_at :: instant
  is_active :: bool
  is_email_verified :: bool
  email_verification_token :: "string option"
  email_verification_sent_at :: "instant option"
  password_reset_token :: "string option"
  password_reset_sent_at :: "instant option"
  last_password_change :: instant
  last_login_at :: "instant option"
  last_login_ip :: "string option"
  login_count :: int
  failed_login_attempts :: int
  locked_until :: "instant option"

text \<open>The exceptions a method may raise.\<close>

datatype user_error = InvalidPasswordLength | CompareNone | CompareNaiveAware

section \<open>Passwords\<close>

text \<open>Lines 44-48: \<open>ValueError\<close> for an empty password or one longer than 72
  characters.\<close>

definition set_password :: "string \<Rightarrow> instant \<Rightarrow> user_row \<Rightarrow> user_error + user_row" where
  "set_password p now u =
     (if p = [] \<or> length p > 72 then Inl InvalidPasswordLength
      else Inr (u\<lparr>password_hash := PwHash p, last_password_change := now\<rparr>))"

definition check_password :: "user_row \<Rightarrow> string \<Rightarrow> bool" where
  "check_password u p \<longleftrightarrow> \<not> (p = [] \<or> length p > 72) \<and> password_hash u = PwHash p"

text \<open>Lines 36-42, with the column defaults of lines 13-34; the id is the one the insert
  assigns.\<close>

definition new_user :: "nat \<Rightarrow> string \<Rightarrow> string \<Rightarrow> string \<Rightarrow> instant \<Rightarrow> user_error + user_row" where
  "new_user i e n p now =
     set_password p now
       \<lparr>u_id = i, u_email = py_strip (py_lower e), u_name = py_strip n, password_hash = PwHash [],
        u_created_at = now, updated_at = now, is_active = True, is_email_verified = False,
        email_verification_token = None, email_verification_sent_at = None,
        password_reset_token = None, password_reset_sent_at = None, last_password_change = now,
        last_login_at = None, last_login_ip = None, login_count = 0, failed_login_attempts = 0,
        locked_until = None\<rparr>"

section \<open>Lockout\<close>

text \<open>Lines 55-59: \<open>self.locked_until > datetime.now(UTC)\<close> compares the stored (naive)
  instant with the aware current time.\<close>

definition is_locked :: "user_row \<Rightarrow> instant \<Rightarrow> user_error + bool" where
  "is_locked u now =
     (case locked_until u of
        None \<Rightarrow> Inr False
      | Some t \<Rightarrow> (case dt_less (utc_now now) (db_value t) of
                   None \<Rightarrow> Inl CompareNaiveAware
                 | Some b \<Rightarrow> Inr b))"

definition increment_failed_attempts :: "instant \<Rightarrow> user_row \<Rightarrow> user_row" where
  "increment_failed_attempts now u =
     (let n = failed_login_attempts u + 1 in
      if n \<ge> 5 then u\<lparr>failed_login_attempts := n, locked_until := Some (now + seconds (15 * 60))\<rparr>
      else u\<lparr>failed_login_attempts := n\<rparr>)"

definition reset_failed_attempts :: "user_row \<Rightarrow> user_row" where
  "reset_failed_attempts u = u\<lparr>failed_login_attempts := 0, locked_until := None\<rparr>"

definition record_login :: "string \<Rightarrow> instant \<Rightarrow> user_row \<Rightarrow> user_row" where
  "record_login ip now u =
     reset_failed_attempts (u\<lparr>last_login_at := Some now, last_login_ip := Some ip,
                              login_count := login_count u + 1\<rparr>)"

section \<open>Tokens and e-mail verification\<close>

definition generate_email_verification_token :: "string \<Rightarrow> instant \<Rightarrow> user_row \<Rightarrow> user_row" where
  "generate_email_verification_token tok now u =
     u\<lparr>email_verification_token := Some tok, email_verification_sent_at := Some now\<rparr>"

definition generate_password_reset_token :: "string \<Rightarrow> instant \<Rightarrow> user_row \<Rightarrow> user_row" where
  "generate_password_reset_token tok now u =
     u\<lparr>password_reset_token := Some tok, password_reset_sent_at := Some now\<rparr>"

text \<open>Lines 93-102.  Line 96 compares the sending instant with
  \<open>datetime.now(UTC) - timedelta(days=1)\<close>: \<open>TypeError\<close> for an instant of
  \<open>None\<close>, and for the naive instant the column gives back.\<close>

definition verify_email :: "string \<Rightarrow> instant \<Rightarrow> user_row \<Rightarrow> (user_error + bool) \<times> user_row" where
  "verify_email tok now u =
     (if email_verification_token u = None \<or> email_verification_token u \<noteq> Some tok then (Inr False, u)
      else case email_verification_sent_at u of
        None \<Rightarrow> (Inl CompareNone, u)
      | Some t \<Rightarrow>
          (case dt_less (db_value t) (utc_now (now - day_usec)) of
             None \<Rightarrow> (Inl CompareNaiveAware, u)
           | Some True \<Rightarrow> (Inr False, u)
           | Some False \<Rightarrow> (Inr True, u\<lparr>is_email_verified := True, email_verification_token := None,
                                        email_verification_sent_at := None\<rparr>)))"

text \<open>The rows the constructor and the methods produce keep a sending instant beside every
  verification token.\<close>

definition token_ok :: "user_row \<Rightarrow> bool" where
  "token_ok u \<longleftrightarrow> (email_verification_token u \<noteq> None \<longrightarrow> email_verification_sent_at u \<noteq> None)"

section \<open>Serialisation\<close>

text \<open>Lines 104-114: \<open>to_dict\<close>; \<open>datetime.isoformat\<close> is the argument \<open>isoformat\<close>.\<close>

definition user_to_dict :: "(instant \<Rightarrow> string) \<Rightarrow> user_row \<Rightarrow> pydict" where
  "user_to_dict isoformat u =
     [(''id'', PInt (int (u_id u))), (''email'', PStr (u_email u)), (''name'', PStr (u_name u)),
      (''is_active'', PBool (is_active u)), (''is_email_verified'', PBool (is_email_verified u)),
      (''created_at'', PStr (isoformat (u_created_at u))), (''updated_at'', PStr (isoformat (updated_at u))),
      (''last_login_at'', case last_login_at u of None \<Rightarrow> PNone | Some t \<Rightarrow> PStr (isoformat t))]"

section \<open>Example row\<close>

definition demo_user :: user_row where
  "demo_user =
     \<lparr>u_id = 1, u_email = ''ann@example.org'', u_name = ''Ann'', password_hash = PwHash ''x'',
      u_created_at = 0, updated_at = 0, is_active = True, is_email_verified = False,
      email_verification_token = None, email_verification_sent_at = None,
      password_reset_token = None, password_reset_sent_at = None, last_password_change = 0,
      last_login_at = None, last_login_ip = None, login_count = 0, failed_login_attempts = 0,
      locked_until = None\<rparr>"

section \<open>Lemmas\<close>

lemma increment_fields [simp]:
  "failed_login_attempts (increment_failed_attempts now u) = failed_login_attempts u + 1"
  "locked_until (increment_failed_attempts now u) =
     (if failed_login_attempts u + 1 \<ge> 5 then Some (now + seconds 900) else locked_until u)"
  "email_verification_token (increment_failed_attempts now u) = email_verification_token u"
  "email_verification_sent_at (increment_failed_attempts now u) = email_verification_sent_at u"
  by (simp_all add: increment_failed_attempts_def Let_def)

lemma fold_increment_attempts:
  "failed_login_attempts (fold increment_failed_attempts ts u) = failed_login_attempts u + int (length ts)"
  by (induction ts arbitrary: u) auto

lemma fold_increment_unlocked:
  "failed_login_attempts u + int (length ts) < 5 \<Longrightarrow>
     locked_until (fold increment_failed_attempts ts u) = locked_until u"
  by (induction ts arbitrary: u) auto

text \<open>C27. Five failed attempts set the lock, and the lock can never be read: from a row
  without a lock, a run of failed attempts that brings the counter to five or more
  sets locked_until to fifteen minutes after the last attempt, after which is_locked
  raises TypeError at every instant; a run that stays below five sets no lock and
  is_locked answers False.\<close>

theorem lockout_after_five:
  assumes "ts \<noteq> []" and "locked_until u = None"
  shows "(5 \<le> failed_login_attempts u + int (length ts) \<longrightarrow>
            locked_until (fold increment_failed_attempts ts u) = Some (last ts + seconds 900)
          \<and> (\<forall>now. is_locked (fold increment_failed_attempts ts u) now = Inl CompareNaiveAware))
     \<and> (failed_login_attempts u + int (length ts) < 5 \<longrightarrow>
            locked_until (fold increment_failed_attempts ts u) = None
          \<and> (\<forall>now. is_locked (fold increment_failed_attempts ts u) now = Inr False))"
proof (intro conjI impI)
  from assms(1) obtain xs t where ts: "ts = xs @ [t]" by (metis rev_exhaust)
  assume "5 \<le> failed_login_attempts u + int (length ts)"
  with ts have "failed_login_attempts (fold increment_failed_attempts xs u) + 1 \<ge> 5"
    by (simp add: fold_increment_attempts)
  then show "locked_until (fold increment_failed_attempts ts u) = Some (last ts + seconds 900)"
    and "\<forall>now. is_locked (fold increment_failed_attempts ts u) now = Inl CompareNaiveAware"
    using ts by (simp_all add: is_locked_def)
next
  assume "failed_login_attempts u + int (length ts) < 5"
  with assms(2) show "locked_until (fold increment_failed_attempts ts u) = None"
    and "\<forall>now. is_locked (fold increment_failed_attempts ts u) now = Inr False"
    by (simp_all add: fold_increment_unlocked is_locked_def)
qed

theorem lockout_after_five_witness:
  "locked_until (fold increment_failed_attempts [1, 2, 3, 4, 5] demo_user) = Some (5 + seconds 900)
   \<and> is_locked (fold increment_failed_attempts [1, 2, 3, 4, 5] demo_user) (seconds 899) = Inl CompareNaiveAware
   \<and> is_locked (fold increment_failed_attempts [1, 2, 3, 4] demo_user) (seconds 899) = Inr False"
proof -
  have n: "[1, 2, 3, 4, 5 :: int] \<noteq> []" "[1, 2, 3, 4 :: int] \<noteq> []" and l: "locked_until demo_user = None"
    and c: "5 \<le> failed_login_attempts demo_user + int (length [1, 2, 3, 4, 5 :: int])"
      "failed_login_attempts demo_user + int (length [1, 2, 3, 4 :: int]) < 5"
    by (simp_all add: demo_user_def)
  from lockout_after_five[OF n(1) l] lockout_after_five[OF n(2) l] c show ?thesis by simp
qed

lemma set_password_Inr:
  "set_password p now u = Inr u' \<longleftrightarrow>
     p \<noteq> [] \<and> length p \<le> 72 \<and> u' = u\<lparr>password_hash := PwHash p, last_password_change := now\<rparr>"
  by (auto simp: set_password_def)

text \<open>Setting a password and checking one agree: after a successful set_password,
  check_password accepts exactly the password that was set.\<close>

theorem set_check_password:
  assumes "set_password p now u = Inr u'"
  shows "check_password u' q \<longleftrightarrow> q = p"
  using assms by (auto simp: set_password_Inr check_password_def)

theorem set_check_password_witness:
  "set_password ''Secret#1a'' 5 demo_user
     = Inr (demo_user\<lparr>password_hash := PwHash ''Secret#1a'', last_password_change := 5\<rparr>)
   \<and> \<not> check_password (demo_user\<lparr>password_hash := PwHash ''Secret#1a'', last_password_change := 5\<rparr>) ''x''"
proof -
  have s: "set_password ''Secret#1a'' 5 demo_user
     = Inr (demo_user\<lparr>password_hash := PwHash ''Secret#1a'', last_password_change := 5\<rparr>)"
    by (simp add: set_password_def)
  from set_check_password[OF s, of "''x''"] s show ?thesis by simp
qed

text \<open>C28. No account can be verified: verify_email answers False for a token that does not
  match and raises TypeError for one that does, since the sending instant it compares
  is None or the naive value the column gives back; the row is never changed.\<close>

theorem verify_email_never_verifies:
  "verify_email tok now u =
     (if email_verification_token u = Some tok
      then Inl (case email_verification_sent_at u of None \<Rightarrow> CompareNone | Some t \<Rightarrow> CompareNaiveAware)
      else Inr False, u)"
  by (auto simp: verify_email_def split: option.split)

text \<open>C29. Every verification token has a sending instant: the constructor creates a row
  without a token, each method keeps a token next to its instant, so verify_email
  never reaches the comparison with None that would raise TypeError.\<close>

theorem user_token_inv:
  "(new_user i e n p now = Inr u0 \<longrightarrow> token_ok u0)
   \<and> (token_ok u \<longrightarrow>
        token_ok (increment_failed_attempts now u) \<and> token_ok (reset_failed_attempts u)
      \<and> token_ok (record_login ip now u) \<and> token_ok (generate_email_verification_token tok now u)
      \<and> token_ok (generate_password_reset_token tok now u)
      \<and> case_sum (\<lambda>_. True) token_ok (set_password p now u)
      \<and> token_ok (snd (verify_email tok now u)) \<and> fst (verify_email tok now u) \<noteq> Inl CompareNone)"
  by (auto simp: token_ok_def new_user_def set_password_def increment_failed_attempts_def Let_def
      reset_failed_attempts_def record_login_def generate_email_verification_token_def
      generate_password_reset_token_def verify_email_def split: option.splits)

theorem user_token_inv_witness:
  "token_ok demo_user \<and> token_ok (increment_failed_attempts 0 demo_user)
   \<and> fst (verify_email ''t0k'' 0 demo_user) \<noteq> Inl CompareNone"
proof -
  have "token_ok demo_user" by (simp add: token_ok_def demo_user_def)
  with user_token_inv[where u = demo_user and now = 0 and tok = "''t0k''"] show ?thesis by blast
qed


text \<open>The serialised user carries no secret: neither the password hash nor a token, and
  nothing that depends on them.\<close>

lemma user_to_dict_no_secrets:
  "map fst (user_to_dict isoformat u) =
     [''id'', ''email'', ''name'', ''is_active'', ''is_email_verified'', ''created_at'', ''updated_at'', ''last_login_at'']"
  "u\<lparr>password_hash := h, email_verification_token := t1, password_reset_token := t2,
      failed_login_attempts := n, locked_until := l\<rparr> = u'
   \<Longrightarrow> user_to_dict isoformat u' = user_to_dict isoformat u"
  by (auto simp: user_to_dict_def)

end
