(* ===== verification/Auth.thy ===== *)
theory Auth
  imports Users
begin

text \<open>
  The authentication routes of \<open>src/routes/auth.py\<close>: \<open>register\<close> (lines 52-130),
  \<open>login\<close> (132-185) and \<open>verify_token\<close> (187-215), with the placeholder rate limits
  \<open>get_failed_login_attempts\<close> and \<open>is_ip_blocked\<close> (42-50), and the
  \<open>token_required\<close> decorator of \<open>src/routes/meetings.py\<close> (lines 12-41) that resolves
  the current user of every meeting route.  The users table is \<open>accounts\<close>.  Encoding and
  decoding a JWT are library calls: \<open>jwt.encode\<close> is the claim set \<open>issue_token\<close>
  builds, \<open>jwt.decode\<close> is the argument \<open>decode\<close>, which answers the claims or the
  exception PyJWT raises.  The hierarchy of PyJWT's exceptions decides which
  \<open>except\<close> clause handles them.
\<close>

section \<open>State, requests and answers\<close>

record accounts =
  user_rows :: "user_row list"
  next_user_id :: nat

record register_body =
  rb_email :: "string option"
  rb_name :: "string option"
  rb_password :: "string option"

record login_body =
  lb_email :: "string option"
  lb_password :: "string option"

record jwt_claims =
  c_user_id :: "nat option"
  c_email :: string
  c_exp :: instant
  c_iat :: instant
  c_type :: string

datatype auth_reason =
    IpBlocked | NoBody | MissingFields | InvalidEmail | WeakPassword | InvalidName
  | EmailTaken | NameTaken | ConstraintViolation | RegisterError
  | AccountLocked | InvalidCredentials int | LoginError
  | InvalidTokenFormat | TokenUserNotFound | TokenExpired | TokenInvalid
  | InvalidKey | InvalidAlgorithm | AuthError | VerificationError

text \<open>The exceptions of \<open>jwt.decode\<close>.  In PyJWT every one of them but
  \<open>InvalidKeyError\<close> is a subclass of \<open>InvalidTokenError\<close>.\<close>

datatype jwt_exc =
    ExpiredSignatureError | DecodeError | InvalidSignatureError | InvalidAlgorithmError
  | InvalidKeyError | ImmatureSignatureError | InvalidAudienceError | InvalidIssuerError
  | MissingRequiredClaimError

definition is_invalid_token :: "jwt_exc \<Rightarrow> bool" where
  "is_invalid_token e \<longleftrightarrow> e \<noteq> InvalidKeyError"

section \<open>Placeholders and tokens\<close>

definition get_failed_login_attempts :: "string \<Rightarrow> int" where
  "get_failed_login_attempts e = 0"

definition is_ip_blocked :: "string \<Rightarrow> bool" where
  "is_ip_blocked ip = False"

text \<open>Lines 113-120 and 170-177: the claims of the access token, valid for
  \<open>JWT_EXPIRY_DAYS\<close> days.\<close>

definition issue_token :: "int \<Rightarrow> instant \<Rightarrow> user_row \<Rightarrow> jwt_claims" where
  "issue_token days now u =
     \<lparr>c_user_id = Some (u_id u), c_email = u_email u, c_exp = now + days * day_usec, c_iat = now,
      c_type = ''access''\<rparr>"

definition find_user :: "(user_row \<Rightarrow> bool) \<Rightarrow> accounts \<Rightarrow> user_row option" where
  "find_user P a = find P (user_rows a)"

text \<open>The unique constraints on \<open>users.email\<close> and \<open>users.name\<close>, checked at commit.\<close>

definition accounts_unique :: "accounts \<Rightarrow> bool" where
  "accounts_unique a \<longleftrightarrow> distinct (map u_email (user_rows a)) \<and> distinct (map u_name (user_rows a))"

section \<open>Register\<close>

definition register ::
  "string \<Rightarrow> int \<Rightarrow> register_body option \<Rightarrow> instant \<Rightarrow> accounts
   \<Rightarrow> (auth_reason + jwt_claims \<times> user_row) \<times> accounts" where
  "register ip days d now a =
     (if is_ip_blocked ip then (Inl IpBlocked, a) else
      case d of
        None \<Rightarrow> (Inl NoBody, a)
      | Some b \<Rightarrow>
          (case (rb_email b, rb_name b, rb_password b) of
             (Some e0, Some n0, Some p) \<Rightarrow>
               (let e = py_lower (py_strip e0); n = py_strip n0 in
                if \<not> validate_email e then (Inl InvalidEmail, a)
                else if \<not> validate_password p then (Inl WeakPassword, a)
                else if \<not> validate_name n then (Inl InvalidName, a)
                else if find_user (\<lambda>u. ilike (u_email u) e) a \<noteq> None then (Inl EmailTaken, a)
                else if find_user (\<lambda>u. ilike (u_name u) n) a \<noteq> None then (Inl NameTaken, a)
                else case new_user (next_user_id a) e n p now of
                  Inl _ \<Rightarrow> (Inl RegisterError, a)
                | Inr u \<Rightarrow>
                    (let a' = a\<lparr>user_rows := user_rows a @ [u], next_user_id := Suc (next_user_id a)\<rparr> in
                     if accounts_unique a' then (Inr (issue_token days now u, u), a')
                     else (Inl ConstraintViolation, a)))
           | _ \<Rightarrow> (Inl MissingFields, a)))"

section \<open>Login\<close>

text \<open>Lines 132-185.  No attempt is counted and no login is recorded: the route reads the
  table only.\<close>

definition login ::
  "string \<Rightarrow> int \<Rightarrow> login_body option \<Rightarrow> instant \<Rightarrow> accounts
   \<Rightarrow> (auth_reason + jwt_claims \<times> user_row) \<times> accounts" where
  "login ip days d now a =
     (if is_ip_blocked ip then (Inl IpBlocked, a) else
      case d of
        None \<Rightarrow> (Inl NoBody, a)
      | Some b \<Rightarrow>
          (case (lb_email b, lb_password b) of
             (Some e0, Some p) \<Rightarrow>
               (let e = py_lower (py_strip e0); attempts = get_failed_login_attempts e in
                if attempts \<ge> 5 then (Inl AccountLocked, a)
                else case find_user (\<lambda>u. ilike (u_email u) e) a of
                  None \<Rightarrow> (Inl (InvalidCredentials (5 - (attempts + 1))), a)
                | Some u \<Rightarrow>
                    if \<not> check_password u p then (Inl (InvalidCredentials (5 - (attempts + 1))), a)
                    else (Inr (issue_token days now u, u), a))
           | _ \<Rightarrow> (Inl MissingFields, a)))"

section \<open>Bearer tokens\<close>

text \<open>\<open>s.split(sep)[1]\<close> for a string that starts with \<open>sep\<close>: the text after the
  first separator, up to the next one.\<close>

fun cut_at :: "string \<Rightarrow> string \<Rightarrow> string" where
  "cut_at sep [] = []"
| "cut_at sep (c # s) = (if prefix sep (c # s) then [] else c # cut_at sep s)"

abbreviation bearer :: string where
  "bearer \<equiv> ''Bearer ''"

definition bearer_piece :: "string \<Rightarrow> string" where
  "bearer_piece h = cut_at bearer (drop (length bearer) h)"

text \<open>Lines 187-215: a \<open>KeyError\<close> for a token without \<open>user_id\<close> and an exception
  that is no \<open>InvalidTokenError\<close> reach the outer handler.\<close>

definition verify_token ::
  "(string \<Rightarrow> jwt_exc + jwt_claims) \<Rightarrow> string option \<Rightarrow> accounts \<Rightarrow> auth_reason + user_row" where
  "verify_token decode hdr a =
     (case hdr of
        None \<Rightarrow> Inl InvalidTokenFormat
      | Some h \<Rightarrow>
          if \<not> prefix bearer h then Inl InvalidTokenFormat
          else case decode (bearer_piece h) of
            Inl x \<Rightarrow> if x = ExpiredSignatureError then Inl TokenExpired
                     else if is_invalid_token x then Inl TokenInvalid
                     else Inl VerificationError
          | Inr c \<Rightarrow>
              (case c_user_id c of
                 None \<Rightarrow> Inl VerificationError
               | Some i \<Rightarrow>
                   (case find_user (\<lambda>u. u_id u = i) a of
                      None \<Rightarrow> Inl TokenUserNotFound
                    | Some u \<Rightarrow> Inr u)))"

text \<open>Lines 12-41 of \<open>src/routes/meetings.py\<close>: the handlers in source order, the first
  whose class the exception belongs to answering; a \<open>KeyError\<close> falls to the last.\<close>

definition token_required ::
  "(string \<Rightarrow> jwt_exc + jwt_claims) \<Rightarrow> string option \<Rightarrow> accounts \<Rightarrow> auth_reason + user_row" where
  "token_required decode hdr a =
     (case hdr of
        None \<Rightarrow> Inl InvalidTokenFormat
      | Some h \<Rightarrow>
          if \<not> prefix bearer h then Inl InvalidTokenFormat
          else case decode (bearer_piece h) of
            Inl x \<Rightarrow> if x = ExpiredSignatureError then Inl TokenExpired
                     else if is_invalid_token x then Inl TokenInvalid
                     else if x = InvalidKeyError then Inl InvalidKey
                     else if x = InvalidAlgorithmError then Inl InvalidAlgorithm
                     else Inl AuthError
          | Inr c \<Rightarrow>
              (case c_user_id c of
                 None \<Rightarrow> Inl AuthError
               | Some i \<Rightarrow>
                   (case find_user (\<lambda>u. u_id u = i) a of
                      None \<Rightarrow> Inl TokenUserNotFound
                    | Some u \<Rightarrow> Inr u)))"

section \<open>Invariant and example table\<close>

text \<open>Ids are distinct and below the next id, and e-mail addresses and names are distinct
  up to case.\<close>

definition accounts_inv :: "accounts \<Rightarrow> bool" where
  "accounts_inv a \<longleftrightarrow>
     distinct (map u_id (user_rows a)) \<and> list_all (\<lambda>u. u_id u < next_user_id a) (user_rows a)
   \<and> distinct (map (\<lambda>u. py_lower (u_email u)) (user_rows a))
   \<and> distinct (map (\<lambda>u. py_lower (u_name u)) (user_rows a))"

text \<open>Two users: Ann, whose password is \<open>Secret#1a\<close>, and Bob at \<open>axb@example.org\<close>.\<close>

definition demo_accounts :: accounts where
  "demo_accounts =
     \<lparr>user_rows = [demo_user\<lparr>password_hash := PwHash ''Secret#1a''\<rparr>,
                   demo_user\<lparr>u_id := 2, u_email := ''axb@example.org'', u_name := ''Bob''\<rparr>],
      next_user_id = 3\<rparr>"

text \<open>Carol's registration request.\<close>

definition demo_register :: register_body where
  "demo_register = \<lparr>rb_email = Some '' Carol@Example.org'', rb_name = Some ''Carol'',
                     rb_password = Some ''Secret#1a''\<rparr>"

definition demo_login :: login_body where
  "demo_login = \<lparr>lb_email = Some '' Carol@Example.org'', lb_password = Some ''Secret#1a''\<rparr>"

text \<open>Carol's row as her registration creates it.\<close>

definition carol :: user_row where
  "carol = demo_user\<lparr>u_id := 3, u_email := ''carol@example.org'', u_name := ''Carol'',
                      password_hash := PwHash ''Secret#1a''\<rparr>"

section \<open>Lemmas\<close>

lemma lower_char_space: "py_space (if is_upper c then char_of (of_char c + (32 :: nat)) else c) = py_space c"
  by (auto simp: py_space_def is_upper_def Let_def)

lemma py_strip_lower: "py_strip (py_lower s) = py_lower (py_strip s)"
proof -
  let ?f = "\<lambda>c. if is_upper c then char_of (of_char c + (32 :: nat)) else c"
  have dw: "\<And>xs. dropWhile py_space (map ?f xs) = map ?f (dropWhile py_space xs)"
    subgoal for xs by (induction xs) (simp_all add: lower_char_space)
    done
  show ?thesis by (simp add: py_strip_def py_lower_def dw rev_map)
qed

lemma py_lower_idem: "py_lower (py_lower s) = py_lower s"
  by (induction s) (auto simp: py_lower_def is_upper_def)

lemma dropWhile_idem: "dropWhile P (dropWhile P xs) = dropWhile P xs"
  by (induction xs) auto

lemma py_strip_idem: "py_strip (py_strip s) = py_strip s"
proof -
  let ?a = "dropWhile py_space s"
  let ?b = "dropWhile py_space (rev ?a)"
  have "dropWhile py_space (rev ?b) = rev ?b"
  proof (cases ?b)
    case Nil then show ?thesis by (metis dropWhile.simps(1) rev.simps(1))
  next
    case (Cons x xs)
    then have "?a \<noteq> []" by (metis dropWhile.simps(1) list.distinct(1) rev.simps(1))
    then obtain y ys where a: "?a = y # ys" by (cases ?a) auto
    then have "\<not> py_space y" by (metis hd_dropWhile list.distinct(1) list.sel(1))
    obtain k where k: "?b = drop k (rev ?a)" by (metis dropWhile_eq_drop)
    with Cons have "k < length (rev ?a)" by (metis drop_all list.distinct(1) not_le_imp_less)
    with k have "last ?b = last (rev ?a)" by (simp add: last_drop)
    also have "\<dots> = y" using a by simp
    finally have lb: "last ?b = y" .
    obtain z zs where rb: "rev ?b = z # zs" using Cons by (cases "rev ?b") auto
    then have "z = last ?b" by (metis hd_rev list.sel(1))
    with rb lb \<open>\<not> py_space y\<close> show ?thesis by simp
  qed
  then show ?thesis by (simp add: py_strip_def dropWhile_idem)
qed

lemma new_user_Inr:
  "new_user i e n p now = Inr u \<Longrightarrow>
     u_id u = i \<and> u_email u = py_strip (py_lower e) \<and> u_name u = py_strip n \<and> password_hash u = PwHash p
     \<and> p \<noteq> [] \<and> length p \<le> 72"
  by (auto simp: new_user_def set_password_def split: if_splits)

lemma normal_email: "py_strip (py_lower (py_lower (py_strip e))) = py_lower (py_strip e)"
  by (simp add: py_lower_idem py_strip_lower py_strip_idem)

lemma register_Inr:
  assumes "register ip days d now a = (Inr (c, u), a')"
  shows "\<exists>b e0 n0 p. d = Some b \<and> rb_email b = Some e0 \<and> rb_name b = Some n0 \<and> rb_password b = Some p
     \<and> validate_email (py_lower (py_strip e0)) \<and> validate_password p \<and> validate_name (py_strip n0)
     \<and> find_user (\<lambda>v. ilike (u_email v) (py_lower (py_strip e0))) a = None
     \<and> find_user (\<lambda>v. ilike (u_name v) (py_strip n0)) a = None
     \<and> new_user (next_user_id a) (py_lower (py_strip e0)) (py_strip n0) p now = Inr u
     \<and> a' = a\<lparr>user_rows := user_rows a @ [u], next_user_id := Suc (next_user_id a)\<rparr>
     \<and> c = issue_token days now u"
  using assms
  by (auto simp: register_def Let_def is_ip_blocked_def split: option.splits sum.splits if_splits)

lemma register_new_row:
  assumes "register ip days d now a = (Inr (c, u), a')"
  shows "\<exists>e0 n0 p. d \<noteq> None \<and> rb_email (the d) = Some e0 \<and> rb_name (the d) = Some n0
     \<and> rb_password (the d) = Some p
     \<and> u_email u = py_lower (py_strip e0) \<and> u_name u = py_strip n0 \<and> u_id u = next_user_id a
     \<and> check_password u p \<and> validate_email (u_email u) \<and> validate_password p \<and> validate_name (u_name u)
     \<and> (\<forall>v \<in> set (user_rows a). \<not> ilike (u_email v) (u_email u) \<and> \<not> ilike (u_name v) (u_name u))
     \<and> a' = a\<lparr>user_rows := user_rows a @ [u], next_user_id := Suc (next_user_id a)\<rparr>
     \<and> c = issue_token days now u"
proof -
  from register_Inr[OF assms] obtain b e0 n0 p where
    d: "d = Some b" "rb_email b = Some e0" "rb_name b = Some n0" "rb_password b = Some p"
    and v: "validate_email (py_lower (py_strip e0))" "validate_password p" "validate_name (py_strip n0)"
    and f: "find_user (\<lambda>v. ilike (u_email v) (py_lower (py_strip e0))) a = None"
           "find_user (\<lambda>v. ilike (u_name v) (py_strip n0)) a = None"
    and nu: "new_user (next_user_id a) (py_lower (py_strip e0)) (py_strip n0) p now = Inr u"
    and rest: "a' = a\<lparr>user_rows := user_rows a @ [u], next_user_id := Suc (next_user_id a)\<rparr>"
      "c = issue_token days now u"
    by blast
  from new_user_Inr[OF nu] have u: "u_id u = next_user_id a" "u_email u = py_lower (py_strip e0)"
    "u_name u = py_strip n0" "password_hash u = PwHash p" "p \<noteq> []" "length p \<le> 72"
    by (simp_all add: normal_email py_strip_idem)
  from u(4-6) have "check_password u p" by (simp add: check_password_def)
  moreover from f have "\<forall>v \<in> set (user_rows a). \<not> ilike (u_email v) (u_email u) \<and> \<not> ilike (u_name v) (u_name u)"
    using u(2,3) by (simp add: find_user_def find_None_iff)
  ultimately show ?thesis using d v u rest by auto
qed

lemma ilike_neq: "\<not> ilike x y \<Longrightarrow> py_lower x \<noteq> py_lower y"
  by (auto simp: ilike_def like_match_refl)

text \<open>C19. Registration keeps the users table consistent: ids stay distinct and below the
  next id, and no two users share an e-mail address or a name up to case, because the
  ilike checks refuse every address and name a stored one matches.\<close>

theorem register_preserves_inv:
  assumes "accounts_inv a"
  shows "accounts_inv (snd (register ip days d now a))"
proof (cases "fst (register ip days d now a)")
  case (Inl e)
  then have "snd (register ip days d now a) = a"
    by (auto simp: register_def Let_def split: option.splits sum.splits if_splits)
  with assms show ?thesis by simp
next
  case (Inr r)
  then obtain c u a' where eq: "register ip days d now a = (Inr (c, u), a')"
    by (metis prod.collapse surj_pair)
  from register_new_row[OF eq] obtain e0 n0 where
    id: "u_id u = next_user_id a" and fresh: "\<forall>v \<in> set (user_rows a). \<not> ilike (u_email v) (u_email u) \<and> \<not> ilike (u_name v) (u_name u)"
    and a': "a' = a\<lparr>user_rows := user_rows a @ [u], next_user_id := Suc (next_user_id a)\<rparr>"
    by blast
  from fresh have "\<forall>v \<in> set (user_rows a). py_lower (u_email v) \<noteq> py_lower (u_email u)
      \<and> py_lower (u_name v) \<noteq> py_lower (u_name u)"
    by (auto dest: ilike_neq)
  with assms id have "accounts_inv a'"
    by (auto simp: a' accounts_inv_def list_all_iff)
  with eq show ?thesis by simp
qed

text \<open>Login never writes and never locks: the table is unchanged, the account-locked
  answer never occurs because the attempt counter is the constant 0, and every failed
  login reports four remaining attempts.\<close>

theorem login_read_only:
  "snd (login ip days d now a) = a \<and> fst (login ip days d now a) \<noteq> Inl AccountLocked
   \<and> (fst (login ip days d now a) = Inl (InvalidCredentials k) \<longrightarrow> k = 4)"
  by (auto simp: login_def Let_def get_failed_login_attempts_def is_ip_blocked_def
      split: option.splits prod.splits if_splits)

text \<open>C23. Login succeeds exactly when the body carries an e-mail and a password, the first
  user whose e-mail matches the lowered and stripped e-mail as an ILIKE pattern has
  that password, and the answer is then the token issued for that user.\<close>

theorem login_success_iff:
  "fst (login ip days d now a) = Inr (c, u) \<longleftrightarrow>
     (\<exists>b e0 p. d = Some b \<and> lb_email b = Some e0 \<and> lb_password b = Some p
        \<and> find_user (\<lambda>v. ilike (u_email v) (py_lower (py_strip e0))) a = Some u
        \<and> check_password u p \<and> c = issue_token days now u)"
  by (auto simp: login_def Let_def get_failed_login_attempts_def is_ip_blocked_def
      split: option.splits prod.splits if_splits)

lemma find_append_none:
  "find P xs = None \<Longrightarrow> P x \<Longrightarrow> find P (xs @ [x]) = Some x"
  by (induction xs) auto

text \<open>C21. Register then login: right after a successful registration, logging in with the
  same e-mail and password answers the new user and its token, since no earlier user
  matches the address.\<close>

theorem register_login_roundtrip:
  assumes "register ip days (Some b) now a = (Inr (c, u), a')"
    and "lb_email b' = rb_email b" and "lb_password b' = rb_password b"
  shows "login ip' days' (Some b') now' a' = (Inr (issue_token days' now' u, u), a')"
proof -
  from register_new_row[OF assms(1)] obtain e0 n0 p where
    f: "rb_email b = Some e0" "rb_password b = Some p" and e: "u_email u = py_lower (py_strip e0)"
    and pw: "check_password u p"
    and fresh: "\<forall>v \<in> set (user_rows a). \<not> ilike (u_email v) (u_email u)"
    and a': "a' = a\<lparr>user_rows := user_rows a @ [u], next_user_id := Suc (next_user_id a)\<rparr>"
    by auto
  have "find_user (\<lambda>v. ilike (u_email v) (py_lower (py_strip e0))) a' = Some u"
    using fresh e by (simp add: a' find_user_def find_append_none find_None_iff ilike_refl)
  then show ?thesis
    using assms(2,3) f pw
    by (simp add: login_def Let_def get_failed_login_attempts_def is_ip_blocked_def)
qed

text \<open>C20. The login address is a LIKE pattern: a body whose e-mail is the single wildcard
  logs in as the first user of the table whenever the password is that user's, without
  naming the user's address.\<close>

theorem login_wildcard_first_user:
  assumes "user_rows a = u # us" and "check_password u p"
  shows "login ip days (Some \<lparr>lb_email = Some ''%'', lb_password = Some p\<rparr>) now a
           = (Inr (issue_token days now u, u), a)"
proof -
  have "py_lower (py_strip ''%'') = ''%''" by (simp add: py_lower_def py_strip_def py_space_def is_upper_def)
  moreover have "ilike (u_email u) ''%''"
    by (simp add: ilike_def py_lower_def is_upper_def like_match_any)
  ultimately show ?thesis using assms
    by (simp add: login_def Let_def get_failed_login_attempts_def is_ip_blocked_def find_user_def)
qed

text \<open>C24. The handler for InvalidAlgorithmError in token_required is dead: PyJWT's
  InvalidAlgorithmError is an InvalidTokenError, whose handler comes first, so the
  decorator never answers invalid_algorithm.\<close>

theorem token_required_no_invalid_algorithm:
  "token_required decode hdr a \<noteq> Inl InvalidAlgorithm"
  by (auto simp: token_required_def is_invalid_token_def split: option.splits sum.splits if_splits)

lemma token_auth_Inr:
  "token_required decode hdr a = Inr u \<longleftrightarrow>
     (\<exists>h c i. hdr = Some h \<and> prefix bearer h \<and> decode (bearer_piece h) = Inr c \<and> c_user_id c = Some i
        \<and> find_user (\<lambda>v. u_id v = i) a = Some u)"
  "verify_token decode hdr a = Inr u \<longleftrightarrow>
     (\<exists>h c i. hdr = Some h \<and> prefix bearer h \<and> decode (bearer_piece h) = Inr c \<and> c_user_id c = Some i
        \<and> find_user (\<lambda>v. u_id v = i) a = Some u)"
  by (auto simp: token_required_def verify_token_def split: option.splits sum.splits if_splits)

text \<open>C25. The verify-token route and the decorator of the meeting routes accept the same
  tokens and resolve them to the same user; they differ only in the error they report.\<close>

theorem verify_token_agrees:
  "verify_token decode hdr a = Inr u \<longleftrightarrow> token_required decode hdr a = Inr u"
  by (simp only: token_auth_Inr)

lemma cut_at_no_sep: "\<not> sublist sep s \<Longrightarrow> cut_at sep s = s"
  by (induction s) (auto dest: prefix_imp_sublist simp: sublist_Cons_right)

lemma find_user_id:
  "distinct (map u_id (user_rows a)) \<Longrightarrow> u \<in> set (user_rows a) \<Longrightarrow> find_user (\<lambda>v. u_id v = u_id u) a = Some u"
  by (simp add: find_user_def find_key_distinct)

text \<open>C22. Login then authenticate: when the token that login issued decodes to its claims
  and holds no Bearer separator, the decorator of the meeting routes resolves it to
  the user who logged in, provided user ids are distinct.\<close>

theorem login_token_roundtrip:
  assumes "login ip days d now a = (Inr (c, u), a')" and "decode tok = Inr c"
    and "\<not> sublist bearer tok" and "distinct (map u_id (user_rows a))"
  shows "token_required decode (Some (bearer @ tok)) a = Inr u"
proof -
  from assms(1) have "fst (login ip days d now a) = Inr (c, u)" by simp
  then obtain P where f: "find_user P a = Some u" and c: "c = issue_token days now u"
    unfolding login_success_iff by blast
  from f have "u \<in> set (user_rows a)" by (auto simp: find_user_def find_Some_iff)
  with assms(4) have "find_user (\<lambda>v. u_id v = u_id u) a = Some u" by (rule find_user_id)
  moreover have "bearer_piece (bearer @ tok) = tok" using assms(3) by (simp add: bearer_piece_def cut_at_no_sep)
  ultimately show ?thesis using assms(2) c
    by (simp add: token_required_def issue_token_def)
qed

text \<open>The registration check is a LIKE pattern too: the address a_b@example.org, which
  no user has, is refused as already registered because Bob's axb@example.org matches
  the pattern.\<close>

theorem register_wildcard_taken:
  "''a_b@example.org'' \<notin> set (map u_email (user_rows demo_accounts))
   \<and> fst (register ip 1 (Some \<lparr>rb_email = Some ''a_b@example.org'', rb_name = Some ''Carol'',
                               rb_password = Some ''Secret#1a''\<rparr>) 0 demo_accounts) = Inl EmailTaken"
  by (simp add: register_def demo_accounts_def demo_user_def is_ip_blocked_def validate_email_def
      email_re_def domain_re_def re_match_end_def local_char_def domain_char_def is_alnum_def
      is_alpha_def is_upper_def is_lower_def is_digit_def validate_password_def special_char_def
      validate_name_def name_re_def py_space_def py_strip_def py_lower_def find_user_def ilike_def Let_def)

lemmas auth_eval = register_def login_def demo_accounts_def demo_user_def demo_register_def demo_login_def
  is_ip_blocked_def get_failed_login_attempts_def validate_email_def email_re_def domain_re_def
  re_match_end_def local_char_def domain_char_def is_alnum_def is_alpha_def is_upper_def is_lower_def
  is_digit_def validate_password_def special_char_def validate_name_def name_re_def py_space_def
  py_strip_def py_lower_def find_user_def ilike_def new_user_def set_password_def accounts_unique_def
  check_password_def char_of_def bit_0 Let_def

lemma demo_register_ok:
  "register ip 1 (Some demo_register) 0 demo_accounts
     = (Inr (issue_token 1 0 carol, carol),
        demo_accounts\<lparr>user_rows := user_rows demo_accounts @ [carol], next_user_id := 4\<rparr>)"
  by (simp add: auth_eval carol_def)

lemma demo_accounts_inv: "accounts_inv demo_accounts"
  by (simp add: accounts_inv_def demo_accounts_def demo_user_def py_lower_def is_upper_def)

theorem register_preserves_inv_witness:
  "accounts_inv demo_accounts \<and> accounts_inv (snd (register ''10.0.0.1'' 1 (Some demo_register) 0 demo_accounts))"
  using register_preserves_inv[OF demo_accounts_inv] demo_accounts_inv by blast

theorem register_login_roundtrip_witness:
  "register ''10.0.0.1'' 1 (Some demo_register) 0 demo_accounts
     = (Inr (issue_token 1 0 carol, carol),
        demo_accounts\<lparr>user_rows := user_rows demo_accounts @ [carol], next_user_id := 4\<rparr>)
   \<and> login ''10.0.0.2'' 1 (Some demo_login) 60
       (demo_accounts\<lparr>user_rows := user_rows demo_accounts @ [carol], next_user_id := 4\<rparr>)
     = (Inr (issue_token 1 60 carol, carol),
        demo_accounts\<lparr>user_rows := user_rows demo_accounts @ [carol], next_user_id := 4\<rparr>)"
proof -
  have l: "lb_email demo_login = rb_email demo_register" "lb_password demo_login = rb_password demo_register"
    by (simp_all add: demo_login_def demo_register_def)
  from register_login_roundtrip[OF demo_register_ok l] demo_register_ok show ?thesis by blast
qed

theorem login_wildcard_first_user_witness:
  "user_rows demo_accounts = demo_user\<lparr>password_hash := PwHash ''Secret#1a''\<rparr>
                               # [demo_user\<lparr>u_id := 2, u_email := ''axb@example.org'', u_name := ''Bob''\<rparr>]
   \<and> check_password (demo_user\<lparr>password_hash := PwHash ''Secret#1a''\<rparr>) ''Secret#1a''
   \<and> login ''10.0.0.9'' 1 (Some \<lparr>lb_email = Some ''%'', lb_password = Some ''Secret#1a''\<rparr>) 0 demo_accounts
       = (Inr (issue_token 1 0 (demo_user\<lparr>password_hash := PwHash ''Secret#1a''\<rparr>),
               demo_user\<lparr>password_hash := PwHash ''Secret#1a''\<rparr>), demo_accounts)"
proof -
  have r: "user_rows demo_accounts = demo_user\<lparr>password_hash := PwHash ''Secret#1a''\<rparr>
                               # [demo_user\<lparr>u_id := 2, u_email := ''axb@example.org'', u_name := ''Bob''\<rparr>]"
    by (simp add: demo_accounts_def)
  have c: "check_password (demo_user\<lparr>password_hash := PwHash ''Secret#1a''\<rparr>) ''Secret#1a''"
    by (simp add: check_password_def)
  from login_wildcard_first_user[OF r c] r c show ?thesis by blast
qed

theorem login_read_only_witness:
  "snd (login ''10.0.0.9'' 1 (Some demo_login) 0 demo_accounts) = demo_accounts
   \<and> fst (login ''10.0.0.9'' 1 (Some demo_login) 0 demo_accounts) \<noteq> Inl AccountLocked"
  using login_read_only[of "''10.0.0.9''" 1 "Some demo_login" 0 demo_accounts] by blast

theorem login_token_roundtrip_witness:
  "let dec = (\<lambda>t. if t = ''eyJ.x.y'' then Inr (issue_token 1 0 carol) else Inl DecodeError);
       a = demo_accounts\<lparr>user_rows := user_rows demo_accounts @ [carol], next_user_id := 4\<rparr>
   in login ''10.0.0.2'' 1 (Some demo_login) 0 a = (Inr (issue_token 1 0 carol, carol), a)
      \<and> dec ''eyJ.x.y'' = Inr (issue_token 1 0 carol) \<and> \<not> sublist bearer ''eyJ.x.y''
      \<and> distinct (map u_id (user_rows a))
      \<and> token_required dec (Some (bearer @ ''eyJ.x.y'')) a = Inr carol"
proof -
  define dec :: "string \<Rightarrow> jwt_exc + jwt_claims"
    where "dec = (\<lambda>t. if t = ''eyJ.x.y'' then Inr (issue_token 1 0 carol) else Inl DecodeError)"
  define a where "a = demo_accounts\<lparr>user_rows := user_rows demo_accounts @ [carol], next_user_id := 4\<rparr>"
  have l: "login ''10.0.0.2'' 1 (Some demo_login) 0 a = (Inr (issue_token 1 0 carol, carol), a)"
    using register_login_roundtrip[OF demo_register_ok, of demo_login] unfolding a_def
    by (simp add: demo_login_def demo_register_def)
  have d: "dec ''eyJ.x.y'' = Inr (issue_token 1 0 carol)" by (simp add: dec_def)
  have s: "\<not> sublist bearer ''eyJ.x.y''" by (simp add: sublist_Cons_right)
  have u: "distinct (map u_id (user_rows a))" by (simp add: a_def demo_accounts_def demo_user_def carol_def)
  from login_token_roundtrip[where decode = dec and tok = "''eyJ.x.y''", OF l d s u] l d s u show ?thesis by (simp add: dec_def a_def Let_def)
qed

end
