(* ===== verification/Legacy.thy ===== *)
theory Legacy
  imports Auth "HOL-Library.Multiset"
begin

text \<open>
  The legacy blueprints \<open>routes/auth.py\<close> and \<open>routes/meetings.py\<close> of
  \<open>src/backend/flask-service\<close> (outside its \<open>src\<close> package).  They import \<open>app\<close>,
  \<open>models.user\<close> and \<open>models.meeting\<close>, which the repository does not contain, so the
  application never registers them; the routes are modelled as written, over tables
  holding exactly the columns they read and write (\<open>luser\<close>, \<open>lmeeting\<close>).  What the
  absent models would decide is a parameter or is stated: the meeting code the absent
  \<open>Meeting\<close> constructor draws is the argument \<open>code\<close>, a new meeting is active (the
  routes filter on \<open>is_active=True\<close> and only \<open>end_meeting\<close> clears it), and
  \<open>User(password=p)\<close> stores \<open>PwHash p\<close> as the current model does.  A Python
  exception no \<open>except\<close> clause catches is \<open>LUncaught\<close>: Flask answers 500.
\<close>

section \<open>Tables and answers\<close>

record luser =
  lu_id :: nat
  lu_email :: string
  lu_username :: string
  lu_password :: pw_hash

record lmeeting =
  lm_id :: nat
  lm_code :: string
  lm_title :: pyval
  lm_host :: nat
  lm_active :: bool
  lm_created_at :: instant

record ldb =
  l_users :: "luser list"
  l_meetings :: "lmeeting list"
  l_next_user :: nat
  l_next_meeting :: nat

datatype lerror =
    LTokenMissing | LUserNotFound | LTokenExpired | LTokenInvalid | LUncaught
  | LMissingFields | LInvalidEmail | LEmailTaken | LUsernameTaken | LBadLogin
  | LTitleRequired | LNotFoundOrInactive | LMeetingNotFound | LAlreadyEnded

text \<open>The status code each answer is sent with.\<close>

fun lerror_status :: "lerror \<Rightarrow> nat" where
  "lerror_status LTokenMissing = 401"
| "lerror_status LUserNotFound = 401"
| "lerror_status LTokenExpired = 401"
| "lerror_status LTokenInvalid = 401"
| "lerror_status LUncaught = 500"
| "lerror_status LMissingFields = 400"
| "lerror_status LInvalidEmail = 400"
| "lerror_status LEmailTaken = 400"
| "lerror_status LUsernameTaken = 400"
| "lerror_status LBadLogin = 401"
| "lerror_status LTitleRequired = 400"
| "lerror_status LNotFoundOrInactive = 404"
| "lerror_status LMeetingNotFound = 404"
| "lerror_status LAlreadyEnded = 400"

text \<open>The claims \<open>{'user_id': user.id, 'exp': utcnow() + timedelta(days=1)}\<close>.\<close>

record ltoken =
  lt_user :: nat
  lt_exp :: instant

definition legacy_issue :: "instant \<Rightarrow> luser \<Rightarrow> ltoken" where
  "legacy_issue now u = \<lparr>lt_user = lu_id u, lt_exp = now + day_usec\<rparr>"

section \<open>\<open>token_required\<close> (routes/auth.py lines 12-34)\<close>

text \<open>The token is the second piece of the header split at single spaces: a header
  without a space raises \<open>IndexError\<close>, outside the \<open>try\<close>.  \<open>data['user_id']\<close> of
  claims without it raises \<open>KeyError\<close>, and \<open>InvalidKeyError\<close> is no
  \<open>InvalidTokenError\<close>: neither is caught.\<close>

definition legacy_token_required ::
  "(string \<Rightarrow> jwt_exc + jwt_claims) \<Rightarrow> string option \<Rightarrow> ldb \<Rightarrow> lerror + luser" where
  "legacy_token_required decode hdr db =
     (case hdr of
        None \<Rightarrow> Inl LTokenMissing
      | Some h \<Rightarrow>
          (let parts = split_on (CHR '' '') h in
           if length parts < 2 then Inl LUncaught
           else let tok = parts ! 1 in
           if tok = [] then Inl LTokenMissing
           else case decode tok of
             Inl x \<Rightarrow> if x = ExpiredSignatureError then Inl LTokenExpired
                      else if is_invalid_token x then Inl LTokenInvalid
                      else Inl LUncaught
           | Inr c \<Rightarrow>
               (case c_user_id c of
                  None \<Rightarrow> Inl LUncaught
                | Some i \<Rightarrow>
                    (case find (\<lambda>u. lu_id u = i) (l_users db) of
                       None \<Rightarrow> Inl LUserNotFound
                     | Some u \<Rightarrow> Inr u))))"

section \<open>\<open>register\<close>, \<open>login\<close>, \<open>get_current_user\<close> (routes/auth.py lines 36-103)\<close>

text \<open>\<open>request.get_json()\<close> is \<open>None\<close> for a body that is not JSON, and \<open>k in None\<close>
  raises \<open>TypeError\<close>.  A field that is not a string makes the call that receives it
  raise (\<open>validate_email\<close>, \<open>str.lower\<close>, the query, the password hash).
  \<open>email_validator.validate_email\<close> is the argument \<open>valid\<close>.\<close>

definition legacy_register ::
  "(string \<Rightarrow> bool) \<Rightarrow> instant \<Rightarrow> pydict option \<Rightarrow> ldb \<Rightarrow> (lerror + ltoken \<times> luser) \<times> ldb" where
  "legacy_register valid now d db =
     (case d of
        None \<Rightarrow> (Inl LUncaught, db)
      | Some data \<Rightarrow>
          if map_of data ''email'' = None \<or> map_of data ''username'' = None
             \<or> map_of data ''password'' = None then (Inl LMissingFields, db)
          else case (map_of data ''email'', map_of data ''username'', map_of data ''password'') of
            (Some (PStr e), Some (PStr n), Some (PStr p)) \<Rightarrow>
              if \<not> valid e then (Inl LInvalidEmail, db)
              else if find (\<lambda>u. lu_email u = py_lower e) (l_users db) \<noteq> None then (Inl LEmailTaken, db)
              else if find (\<lambda>u. lu_username u = n) (l_users db) \<noteq> None then (Inl LUsernameTaken, db)
              else (let u = \<lparr>lu_id = l_next_user db, lu_email = py_lower e, lu_username = n,
                             lu_password = PwHash p\<rparr>
                    in (Inr (legacy_issue now u, u),
                        db\<lparr>l_users := l_users db @ [u], l_next_user := Suc (l_next_user db)\<rparr>))
          | _ \<Rightarrow> (Inl LUncaught, db))"

definition legacy_login :: "instant \<Rightarrow> pydict option \<Rightarrow> ldb \<Rightarrow> lerror + ltoken \<times> luser" where
  "legacy_login now d db =
     (case d of
        None \<Rightarrow> Inl LUncaught
      | Some data \<Rightarrow>
          if map_of data ''email'' = None \<or> map_of data ''password'' = None then Inl LMissingFields
          else case map_of data ''email'' of
            Some (PStr e) \<Rightarrow>
              (case find (\<lambda>u. lu_email u = py_lower e) (l_users db) of
                 None \<Rightarrow> Inl LBadLogin
               | Some u \<Rightarrow>
                   (case map_of data ''password'' of
                      Some (PStr p) \<Rightarrow> if lu_password u = PwHash p then Inr (legacy_issue now u, u)
                                      else Inl LBadLogin
                    | _ \<Rightarrow> Inl LUncaught))
          | _ \<Rightarrow> Inl LUncaught)"

section \<open>The meeting routes (routes/meetings.py)\<close>

text \<open>Lines 8-24: \<open>'title' in data\<close>, then the new meeting of the current user.\<close>

definition legacy_create ::
  "string \<Rightarrow> instant \<Rightarrow> luser \<Rightarrow> pydict option \<Rightarrow> ldb \<Rightarrow> (lerror + lmeeting) \<times> ldb" where
  "legacy_create code now u d db =
     (case d of
        None \<Rightarrow> (Inl LUncaught, db)
      | Some data \<Rightarrow>
          (case map_of data ''title'' of
             None \<Rightarrow> (Inl LTitleRequired, db)
           | Some t \<Rightarrow>
               (let m = \<lparr>lm_id = l_next_meeting db, lm_code = code, lm_title = t, lm_host = lu_id u,
                         lm_active = True, lm_created_at = now\<rparr>
                in (Inr m, db\<lparr>l_meetings := l_meetings db @ [m], l_next_meeting := Suc (l_next_meeting db)\<rparr>))))"

text \<open>Lines 26-34: the first active meeting with the code.\<close>

definition legacy_join :: "string \<Rightarrow> ldb \<Rightarrow> lerror + lmeeting" where
  "legacy_join code db =
     (case find (\<lambda>m. lm_code m = code \<and> lm_active m) (l_meetings db) of
        None \<Rightarrow> Inl LNotFoundOrInactive
      | Some m \<Rightarrow> Inr m)"

text \<open>Lines 36-50: the first meeting with the code hosted by the current user.\<close>

definition legacy_end :: "luser \<Rightarrow> string \<Rightarrow> ldb \<Rightarrow> (lerror + lmeeting) \<times> ldb" where
  "legacy_end u code db =
     (case find (\<lambda>m. lm_code m = code \<and> lm_host m = lu_id u) (l_meetings db) of
        None \<Rightarrow> (Inl LMeetingNotFound, db)
      | Some m \<Rightarrow>
          if \<not> lm_active m then (Inl LAlreadyEnded, db)
          else (let m' = m\<lparr>lm_active := False\<rparr>
                in (Inr m', db\<lparr>l_meetings := replace_by lm_id m' (l_meetings db)\<rparr>)))"

text \<open>Lines 52-56: the user's meetings, newest first.  Rows with equal \<open>created_at\<close>
  come in an order the database chooses; the model keeps them in table order.\<close>

definition legacy_list :: "luser \<Rightarrow> ldb \<Rightarrow> lmeeting list" where
  "legacy_list u db = sort_key (\<lambda>m. - lm_created_at m) (filter (\<lambda>m. lm_host m = lu_id u) (l_meetings db))"

section \<open>Dispatch\<close>

datatype lrequest =
    LRegister "pydict option" | LLogin "pydict option" | LMe
  | LCreate "pydict option" | LJoin string | LEnd string | LList

datatype lresponse =
    LRToken ltoken luser | LRUser luser | LRMeeting lmeeting | LRMeetings "lmeeting list"

text \<open>A request with its \<open>Authorization\<close> header at an instant; the routes behind
  \<open>token_required\<close> run only when it answers a user.\<close>

definition legacy_handle ::
  "(string \<Rightarrow> bool) \<Rightarrow> (string \<Rightarrow> jwt_exc + jwt_claims) \<Rightarrow> string \<Rightarrow> string option \<Rightarrow> instant
   \<Rightarrow> lrequest \<Rightarrow> ldb \<Rightarrow> (lerror + lresponse) \<times> ldb" where
  "legacy_handle valid decode code hdr now r db =
     (case r of
        LRegister d \<Rightarrow> (case legacy_register valid now d db of (x, db') \<Rightarrow> (map_sum id (case_prod LRToken) x, db'))
      | LLogin d \<Rightarrow> (map_sum id (case_prod LRToken) (legacy_login now d db), db)
      | _ \<Rightarrow>
          (case legacy_token_required decode hdr db of
             Inl e \<Rightarrow> (Inl e, db)
           | Inr u \<Rightarrow>
               (case r of
                  LMe \<Rightarrow> (Inr (LRUser u), db)
                | LCreate d \<Rightarrow> (case legacy_create code now u d db of (x, db') \<Rightarrow> (map_sum id LRMeeting x, db'))
                | LJoin c \<Rightarrow> (map_sum id LRMeeting (legacy_join c db), db)
                | LEnd c \<Rightarrow> (case legacy_end u c db of (x, db') \<Rightarrow> (map_sum id LRMeeting x, db'))
                | _ \<Rightarrow> (Inr (LRMeetings (legacy_list u db)), db))))"

text \<open>Distinct ids, e-mail addresses and user names, ids below the counter: what the
  register route's lookups maintain.\<close>

definition legacy_inv :: "ldb \<Rightarrow> bool" where
  "legacy_inv db \<longleftrightarrow>
     distinct (map lu_id (l_users db)) \<and> distinct (map lu_email (l_users db))
   \<and> distinct (map lu_username (l_users db)) \<and> list_all (\<lambda>u. lu_id u < l_next_user db) (l_users db)"

section \<open>Example\<close>

text \<open>A user and one active meeting of theirs, with code \<open>abc\<close>; a register body.\<close>

definition legacy_demo_user :: luser where
  "legacy_demo_user = \<lparr>lu_id = 1, lu_email = ''ann@example.org'', lu_username = ''ann'',
     lu_password = PwHash ''pw''\<rparr>"

definition legacy_demo_db :: ldb where
  "legacy_demo_db =
     \<lparr>l_users = [legacy_demo_user],
      l_meetings = [\<lparr>lm_id = 1, lm_code = ''abc'', lm_title = PStr ''Standup'', lm_host = 1,
                     lm_active = True, lm_created_at = 0\<rparr>],
      l_next_user = 2, l_next_meeting = 2\<rparr>"

definition legacy_demo_body :: pydict where
  "legacy_demo_body = [(''email'', PStr ''Bob@example.org''), (''username'', PStr ''bob''),
     (''password'', PStr ''secret'')]"

section \<open>Lemmas\<close>

text \<open>C34. The legacy decorator takes the token from the header split at single spaces: a
  header without a space raises IndexError outside the try block, so the request is
  answered with a server error instead of 401.\<close>

theorem legacy_token_no_space:
  assumes "CHR '' '' \<notin> set h"
  shows "legacy_token_required decode (Some h) db = Inl LUncaught"
  using assms by (simp add: legacy_token_required_def split_on_no_sep)

lemma legacy_token_piece:
  assumes "CHR '' '' \<notin> set w" and "CHR '' '' \<notin> set t" and "t \<noteq> []"
  shows "legacy_token_required decode (Some (w @ CHR '' '' # t)) db =
     (case decode t of
        Inl x \<Rightarrow> if x = ExpiredSignatureError then Inl LTokenExpired
                 else if is_invalid_token x then Inl LTokenInvalid else Inl LUncaught
      | Inr c \<Rightarrow> (case c_user_id c of
                  None \<Rightarrow> Inl LUncaught
                | Some i \<Rightarrow> (case find (\<lambda>u. lu_id u = i) (l_users db) of
                             None \<Rightarrow> Inl LUserNotFound | Some u \<Rightarrow> Inr u)))"
  using assms by (simp add: legacy_token_required_def split_on_sep split_on_no_sep)

lemma legacy_register_Inr:
  assumes "legacy_register valid now d db = (Inr (t, u), db')"
  shows "\<exists>data e n p. d = Some data \<and> map_of data ''email'' = Some (PStr e)
     \<and> map_of data ''username'' = Some (PStr n) \<and> map_of data ''password'' = Some (PStr p)
     \<and> valid e \<and> find (\<lambda>u. lu_email u = py_lower e) (l_users db) = None
     \<and> find (\<lambda>u. lu_username u = n) (l_users db) = None
     \<and> u = \<lparr>lu_id = l_next_user db, lu_email = py_lower e, lu_username = n, lu_password = PwHash p\<rparr>
     \<and> t = legacy_issue now u
     \<and> db' = db\<lparr>l_users := l_users db @ [u], l_next_user := Suc (l_next_user db)\<rparr>"
  using assms unfolding legacy_register_def
  by (auto simp: Let_def split: option.splits pyval.splits if_splits)

text \<open>C35. Right after a successful legacy register, a legacy login with the same body
  answers the new user and a token for them.\<close>

theorem legacy_register_login:
  assumes "legacy_register valid now d db = (Inr (t, u), db')"
  shows "legacy_login now' d db' = Inr (legacy_issue now' u, u)"
  using legacy_register_Inr[OF assms]
  by (auto simp: legacy_login_def find_append_none)


lemma legacy_register_Inl:
  "fst (legacy_register valid now d db) = Inl e \<Longrightarrow> snd (legacy_register valid now d db) = db"
  by (auto simp: legacy_register_def Let_def split: option.splits pyval.splits if_splits)

lemma legacy_register_inv:
  assumes inv: "legacy_inv db"
  shows "legacy_inv (snd (legacy_register valid now d db))"
proof (cases "legacy_register valid now d db")
  case (Pair r db')
  show ?thesis
  proof (cases r)
    case (Inl e)
    with Pair legacy_register_Inl[of valid now d db e] inv show ?thesis by simp
  next
    case (Inr x)
    then obtain t u where "r = Inr (t, u)" by (cases x) auto
    with Pair have r: "legacy_register valid now d db = (Inr (t, u), db')" by simp
    from legacy_register_Inr[OF r] obtain e n p where
      e: "find (\<lambda>u. lu_email u = py_lower e) (l_users db) = None"
      and n: "find (\<lambda>u. lu_username u = n) (l_users db) = None"
      and uu: "u = \<lparr>lu_id = l_next_user db, lu_email = py_lower e, lu_username = n, lu_password = PwHash p\<rparr>"
      and db': "db' = db\<lparr>l_users := l_users db @ [u], l_next_user := Suc (l_next_user db)\<rparr>"
      by blast
    from uu have u: "lu_id u = l_next_user db" "lu_email u = py_lower e" "lu_username u = n" by simp_all
    from inv have i: "lu_id u \<notin> set (map lu_id (l_users db))" by (auto simp: legacy_inv_def list_all_iff u)
    from e have em: "lu_email u \<notin> set (map lu_email (l_users db))" by (auto simp: find_None_iff u)
    from n have nm: "lu_username u \<notin> set (map lu_username (l_users db))" by (auto simp: find_None_iff u)
    from inv have "list_all (\<lambda>v. lu_id v < Suc (l_next_user db)) (l_users db)"
      by (auto simp: legacy_inv_def list_all_iff)
    with i em nm inv u(1) show ?thesis by (simp add: Pair db' legacy_inv_def)
  qed
qed

lemma legacy_end_Inr:
  "legacy_end u c db = (Inr m', db') \<Longrightarrow>
     \<exists>m. find (\<lambda>m. lm_code m = c \<and> lm_host m = lu_id u) (l_meetings db) = Some m \<and> lm_active m
       \<and> m' = m\<lparr>lm_active := False\<rparr> \<and> db' = db\<lparr>l_meetings := replace_by lm_id m' (l_meetings db)\<rparr>"
  by (auto simp: legacy_end_def Let_def split: option.splits if_splits)

lemma find_replace_by:
  assumes "find P xs = Some x" and "key r = key x" and "P r"
  shows "find P (replace_by key r xs) = Some r"
  using assms by (induction xs) (auto simp: replace_by_def split: if_splits)

lemma find_SomeD: "find P xs = Some x \<Longrightarrow> P x"
  by (induction xs) (auto split: if_splits)

text \<open>C36. The legacy end route succeeds once: after it ends a meeting, the same request
  answers that the meeting has already ended and writes nothing.\<close>

theorem legacy_end_twice:
  assumes "legacy_end u c db = (Inr m', db')"
  shows "legacy_end u c db' = (Inl LAlreadyEnded, db')"
proof -
  from legacy_end_Inr[OF assms] obtain m where
    f: "find (\<lambda>m. lm_code m = c \<and> lm_host m = lu_id u) (l_meetings db) = Some m"
    and m': "m' = m\<lparr>lm_active := False\<rparr>" and db': "db' = db\<lparr>l_meetings := replace_by lm_id m' (l_meetings db)\<rparr>"
    by blast
  from f have "lm_code m = c \<and> lm_host m = lu_id u" by (rule find_SomeD)
  with f m' have "find (\<lambda>m. lm_code m = c \<and> lm_host m = lu_id u) (l_meetings db') = Some m'"
    by (simp add: db' find_replace_by)
  with m' show ?thesis by (simp add: legacy_end_def)
qed

lemma legacy_list_spec:
  "mset (legacy_list u db) = mset (filter (\<lambda>m. lm_host m = lu_id u) (l_meetings db))
   \<and> sorted_wrt (\<lambda>a b. lm_created_at b \<le> lm_created_at a) (legacy_list u db)"
proof -
  have "sorted (map (\<lambda>m. - lm_created_at m) (legacy_list u db))"
    by (simp add: legacy_list_def sorted_sort_key)
  then show ?thesis by (simp add: legacy_list_def sorted_map mset_sort)
qed

lemma legacy_create_join:
  assumes "find (\<lambda>m. lm_code m = code \<and> lm_active m) (l_meetings db) = None"
    and "legacy_create code now u d db = (Inr m, db')"
  shows "legacy_join code db' = Inr m"
  using assms by (auto simp: legacy_create_def legacy_join_def Let_def find_append_none split: option.splits)


lemmas legacy_eval = legacy_demo_db_def legacy_demo_user_def legacy_demo_body_def legacy_issue_def
  py_lower_def is_upper_def char_of_def bit_0 Let_def

theorem legacy_token_no_space_witness:
  "CHR '' '' \<notin> set ''Bearer''
   \<and> legacy_token_required (\<lambda>_. Inl DecodeError) (Some ''Bearer'') legacy_demo_db = Inl LUncaught"
proof -
  have h: "CHR '' '' \<notin> set ''Bearer''" by simp
  from legacy_token_no_space[OF h] h show ?thesis by simp
qed

theorem legacy_register_login_witness:
  "legacy_register (\<lambda>_. True) 0 (Some legacy_demo_body) legacy_demo_db =
     (Inr (legacy_issue 0 \<lparr>lu_id = 2, lu_email = ''bob@example.org'', lu_username = ''bob'',
                            lu_password = PwHash ''secret''\<rparr>,
           \<lparr>lu_id = 2, lu_email = ''bob@example.org'', lu_username = ''bob'', lu_password = PwHash ''secret''\<rparr>),
      legacy_demo_db\<lparr>l_users := [legacy_demo_user,
           \<lparr>lu_id = 2, lu_email = ''bob@example.org'', lu_username = ''bob'', lu_password = PwHash ''secret''\<rparr>],
         l_next_user := 3\<rparr>)
   \<and> legacy_login 60 (Some legacy_demo_body)
       (legacy_demo_db\<lparr>l_users := [legacy_demo_user,
           \<lparr>lu_id = 2, lu_email = ''bob@example.org'', lu_username = ''bob'', lu_password = PwHash ''secret''\<rparr>],
         l_next_user := 3\<rparr>) =
     Inr (legacy_issue 60 \<lparr>lu_id = 2, lu_email = ''bob@example.org'', lu_username = ''bob'',
                            lu_password = PwHash ''secret''\<rparr>,
          \<lparr>lu_id = 2, lu_email = ''bob@example.org'', lu_username = ''bob'', lu_password = PwHash ''secret''\<rparr>)"
proof -
  have r: "legacy_register (\<lambda>_. True) 0 (Some legacy_demo_body) legacy_demo_db =
     (Inr (legacy_issue 0 \<lparr>lu_id = 2, lu_email = ''bob@example.org'', lu_username = ''bob'',
                            lu_password = PwHash ''secret''\<rparr>,
           \<lparr>lu_id = 2, lu_email = ''bob@example.org'', lu_username = ''bob'', lu_password = PwHash ''secret''\<rparr>),
      legacy_demo_db\<lparr>l_users := [legacy_demo_user,
           \<lparr>lu_id = 2, lu_email = ''bob@example.org'', lu_username = ''bob'', lu_password = PwHash ''secret''\<rparr>],
         l_next_user := 3\<rparr>)"
    by (simp add: legacy_register_def legacy_eval)
  from legacy_register_login[OF r, of 60] r show ?thesis by simp
qed

theorem legacy_end_twice_witness:
  "legacy_end legacy_demo_user ''abc'' legacy_demo_db =
     (Inr \<lparr>lm_id = 1, lm_code = ''abc'', lm_title = PStr ''Standup'', lm_host = 1,
           lm_active = False, lm_created_at = 0\<rparr>,
      legacy_demo_db\<lparr>l_meetings := [\<lparr>lm_id = 1, lm_code = ''abc'', lm_title = PStr ''Standup'',
           lm_host = 1, lm_active = False, lm_created_at = 0\<rparr>]\<rparr>)
   \<and> legacy_end legacy_demo_user ''abc''
       (legacy_demo_db\<lparr>l_meetings := [\<lparr>lm_id = 1, lm_code = ''abc'', lm_title = PStr ''Standup'',
           lm_host = 1, lm_active = False, lm_created_at = 0\<rparr>]\<rparr>) =
     (Inl LAlreadyEnded,
      legacy_demo_db\<lparr>l_meetings := [\<lparr>lm_id = 1, lm_code = ''abc'', lm_title = PStr ''Standup'',
           lm_host = 1, lm_active = False, lm_created_at = 0\<rparr>]\<rparr>)"
proof -
  have e: "legacy_end legacy_demo_user ''abc'' legacy_demo_db =
     (Inr \<lparr>lm_id = 1, lm_code = ''abc'', lm_title = PStr ''Standup'', lm_host = 1,
           lm_active = False, lm_created_at = 0\<rparr>,
      legacy_demo_db\<lparr>l_meetings := [\<lparr>lm_id = 1, lm_code = ''abc'', lm_title = PStr ''Standup'',
           lm_host = 1, lm_active = False, lm_created_at = 0\<rparr>]\<rparr>)"
    by (simp add: legacy_end_def legacy_eval replace_by_def)
  from legacy_end_twice[OF e] e show ?thesis by simp
qed

end
