(* ===== verification/Sockets.thy ===== *)
theory Sockets
  imports Prelude
begin

text \<open>
  The Socket.IO signalling relay of \<open>src/utils/socket_events.py\<close>: the decorator
  \<open>socket_auth_required\<close> (lines 6-22) and the six event handlers registered by
  \<open>register_socket_events\<close> (24-84).  A handler's \<open>data\<close> is a Python dict, an
  association list with distinct keys; \<open>jwt.decode\<close> is the argument \<open>decode\<close>, which
  answers the token's claims or fails with any exception.  The relay's state is the room
  membership of \<open>join_room\<close> and \<open>leave_room\<close>; each event answers the emissions it
  makes, or the \<open>KeyError\<close> a handler raises on a missing key, after which Flask-SocketIO
  emits nothing.
\<close>

section \<open>Relay state and emissions\<close>

type_synonym sid = nat

datatype target = ToSender | ToRoom pyval

record emission =
  ev_name :: string
  ev_payload :: pydict
  ev_target :: target

record relay =
  rooms :: "(sid \<times> pyval) list"

datatype sock_event = JoinEv | LeaveEv | OfferEv | AnswerEv | IceEv | ChatEv

datatype sock_error = HandlerKeyError

definition join_room :: "sid \<Rightarrow> pyval \<Rightarrow> relay \<Rightarrow> relay" where
  "join_room s r st = (if (s, r) \<in> set (rooms st) then st else st\<lparr>rooms := rooms st @ [(s, r)]\<rparr>)"

definition leave_room :: "sid \<Rightarrow> pyval \<Rightarrow> relay \<Rightarrow> relay" where
  "leave_room s r st = st\<lparr>rooms := filter (\<lambda>m. m \<noteq> (s, r)) (rooms st)\<rparr>"

definition emit_error :: "string \<Rightarrow> emission" where
  "emit_error msg = \<lparr>ev_name = ''error'', ev_payload = [(''message'', PStr msg)], ev_target = ToSender\<rparr>"

section \<open>Authentication\<close>

text \<open>Lines 6-22: a missing or falsy token, a failing decode and a token without
  \<open>user_id\<close> (the bare \<open>except\<close>) answer an error to the sender; otherwise the
  token's user id overwrites \<open>data['user_id']\<close>.\<close>

definition socket_auth :: "(pyval \<Rightarrow> unit + pydict) \<Rightarrow> pydict \<Rightarrow> emission + pydict" where
  "socket_auth decode data =
     (case dict_get data ''token'' of
        None \<Rightarrow> Inl (emit_error ''Token is missing'')
      | Some t \<Rightarrow>
          if \<not> truthy t then Inl (emit_error ''Token is missing'')
          else case decode t of
            Inl _ \<Rightarrow> Inl (emit_error ''Invalid token'')
          | Inr td \<Rightarrow>
              (case dict_get td ''user_id'' of
                 None \<Rightarrow> Inl (emit_error ''Invalid token'')
               | Some uid \<Rightarrow> Inr (dict_set ''user_id'' uid data)))"

section \<open>Handlers\<close>

definition room_of :: "pydict \<Rightarrow> string \<Rightarrow> pyval" where
  "room_of d k = (case dict_get d k of None \<Rightarrow> PNone | Some v \<Rightarrow> v)"

text \<open>Lines 25-43: join and leave a meeting room and tell the room.\<close>

definition handle_join :: "sid \<Rightarrow> pydict \<Rightarrow> relay \<Rightarrow> (sock_error + emission list) \<times> relay" where
  "handle_join s d st =
     (let room = room_of d ''meeting_code'' in
      if \<not> truthy room then (Inr [], st)
      else case dict_get d ''user_id'' of
        None \<Rightarrow> (Inl HandlerKeyError, join_room s room st)
      | Some uid \<Rightarrow> (Inr [\<lparr>ev_name = ''user_joined'', ev_payload = [(''user_id'', uid)], ev_target = ToRoom room\<rparr>],
                    join_room s room st))"

definition handle_leave :: "sid \<Rightarrow> pydict \<Rightarrow> relay \<Rightarrow> (sock_error + emission list) \<times> relay" where
  "handle_leave s d st =
     (let room = room_of d ''meeting_code'' in
      if \<not> truthy room then (Inr [], st)
      else case dict_get d ''user_id'' of
        None \<Rightarrow> (Inl HandlerKeyError, leave_room s room st)
      | Some uid \<Rightarrow> (Inr [\<lparr>ev_name = ''user_left'', ev_payload = [(''user_id'', uid)], ev_target = ToRoom room\<rparr>],
                    leave_room s room st))"

text \<open>Lines 45-73: offer, answer and ICE candidate are forwarded to the room named by
  \<open>target_user\<close>, with the field the event carries.\<close>

definition forward :: "string \<Rightarrow> string \<Rightarrow> pydict \<Rightarrow> relay \<Rightarrow> (sock_error + emission list) \<times> relay" where
  "forward ev field d st =
     (let tgt = room_of d ''target_user'' in
      if \<not> truthy tgt then (Inr [], st)
      else case (dict_get d field, dict_get d ''user_id'') of
        (Some v, Some uid) \<Rightarrow> (Inr [\<lparr>ev_name = ev, ev_payload = [(field, v), (''user_id'', uid)],
                                   ev_target = ToRoom tgt\<rparr>], st)
      | _ \<Rightarrow> (Inl HandlerKeyError, st))"

text \<open>Lines 75-84: a chat message is broadcast to the meeting room.\<close>

definition handle_chat :: "pydict \<Rightarrow> relay \<Rightarrow> (sock_error + emission list) \<times> relay" where
  "handle_chat d st =
     (let room = room_of d ''meeting_code'' in
      if \<not> truthy room then (Inr [], st)
      else case (dict_get d ''user_id'', dict_get d ''message'', dict_get d ''timestamp'') of
        (Some uid, Some msg, Some ts) \<Rightarrow>
          (Inr [\<lparr>ev_name = ''chat_message'',
                 ev_payload = [(''user_id'', uid), (''message'', msg), (''timestamp'', ts)],
                 ev_target = ToRoom room\<rparr>], st)
      | _ \<Rightarrow> (Inl HandlerKeyError, st))"

definition socket_event ::
  "(pyval \<Rightarrow> unit + pydict) \<Rightarrow> sid \<Rightarrow> sock_event \<Rightarrow> pydict \<Rightarrow> relay \<Rightarrow> (sock_error + emission list) \<times> relay" where
  "socket_event decode s ev data st =
     (case socket_auth decode data of
        Inl e \<Rightarrow> (Inr [e], st)
      | Inr d \<Rightarrow>
          (case ev of
             JoinEv \<Rightarrow> handle_join s d st
           | LeaveEv \<Rightarrow> handle_leave s d st
           | OfferEv \<Rightarrow> forward ''offer'' ''sdp'' d st
           | AnswerEv \<Rightarrow> forward ''answer'' ''sdp'' d st
           | IceEv \<Rightarrow> forward ''ice_candidate'' ''candidate'' d st
           | ChatEv \<Rightarrow> handle_chat d st))"

section \<open>Example\<close>

text \<open>A decoder that accepts one token, of user 7, and a chat event whose data claims to
  come from user 99.\<close>

definition demo_decode :: "pyval \<Rightarrow> unit + pydict" where
  "demo_decode t = (if t = PStr ''tok7'' then Inr [(''user_id'', PInt 7)] else Inl ())"

definition demo_data :: pydict where
  "demo_data = [(''token'', PStr ''tok7''), (''meeting_code'', PStr ''m1''), (''user_id'', PInt 99),
                (''message'', PStr ''hi''), (''timestamp'', PInt 5)]"

definition demo_chat :: emission where
  "demo_chat = \<lparr>ev_name = ''chat_message'',
                 ev_payload = [(''user_id'', PInt 7), (''message'', PStr ''hi''), (''timestamp'', PInt 5)],
                 ev_target = ToRoom (PStr ''m1'')\<rparr>"

section \<open>Lemmas\<close>

lemma socket_auth_Inl:
  "socket_auth decode data = Inl e \<Longrightarrow> ev_name e = ''error'' \<and> ev_target e = ToSender"
  by (auto simp: socket_auth_def emit_error_def split: option.splits if_splits sum.splits)

lemma socket_auth_Inr:
  "socket_auth decode data = Inr d \<Longrightarrow>
     \<exists>t td uid. dict_get data ''token'' = Some t \<and> truthy t \<and> decode t = Inr td
       \<and> dict_get td ''user_id'' = Some uid \<and> d = dict_set ''user_id'' uid data"
  by (auto simp: socket_auth_def split: option.splits if_splits sum.splits)

lemma handlers_user_id:
  assumes "dict_get d ''user_id'' = Some uid" and "e \<in> set es"
  shows "fst (handle_join s d st) = Inr es \<Longrightarrow> dict_get (ev_payload e) ''user_id'' = Some uid"
    and "fst (handle_leave s d st) = Inr es \<Longrightarrow> dict_get (ev_payload e) ''user_id'' = Some uid"
    and "fst (forward ev f d st) = Inr es \<Longrightarrow> f \<noteq> ''user_id'' \<Longrightarrow> dict_get (ev_payload e) ''user_id'' = Some uid"
    and "fst (handle_chat d st) = Inr es \<Longrightarrow> dict_get (ev_payload e) ''user_id'' = Some uid"
  using assms
  by (auto simp: handle_join_def handle_leave_def forward_def handle_chat_def Let_def
      split: if_splits option.splits)

text \<open>C30. No spoofing over the relay: every message the relay emits on behalf of a sender,
  other than the error it returns to the sender, carries as user_id the user id of the
  sender's token, whatever user_id the sender put in its data.\<close>

theorem socket_user_id_from_token:
  assumes "socket_event decode s ev data st = (Inr es, st')" and "e \<in> set es"
    and "ev_name e \<noteq> ''error''"
  shows "\<exists>t td. dict_get data ''token'' = Some t \<and> decode t = Inr td
     \<and> dict_get (ev_payload e) ''user_id'' = dict_get td ''user_id''"
proof (cases "socket_auth decode data")
  case (Inl x)
  have "ev_name x = ''error''" using socket_auth_Inl[OF Inl] by simp
  moreover have "es = [x]" using assms(1) Inl by (simp add: socket_event_def)
  ultimately show ?thesis using assms(2,3) by simp
next
  case (Inr d)
  from socket_auth_Inr[OF Inr] obtain t td uid where tk: "dict_get data ''token'' = Some t" "decode t = Inr td"
    "dict_get td ''user_id'' = Some uid" and d: "d = dict_set ''user_id'' uid data"
    by blast
  have "dict_get d ''user_id'' = Some uid" by (simp add: d dict_get_set)
  moreover have "fst (socket_event decode s ev data st) = Inr es" using assms(1) by simp
  ultimately have "dict_get (ev_payload e) ''user_id'' = Some uid"
    using Inr handlers_user_id[of d uid e es] assms(2)
    by (cases ev) (simp_all add: socket_event_def)
  with tk show ?thesis by simp
qed


lemma handle_join_rooms: "rooms (snd (handle_join s d st)) = (if truthy (room_of d ''meeting_code'')
    then rooms (join_room s (room_of d ''meeting_code'') st) else rooms st)"
  by (auto simp: handle_join_def Let_def split: option.split)

lemma handle_leave_rooms: "rooms (snd (handle_leave s d st)) = (if truthy (room_of d ''meeting_code'')
    then rooms (leave_room s (room_of d ''meeting_code'') st) else rooms st)"
  by (auto simp: handle_leave_def Let_def split: option.split)

text \<open>C33. Joining and leaving a socket room are inverse: an authenticated join of a room
  the connection is not in adds exactly that membership, and leaving it again restores
  the memberships as they were.\<close>

theorem socket_join_leave_roundtrip:
  assumes "socket_auth decode data = Inr d" and "truthy (room_of data ''meeting_code'')"
    and "(s, room_of data ''meeting_code'') \<notin> set (rooms st)"
  shows "rooms (snd (socket_event decode s JoinEv data st)) = rooms st @ [(s, room_of data ''meeting_code'')]
     \<and> rooms (snd (socket_event decode s LeaveEv data (snd (socket_event decode s JoinEv data st)))) = rooms st"
proof -
  from socket_auth_Inr[OF assms(1)] obtain uid where "d = dict_set ''user_id'' uid data" by blast
  then have r: "room_of d ''meeting_code'' = room_of data ''meeting_code''"
    by (simp add: room_of_def dict_get_set_other)
  have "filter (\<lambda>m. m \<noteq> (s, room_of data ''meeting_code'')) (rooms st) = rooms st"
    using assms(3) by (auto simp: filter_id_conv)
  then show ?thesis using assms r
    by (simp add: socket_event_def handle_join_rooms handle_leave_rooms join_room_def leave_room_def)
qed

text \<open>C31. The relay checks no membership: an authenticated sender's chat message is
  broadcast to the room it names whether or not the sender has joined that room.\<close>

theorem chat_without_membership:
  assumes "socket_auth decode data = Inr d" and "truthy (room_of data ''meeting_code'')"
    and "dict_get data ''message'' = Some msg" and "dict_get data ''timestamp'' = Some ts"
  shows "\<exists>uid. socket_event decode s ChatEv data st =
     (Inr [\<lparr>ev_name = ''chat_message'', ev_payload = [(''user_id'', uid), (''message'', msg), (''timestamp'', ts)],
            ev_target = ToRoom (room_of data ''meeting_code'')\<rparr>], st)"
proof -
  from socket_auth_Inr[OF assms(1)] obtain uid where d: "d = dict_set ''user_id'' uid data" by blast
  then have "room_of d ''meeting_code'' = room_of data ''meeting_code''"
    and "dict_get d ''message'' = Some msg" and "dict_get d ''timestamp'' = Some ts"
    and "dict_get d ''user_id'' = Some uid"
    using assms(3,4) by (simp_all add: room_of_def dict_get_set_other dict_get_set)
  with assms(1,2) show ?thesis by (simp add: socket_event_def handle_chat_def Let_def)
qed

lemma demo_auth:
  "socket_auth demo_decode demo_data = Inr (dict_set ''user_id'' (PInt 7) demo_data)"
  by (simp add: socket_auth_def demo_decode_def demo_data_def)

lemma demo_chat_event:
  "socket_event demo_decode 1 ChatEv demo_data \<lparr>rooms = []\<rparr> = (Inr [demo_chat], \<lparr>rooms = []\<rparr>)"
  unfolding socket_event_def demo_auth sum.case sock_event.case
  by (simp add: handle_chat_def room_of_def dict_set_def demo_data_def demo_chat_def Let_def)

theorem socket_user_id_from_token_witness:
  "socket_event demo_decode 1 ChatEv demo_data \<lparr>rooms = []\<rparr> = (Inr [demo_chat], \<lparr>rooms = []\<rparr>)
   \<and> dict_get demo_data ''user_id'' = Some (PInt 99)
   \<and> dict_get (ev_payload demo_chat) ''user_id'' = Some (PInt 7)"
proof -
  have n: "ev_name demo_chat \<noteq> ''error''" by (simp add: demo_chat_def)
  from socket_user_id_from_token[OF demo_chat_event _ n] demo_chat_event
  show ?thesis by (auto simp: demo_decode_def demo_data_def split: if_splits)
qed


theorem socket_join_leave_roundtrip_witness:
  "socket_auth demo_decode demo_data = Inr (dict_set ''user_id'' (PInt 7) demo_data)
   \<and> truthy (room_of demo_data ''meeting_code'') \<and> (1, room_of demo_data ''meeting_code'') \<notin> set (rooms \<lparr>rooms = []\<rparr>)
   \<and> rooms (snd (socket_event demo_decode 1 LeaveEv demo_data
        (snd (socket_event demo_decode 1 JoinEv demo_data \<lparr>rooms = []\<rparr>)))) = []"
proof -
  have t: "truthy (room_of demo_data ''meeting_code'')" by (simp add: room_of_def demo_data_def)
  have n: "(1, room_of demo_data ''meeting_code'') \<notin> set (rooms \<lparr>rooms = []\<rparr>)" by simp
  from socket_join_leave_roundtrip[OF demo_auth t n] demo_auth t n show ?thesis by simp
qed

theorem chat_without_membership_witness:
  "socket_auth demo_decode demo_data = Inr (dict_set ''user_id'' (PInt 7) demo_data)
   \<and> truthy (room_of demo_data ''meeting_code'')
   \<and> dict_get demo_data ''message'' = Some (PStr ''hi'') \<and> dict_get demo_data ''timestamp'' = Some (PInt 5)
   \<and> (\<exists>uid. fst (socket_event demo_decode 1 ChatEv demo_data \<lparr>rooms = []\<rparr>) =
        Inr [\<lparr>ev_name = ''chat_message'', ev_payload = [(''user_id'', uid), (''message'', PStr ''hi''),
               (''timestamp'', PInt 5)], ev_target = ToRoom (room_of demo_data ''meeting_code'')\<rparr>])"
proof -
  have t: "truthy (room_of demo_data ''meeting_code'')" by (simp add: room_of_def demo_data_def)
  have m: "dict_get demo_data ''message'' = Some (PStr ''hi'')"
    and ts: "dict_get demo_data ''timestamp'' = Some (PInt 5)" by (simp_all add: demo_data_def)
  from chat_without_membership[OF demo_auth t m ts, of 1 "\<lparr>rooms = []\<rparr>"] demo_auth t m ts
  show ?thesis by auto
qed

end
