(* ===== verification/Responses.thy ===== *)
theory Responses
  imports Prelude
begin

text \<open>
  The response helpers of \<open>src/utils/responses.py\<close>: \<open>api_response\<close> (lines 4-38)
  builds a dict from the optional data, message, error and code and pairs it with the
  status; \<open>error_response\<close> (40-56) and \<open>success_response\<close> (58-74) specialise it.
  \<open>jsonify\<close> serialises the dict and is not modelled.  No route calls these helpers.
\<close>

section \<open>Helpers\<close>

definition api_response ::
  "pydict option \<Rightarrow> string option \<Rightarrow> string option \<Rightarrow> string option \<Rightarrow> int \<Rightarrow> pydict \<times> int" where
  "api_response data message err code status =
     (let r0 = (case data of None \<Rightarrow> [] | Some d \<Rightarrow> dict_update [] d);
          r1 = (case message of None \<Rightarrow> r0 | Some m \<Rightarrow> dict_set ''message'' (PStr m) r0);
          r2 = (case err of None \<Rightarrow> r1 | Some e \<Rightarrow> dict_set ''error'' (PStr e) r1);
          r3 = (case code of None \<Rightarrow> r2 | Some c \<Rightarrow> dict_set ''code'' (PStr c) r2)
      in (r3, status))"

definition error_response :: "string \<Rightarrow> string \<Rightarrow> int \<Rightarrow> pydict \<times> int" where
  "error_response e c status = api_response None None (Some e) (Some c) status"

definition success_response :: "pydict option \<Rightarrow> string option \<Rightarrow> int \<Rightarrow> pydict \<times> int" where
  "success_response data message status = api_response data message None None status"

section \<open>Lemmas\<close>

text \<open>The helpers' shape: an error response is exactly the dict of the error and the
  code with the given status; a success response holds the data's entries in their
  order followed by the message, and a message given overrides a message key of the
  data.\<close>

theorem response_shape:
  assumes "distinct (map fst d)"
  shows "error_response e c st = ([(''error'', PStr e), (''code'', PStr c)], st)
     \<and> map fst (fst (success_response (Some d) (Some m) st))
         = (if ''message'' \<in> set (map fst d) then map fst d else map fst d @ [''message''])
     \<and> dict_get (fst (success_response (Some d) (Some m) st)) ''message'' = Some (PStr m)
     \<and> snd (success_response (Some d) (Some m) st) = st"
proof -
  have "error_response e c st = ([(''error'', PStr e), (''code'', PStr c)], st)"
    by (simp add: error_response_def api_response_def dict_set_def)
  moreover have "success_response (Some d) (Some m) st = (dict_set ''message'' (PStr m) d, st)"
    using assms by (simp add: success_response_def api_response_def dict_update_fresh)
  ultimately show ?thesis by (simp add: dict_get_set dict_set_keys)
qed

theorem response_shape_witness:
  "distinct (map fst [(''message'', PStr ''old''), (''id'', PInt 3)])
   \<and> fst (success_response (Some [(''message'', PStr ''old''), (''id'', PInt 3)]) (Some ''saved'') 200)
       = [(''message'', PStr ''saved''), (''id'', PInt 3)]"
proof -
  have d: "distinct (map fst [(''message'', PStr ''old''), (''id'', PInt 3)])" by simp
  from response_shape[OF d, of "''e''" "''c''" 200 "''saved''"] d show ?thesis
    by (simp add: success_response_def api_response_def dict_update_fresh dict_set_def)
qed

end
