(* ===== verification/App.thy ===== *)
theory App
  imports Prelude
begin

text \<open>
  The application module \<open>src/__init__.py\<close>: the check of the required environment
  variables (lines 13-23), the configuration read from the environment (lines 28-40),
  the start-up sequence that aborts when the database or Redis cannot be reached (lines
  42-58), the health endpoints (lines 60-81), the blueprint prefixes (lines 83-88) and the
  error handlers (lines 90-98).  The environment is a map from names to values
  (\<open>os.getenv\<close>); initialising SQLAlchemy, pinging Redis and executing \<open>SELECT 1\<close>
  are library calls whose outcome (an exception message or success) is an argument.
\<close>

section \<open>Environment\<close>

type_synonym env = "string \<Rightarrow> string option"

definition required_env_vars :: "string list" where
  "required_env_vars = [''DATABASE_URL'', ''JWT_SECRET_KEY'', ''REDIS_URL'']"

text \<open>Line 21: \<open>not os.getenv(var)\<close> holds for an unset variable and for an empty one.\<close>

definition env_set :: "env \<Rightarrow> string \<Rightarrow> bool" where
  "env_set e v \<longleftrightarrow> (case e v of None \<Rightarrow> False | Some s \<Rightarrow> s \<noteq> [])"

definition getenv_str :: "env \<Rightarrow> string \<Rightarrow> string" where
  "getenv_str e v = (case e v of None \<Rightarrow> [] | Some s \<Rightarrow> s)"

definition missing_vars :: "env \<Rightarrow> string list" where
  "missing_vars e = filter (\<lambda>v. \<not> env_set e v) required_env_vars"

definition missing_message :: "string list \<Rightarrow> string" where
  "missing_message vs = ''Missing required environment variables: '' @ py_join '', '' vs"

text \<open>Line 30: \<open>os.getenv('CORS_ORIGINS', default).split(',')\<close>; the default is used
  only when the variable is unset.\<close>

definition cors_origins :: "env \<Rightarrow> string list" where
  "cors_origins e =
     split_on (CHR '','') (case e ''CORS_ORIGINS'' of None \<Rightarrow> ''http://localhost:3000'' | Some s \<Rightarrow> s)"

record app_config =
  cfg_database_uri :: string
  cfg_jwt_secret_key :: string
  cfg_track_modifications :: bool
  cfg_cors_origins :: "string list"
  cfg_cors_methods :: "string list"

datatype startup = StartupError string | Started app_config

text \<open>Lines 20-58: the module aborts with \<open>RuntimeError\<close> when a variable is missing,
  and re-raises the exception of the database set-up or of the Redis ping.  After the
  check, every required variable has a non-empty value.\<close>

definition app_startup :: "env \<Rightarrow> string option \<Rightarrow> string option \<Rightarrow> startup" where
  "app_startup e db_error redis_error =
     (let ms = missing_vars e in
      if ms \<noteq> [] then StartupError (missing_message ms)
      else case db_error of
        Some x \<Rightarrow> StartupError x
      | None \<Rightarrow>
          (case redis_error of
             Some x \<Rightarrow> StartupError x
           | None \<Rightarrow>
               Started \<lparr>cfg_database_uri = getenv_str e ''DATABASE_URL'',
                        cfg_jwt_secret_key = getenv_str e ''JWT_SECRET_KEY'',
                        cfg_track_modifications = False,
                        cfg_cors_origins = cors_origins e,
                        cfg_cors_methods = [''GET'', ''POST'', ''PUT'', ''DELETE'', ''OPTIONS'']\<rparr>))"

section \<open>Health endpoints and error handlers\<close>

text \<open>Lines 61-63.\<close>

definition health_check :: "pydict \<times> nat" where
  "health_check = ([(''status'', PStr ''healthy'')], 200)"

text \<open>Lines 65-81: a probe answers healthy with 200, or its exception's message with 500.\<close>

definition probe_response :: "string \<Rightarrow> string option \<Rightarrow> pydict \<times> nat" where
  "probe_response ok r =
     (case r of
        None \<Rightarrow> ([(''status'', PStr ''healthy''), (''message'', PStr ok)], 200)
      | Some x \<Rightarrow> ([(''status'', PStr ''unhealthy''), (''message'', PStr x)], 500))"

definition db_health_check :: "string option \<Rightarrow> pydict \<times> nat" where
  "db_health_check r = probe_response ''Database connection successful'' r"

definition redis_health_check :: "string option \<Rightarrow> pydict \<times> nat" where
  "redis_health_check r = probe_response ''Redis connection successful'' r"

text \<open>Lines 91-98.\<close>

definition internal_error :: "pydict \<times> nat" where
  "internal_error = ([(''error'', PStr ''Internal Server Error'')], 500)"

definition not_found_error :: "pydict \<times> nat" where
  "not_found_error = ([(''error'', PStr ''Not Found'')], 404)"

section \<open>Blueprints\<close>

datatype blueprint = AuthBP | MeetingsBP

text \<open>Lines 87-88: the URL of a blueprint's rule.\<close>

fun url_prefix :: "blueprint \<Rightarrow> string" where
  "url_prefix AuthBP = ''/api/auth''"
| "url_prefix MeetingsBP = ''/api/meetings''"

definition route_url :: "blueprint \<Rightarrow> string \<Rightarrow> string" where
  "route_url b rule = url_prefix b @ rule"

section \<open>Example\<close>

definition demo_env :: env where
  "demo_env v = (if v = ''DATABASE_URL'' then Some ''postgresql://db/meetings''
     else if v = ''JWT_SECRET_KEY'' then Some ''k3y'' else if v = ''REDIS_URL'' then Some ''redis://cache''
     else None)"

section \<open>Lemmas\<close>

lemma missing_vars_Nil: "missing_vars e = [] \<longleftrightarrow> list_all (env_set e) required_env_vars"
  by (auto simp: missing_vars_def filter_empty_conv list_all_iff)

lemma env_set_getenv: "env_set e v \<Longrightarrow> e v = Some (getenv_str e v) \<and> getenv_str e v \<noteq> []"
  by (auto simp: env_set_def getenv_str_def split: option.splits)

text \<open>The application starts exactly when every required variable is set, non-empty,
  and both services answer; it then carries the variables' values.\<close>

lemma app_startup_Started:
  "app_startup e d r = Started cfg \<longleftrightarrow>
     list_all (env_set e) required_env_vars \<and> d = None \<and> r = None
   \<and> cfg = \<lparr>cfg_database_uri = getenv_str e ''DATABASE_URL'', cfg_jwt_secret_key = getenv_str e ''JWT_SECRET_KEY'',
            cfg_track_modifications = False, cfg_cors_origins = cors_origins e,
            cfg_cors_methods = [''GET'', ''POST'', ''PUT'', ''DELETE'', ''OPTIONS'']\<rparr>"
  by (auto simp: app_startup_def Let_def missing_vars_Nil split: option.splits)

text \<open>C37. The application never starts without its secrets: when start-up succeeds, the JWT
  secret key and the database URL of the configuration are the non-empty values of
  their environment variables, and the Redis URL is set.\<close>

theorem app_startup_secret:
  assumes "app_startup e d r = Started cfg"
  shows "e ''JWT_SECRET_KEY'' = Some (cfg_jwt_secret_key cfg) \<and> cfg_jwt_secret_key cfg \<noteq> []
     \<and> e ''DATABASE_URL'' = Some (cfg_database_uri cfg) \<and> cfg_database_uri cfg \<noteq> []
     \<and> env_set e ''REDIS_URL''"
  using assms unfolding app_startup_Started by (simp add: required_env_vars_def env_set_getenv)

lemma app_startup_missing:
  "missing_vars e \<noteq> [] \<Longrightarrow> app_startup e d r = StartupError (missing_message (missing_vars e))"
  by (simp add: app_startup_def)

lemma missing_vars_set:
  "set (missing_vars e) = {v \<in> set required_env_vars. \<not> env_set e v}"
  by (auto simp: missing_vars_def)

lemma cors_origins_join:
  "py_join '','' (cors_origins e) = (case e ''CORS_ORIGINS'' of None \<Rightarrow> ''http://localhost:3000'' | Some s \<Rightarrow> s)"
  by (simp add: cors_origins_def join_split_on)

lemma probe_status:
  "snd (probe_response ok r) = 200 \<longleftrightarrow> r = None"
  by (simp add: probe_response_def split: option.split)


theorem app_startup_secret_witness:
  "app_startup demo_env None None =
     Started \<lparr>cfg_database_uri = ''postgresql://db/meetings'', cfg_jwt_secret_key = ''k3y'',
              cfg_track_modifications = False, cfg_cors_origins = [''http://localhost:3000''],
              cfg_cors_methods = [''GET'', ''POST'', ''PUT'', ''DELETE'', ''OPTIONS'']\<rparr>
   \<and> demo_env ''JWT_SECRET_KEY'' = Some ''k3y''"
proof -
  have s: "app_startup demo_env None None =
     Started \<lparr>cfg_database_uri = ''postgresql://db/meetings'', cfg_jwt_secret_key = ''k3y'',
              cfg_track_modifications = False, cfg_cors_origins = [''http://localhost:3000''],
              cfg_cors_methods = [''GET'', ''POST'', ''PUT'', ''DELETE'', ''OPTIONS'']\<rparr>"
    by (simp add: app_startup_def missing_vars_def required_env_vars_def env_set_def demo_env_def
        getenv_str_def cors_origins_def)
  from app_startup_secret[OF s] s show ?thesis by simp
qed

end
