(* ===== verification/Schema.thy ===== *)
theory Schema
  imports Prelude
begin

text \<open>
  The Alembic migration \<open>migrations/versions/initial_schema.py\<close>: the five tables with
  their columns, keys and constraints, the indexes, and the two directions of the
  migration as sequences of DDL operations.  Each operation is applied to a database
  catalogue with the checks PostgreSQL makes: a table or index name is created only once,
  a foreign key refers to an existing table (or to the table being created), an index is
  on columns of an existing table, and a table is dropped only when no other table has a
  foreign key to it (PostgreSQL refuses with \<open>DependentObjectsStillExist\<close>); dropping a
  table drops its indexes.  A refused operation aborts the migration: \<open>None\<close>.
\<close>

section \<open>Tables\<close>

datatype sqltype = SInteger | SString nat | SText | SDateTime | SBoolean | SFloat | SJSONB

record column =
  col_name :: string
  col_type :: sqltype
  col_nullable :: bool
  col_default :: "string option"

datatype ondelete = Cascade | SetNull

record fkey =
  fk_col :: string
  fk_table :: string
  fk_ondelete :: ondelete

record table =
  tbl_name :: string
  tbl_cols :: "column list"
  tbl_pk :: string
  tbl_fks :: "fkey list"
  tbl_uniques :: "string list list"

definition col :: "string \<Rightarrow> sqltype \<Rightarrow> bool \<Rightarrow> string option \<Rightarrow> column" where
  "col n t nl d = \<lparr>col_name = n, col_type = t, col_nullable = nl, col_default = d\<rparr>"

definition fk :: "string \<Rightarrow> string \<Rightarrow> ondelete \<Rightarrow> fkey" where
  "fk c t od = \<lparr>fk_col = c, fk_table = t, fk_ondelete = od\<rparr>"

text \<open>Lines 17-46.\<close>

definition users_table :: table where
  "users_table =
     \<lparr>tbl_name = ''users'',
      tbl_cols =
        [col ''id'' SInteger False None, col ''email'' (SString 120) False None,
         col ''name'' (SString 100) False None, col ''password_hash'' (SString 128) False None,
         col ''created_at'' SDateTime False (Some ''now()''), col ''updated_at'' SDateTime False (Some ''now()''),
         col ''is_active'' SBoolean False (Some ''true''), col ''is_email_verified'' SBoolean False (Some ''false''),
         col ''email_verification_token'' (SString 100) True None,
         col ''email_verification_sent_at'' SDateTime True None,
         col ''password_reset_token'' (SString 100) True None, col ''password_reset_sent_at'' SDateTime True None,
         col ''last_login_at'' SDateTime True None, col ''failed_login_attempts'' SInteger False (Some ''0''),
         col ''locked_until'' SDateTime True None, col ''last_password_change'' SDateTime False (Some ''now()''),
         col ''last_login_ip'' (SString 45) True None, col ''login_count'' SInteger False (Some ''0''),
         col ''preferences'' SJSONB False (Some ''{}'')],
      tbl_pk = ''id'', tbl_fks = [], tbl_uniques = [[''email''], [''name'']]\<rparr>"

text \<open>Lines 49-70.\<close>

definition meetings_table :: table where
  "meetings_table =
     \<lparr>tbl_name = ''meetings'',
      tbl_cols =
        [col ''id'' SInteger False None, col ''title'' (SString 200) False None,
         col ''description'' SText True None, col ''start_time'' SDateTime False None,
         col ''end_time'' SDateTime False None, col ''created_by'' SInteger False None,
         col ''created_at'' SDateTime False (Some ''now()''), col ''updated_at'' SDateTime False (Some ''now()''),
         col ''ended_at'' SDateTime True None, col ''meeting_type'' (SString 20) False (Some ''regular''),
         col ''max_participants'' SInteger True None, col ''requires_approval'' SBoolean False (Some ''false''),
         col ''is_recorded'' SBoolean False (Some ''false''), col ''recording_url'' (SString 500) True None,
         col ''recurring_pattern'' (SString 50) True None, col ''parent_meeting_id'' SInteger True None],
      tbl_pk = ''id'',
      tbl_fks = [fk ''created_by'' ''users'' Cascade, fk ''parent_meeting_id'' ''meetings'' SetNull],
      tbl_uniques = []\<rparr>"

text \<open>Lines 73-92.\<close>

definition participants_table :: table where
  "participants_table =
     \<lparr>tbl_name = ''meeting_participants'',
      tbl_cols =
        [col ''id'' SInteger False None, col ''meeting_id'' SInteger False None,
         col ''user_id'' SInteger False None, col ''status'' (SString 20) False (Some ''pending''),
         col ''role'' (SString 20) False (Some ''attendee''), col ''joined_at'' SDateTime True None,
         col ''left_at'' SDateTime True None, col ''is_banned'' SBoolean False (Some ''false''),
         col ''created_at'' SDateTime False (Some ''now()''), col ''updated_at'' SDateTime False (Some ''now()''),
         col ''total_time'' SInteger True None, col ''connection_quality'' SFloat True None,
         col ''participation_score'' SFloat True None, col ''feedback'' SText True None],
      tbl_pk = ''id'',
      tbl_fks = [fk ''meeting_id'' ''meetings'' Cascade, fk ''user_id'' ''users'' Cascade],
      tbl_uniques = []\<rparr>"

text \<open>Lines 95-106.\<close>

definition co_hosts_table :: table where
  "co_hosts_table =
     \<lparr>tbl_name = ''meeting_co_hosts'',
      tbl_cols =
        [col ''id'' SInteger False None, col ''meeting_id'' SInteger False None,
         col ''user_id'' SInteger False None,
         col ''created_at'' SDateTime False (Some ''now()''), col ''updated_at'' SDateTime False (Some ''now()'')],
      tbl_pk = ''id'',
      tbl_fks = [fk ''meeting_id'' ''meetings'' Cascade, fk ''user_id'' ''users'' Cascade],
      tbl_uniques = [[''meeting_id'', ''user_id'']]\<rparr>"

text \<open>Lines 109-120.\<close>

definition audit_logs_table :: table where
  "audit_logs_table =
     \<lparr>tbl_name = ''meeting_audit_logs'',
      tbl_cols =
        [col ''id'' SInteger False None, col ''meeting_id'' SInteger False None,
         col ''user_id'' SInteger False None, col ''action'' (SString 50) False None,
         col ''details'' SJSONB True None, col ''created_at'' SDateTime False (Some ''now()'')],
      tbl_pk = ''id'',
      tbl_fks = [fk ''meeting_id'' ''meetings'' Cascade, fk ''user_id'' ''users'' Cascade],
      tbl_uniques = []\<rparr>"

section \<open>Catalogue and DDL operations\<close>

record catalogue =
  cat_tables :: "table list"
  cat_indexes :: "(string \<times> string \<times> string list) list" \<comment> \<open>name, table, columns\<close>

datatype ddl =
    CreateTable table
  | DropTable string
  | CreateIndex string string "string list"
  | DropIndex string

definition table_names :: "catalogue \<Rightarrow> string list" where
  "table_names c = map tbl_name (cat_tables c)"

definition index_names :: "catalogue \<Rightarrow> string list" where
  "index_names c = map fst (cat_indexes c)"

definition referenced_by_other :: "catalogue \<Rightarrow> string \<Rightarrow> bool" where
  "referenced_by_other c n \<longleftrightarrow>
     list_ex (\<lambda>t. tbl_name t \<noteq> n \<and> list_ex (\<lambda>f. fk_table f = n) (tbl_fks t)) (cat_tables c)"

fun apply_ddl :: "catalogue \<Rightarrow> ddl \<Rightarrow> catalogue option" where
  "apply_ddl c (CreateTable t) =
     (if tbl_name t \<in> set (table_names c) then None
      else if \<not> list_all (\<lambda>f. fk_table f = tbl_name t \<or> fk_table f \<in> set (table_names c)) (tbl_fks t) then None
      else Some (c\<lparr>cat_tables := cat_tables c @ [t]\<rparr>))"
| "apply_ddl c (DropTable n) =
     (if n \<notin> set (table_names c) \<or> referenced_by_other c n then None
      else Some \<lparr>cat_tables = filter (\<lambda>t. tbl_name t \<noteq> n) (cat_tables c),
                 cat_indexes = filter (\<lambda>x. fst (snd x) \<noteq> n) (cat_indexes c)\<rparr>)"
| "apply_ddl c (CreateIndex i n cs) =
     (if i \<in> set (index_names c) then None
      else case find (\<lambda>t. tbl_name t = n) (cat_tables c) of
        None \<Rightarrow> None
      | Some t \<Rightarrow> if set cs \<subseteq> set (map col_name (tbl_cols t))
                 then Some (c\<lparr>cat_indexes := cat_indexes c @ [(i, n, cs)]\<rparr>) else None)"
| "apply_ddl c (DropIndex i) =
     (if i \<notin> set (index_names c) then None
      else Some (c\<lparr>cat_indexes := filter (\<lambda>x. fst x \<noteq> i) (cat_indexes c)\<rparr>))"

fun run_ddl :: "catalogue \<Rightarrow> ddl list \<Rightarrow> catalogue option" where
  "run_ddl c [] = Some c"
| "run_ddl c (op # ops) = (case apply_ddl c op of None \<Rightarrow> None | Some c' \<Rightarrow> run_ddl c' ops)"

definition empty_catalogue :: catalogue where
  "empty_catalogue = \<lparr>cat_tables = [], cat_indexes = []\<rparr>"

section \<open>The migration\<close>

text \<open>Lines 122-146.\<close>

definition schema_indexes :: "(string \<times> string \<times> string list) list" where
  "schema_indexes =
     [(''idx_users_email'', ''users'', [''email'']), (''idx_users_name'', ''users'', [''name'']),
      (''idx_users_is_active'', ''users'', [''is_active'']),
      (''idx_users_is_email_verified'', ''users'', [''is_email_verified'']),
      (''idx_users_email_verification_token'', ''users'', [''email_verification_token'']),
      (''idx_users_password_reset_token'', ''users'', [''password_reset_token'']),
      (''idx_users_preferences'', ''users'', [''preferences'']),
      (''idx_meetings_created_by'', ''meetings'', [''created_by'']),
      (''idx_meetings_start_time'', ''meetings'', [''start_time'']),
      (''idx_meetings_end_time'', ''meetings'', [''end_time'']),
      (''idx_meetings_meeting_type'', ''meetings'', [''meeting_type'']),
      (''idx_meetings_parent_id'', ''meetings'', [''parent_meeting_id'']),
      (''idx_meeting_participants_meeting_id'', ''meeting_participants'', [''meeting_id'']),
      (''idx_meeting_participants_user_id'', ''meeting_participants'', [''user_id'']),
      (''idx_meeting_participants_status'', ''meeting_participants'', [''status'']),
      (''idx_meeting_co_hosts_meeting_id'', ''meeting_co_hosts'', [''meeting_id'']),
      (''idx_meeting_co_hosts_user_id'', ''meeting_co_hosts'', [''user_id'']),
      (''idx_meeting_audit_logs_meeting_id'', ''meeting_audit_logs'', [''meeting_id'']),
      (''idx_meeting_audit_logs_user_id'', ''meeting_audit_logs'', [''user_id'']),
      (''idx_meeting_audit_logs_created_at'', ''meeting_audit_logs'', [''created_at''])]"

text \<open>Lines 15-146: the tables in dependency order, then the indexes.\<close>

definition upgrade :: "ddl list" where
  "upgrade =
     map CreateTable [users_table, meetings_table, participants_table, co_hosts_table, audit_logs_table]
     @ map (\<lambda>(i, n, cs). CreateIndex i n cs) schema_indexes"

text \<open>Lines 148-176: the indexes in reverse order of creation, then the tables, the
  referencing ones first.\<close>

definition downgrade :: "ddl list" where
  "downgrade =
     map DropIndex (rev (map fst schema_indexes))
     @ map DropTable [''meeting_audit_logs'', ''meeting_co_hosts'', ''meeting_participants'',
                      ''meetings'', ''users'']"

definition schema_catalogue :: catalogue where
  "schema_catalogue =
     \<lparr>cat_tables = [users_table, meetings_table, participants_table, co_hosts_table, audit_logs_table],
      cat_indexes = schema_indexes\<rparr>"

definition unique_constraints :: "catalogue \<Rightarrow> (string \<times> string list) list" where
  "unique_constraints c = concat (map (\<lambda>t. map (Pair (tbl_name t)) (tbl_uniques t)) (cat_tables c))"

definition not_null_fks :: "catalogue \<Rightarrow> (string \<times> string) list" where
  "not_null_fks c =
     concat (map (\<lambda>t. map (\<lambda>f. (tbl_name t, fk_col f))
       (filter (\<lambda>f. list_ex (\<lambda>x. col_name x = fk_col f \<and> \<not> col_nullable x) (tbl_cols t)) (tbl_fks t)))
       (cat_tables c))"

section \<open>Deletion cascades\<close>

text \<open>The tables whose rows PostgreSQL deletes when a row of table \<open>n\<close> is deleted: those
  with a foreign key to \<open>n\<close> declared \<open>ondelete='CASCADE'\<close> (lines 67, 89-90, 102-103,
  117-118); \<open>SET NULL\<close> keys (line 68) keep the row.  The closure is a worklist loop over
  the tables still to visit; it is a \<open>partial_function\<close> and its totality is a lemma.\<close>

definition cascade_children :: "catalogue \<Rightarrow> string \<Rightarrow> string list" where
  "cascade_children c n =
     map tbl_name (filter (\<lambda>t. list_ex (\<lambda>f. fk_table f = n \<and> fk_ondelete f = Cascade) (tbl_fks t))
                          (cat_tables c))"

partial_function (option) cascade_from ::
  "catalogue \<Rightarrow> string list \<Rightarrow> string list \<Rightarrow> string list option" where
  "cascade_from c ws vs =
     (case ws of
        [] \<Rightarrow> Some vs
      | t # ws' \<Rightarrow>
          if t \<in> set vs then cascade_from c ws' vs
          else cascade_from c (ws' @ cascade_children c t) (vs @ [t]))"

section \<open>Lemmas\<close>

lemma run_ddl_append:
  "run_ddl c (xs @ ys) = (case run_ddl c xs of None \<Rightarrow> None | Some c' \<Rightarrow> run_ddl c' ys)"
  by (induction xs arbitrary: c) (simp_all split: option.split)

lemmas schema_defs = users_table_def meetings_table_def participants_table_def co_hosts_table_def
  audit_logs_table_def col_def fk_def

lemma upgrade_result: "run_ddl empty_catalogue upgrade = Some schema_catalogue"
  by (simp add: upgrade_def schema_indexes_def schema_catalogue_def empty_catalogue_def table_names_def
      index_names_def schema_defs)

lemma downgrade_result: "run_ddl schema_catalogue downgrade = Some empty_catalogue"
  by (simp add: downgrade_def schema_indexes_def schema_catalogue_def empty_catalogue_def table_names_def
      index_names_def referenced_by_other_def schema_defs)

text \<open>The constraints the store model checks at commit: the unique columns of
  \<open>users\<close> (\<open>accounts_unique\<close>) and the co-host pair (\<open>integrity_ok\<close>), and the
  NOT NULL foreign keys, among them the meeting ids of co-hosts and audit entries.\<close>

lemma schema_constraints:
  "unique_constraints schema_catalogue =
     [(''users'', [''email'']), (''users'', [''name'']), (''meeting_co_hosts'', [''meeting_id'', ''user_id''])]"
  "not_null_fks schema_catalogue =
     [(''meetings'', ''created_by''), (''meeting_participants'', ''meeting_id''),
      (''meeting_participants'', ''user_id''), (''meeting_co_hosts'', ''meeting_id''),
      (''meeting_co_hosts'', ''user_id''), (''meeting_audit_logs'', ''meeting_id''),
      (''meeting_audit_logs'', ''user_id'')]"
  by (simp_all add: unique_constraints_def not_null_fks_def schema_catalogue_def schema_defs)

text \<open>The migration round trip: applied to an empty database, the upgrade succeeds and
  builds the schema, and the downgrade then succeeds and leaves the database empty;
  every table is dropped after the tables whose foreign keys refer to it.\<close>

theorem migration_roundtrip:
  "run_ddl empty_catalogue upgrade = Some schema_catalogue
   \<and> run_ddl empty_catalogue (upgrade @ downgrade) = Some empty_catalogue"
  by (simp add: run_ddl_append upgrade_result downgrade_result)


lemma cascade_Nil [simp]: "cascade_from c [] vs = Some vs"
  by (subst cascade_from.simps) simp

lemma cascade_Cons [simp]:
  "cascade_from c (t # ws) vs =
     (if t \<in> set vs then cascade_from c ws vs else cascade_from c (ws @ cascade_children c t) (vs @ [t]))"
  by (subst cascade_from.simps) simp

lemma cascade_children_tables: "set (cascade_children c n) \<subseteq> set (table_names c)"
  by (auto simp: cascade_children_def table_names_def)

text \<open>The measure of the loop: the tables still unvisited among those known, then the
  length of the worklist.\<close>

lemma cascade_step_smaller:
  assumes "t \<notin> set vs"
  shows "card ((set (table_names c) \<union> set (ws @ cascade_children c t)) - set (vs @ [t]))
       < card ((set (table_names c) \<union> set (t # ws)) - set vs)"
proof (rule psubset_card_mono)
  show "finite ((set (table_names c) \<union> set (t # ws)) - set vs)" by simp
  show "(set (table_names c) \<union> set (ws @ cascade_children c t)) - set (vs @ [t])
      \<subset> (set (table_names c) \<union> set (t # ws)) - set vs"
    using assms cascade_children_tables[of c t] by auto
qed

lemma cascade_skip_le:
  "card ((set (table_names c) \<union> set ws) - set vs) \<le> card ((set (table_names c) \<union> set (t # ws)) - set vs)"
  by (rule card_mono) auto

text \<open>The cascade closure terminates: from any worklist and set of visited tables the
  loop returns.\<close>

theorem cascade_total: "\<exists>r. cascade_from c ws vs = Some r"
proof -
  let ?f = "\<lambda>(ws :: string list, vs :: string list). card ((set (table_names c) \<union> set ws) - set vs)"
  have "\<forall>ws vs. p = (ws, vs) \<longrightarrow> (\<exists>r. cascade_from c ws vs = Some r)" for p
  proof (induction p rule: wf_induct_rule[OF wf_measures[of "[?f, \<lambda>(ws, vs). length ws]"]])
    case (1 p)
    show ?case
    proof (intro allI impI)
      fix ws vs assume p: "p = (ws, vs)"
      show "\<exists>r. cascade_from c ws vs = Some r"
      proof (cases ws)
        case Nil
        then show ?thesis by simp
      next
        case (Cons t ws')
        show ?thesis
        proof (cases "t \<in> set vs")
          case True
          have "((ws', vs), p) \<in> measures [?f, \<lambda>(ws, vs). length ws]"
            using cascade_skip_le[of c ws' vs t] by (auto simp: p Cons measures_def le_less)
          from "1.IH"[OF this] have "\<exists>r. cascade_from c ws' vs = Some r" by simp
          with True Cons show ?thesis by simp
        next
          case False
          have "((ws' @ cascade_children c t, vs @ [t]), p) \<in> measures [?f, \<lambda>(ws, vs). length ws]"
            using cascade_step_smaller[OF False, of c ws'] by (simp add: p Cons)
          from "1.IH"[OF this] have "\<exists>r. cascade_from c (ws' @ cascade_children c t) (vs @ [t]) = Some r"
            by simp
          with False Cons show ?thesis by simp
        qed
      qed
    qed
  qed
  then show ?thesis by blast
qed

lemma cascade_schema:
  "cascade_from schema_catalogue [''users''] [] =
     Some [''users'', ''meetings'', ''meeting_participants'', ''meeting_co_hosts'', ''meeting_audit_logs'']"
  "cascade_from schema_catalogue [''meetings''] [] =
     Some [''meetings'', ''meeting_participants'', ''meeting_co_hosts'', ''meeting_audit_logs'']"
  by (simp_all add: cascade_children_def schema_catalogue_def schema_defs)

end
