(* ===== verification/Models.thy ===== *)
theory Models
  imports Lifecycle Schema
begin

text \<open>
  The ORM models of \<open>src/models/\<close>: their constructors and their \<open>to_dict\<close>
  serialisations, which every route answers with.  A row of the store keeps the columns
  the routes read and write; the columns only \<open>to_dict\<close> reads (\<open>updated_at\<close>,
  \<open>recording_url\<close>, the participation figures, the ids and stamps of co-host rows) are a
  record of their own, handed to the serialisation with the row.
  \<open>datetime.isoformat\<close> is the argument \<open>isoformat\<close>.  The type lemma relates the
  serialisations to the tables of the migration: every row of a committed store
  serialises to exactly the columns of its table, in the table's order, each value of the
  column's type and \<open>None\<close> only where the column is nullable.
\<close>

section \<open>Enumerations as stored strings\<close>

fun meeting_type_str :: "meeting_type \<Rightarrow> string" where
  "meeting_type_str Regular = ''regular''"
| "meeting_type_str Recurring = ''recurring''"
| "meeting_type_str Private = ''private''"

fun pstatus_str :: "pstatus \<Rightarrow> string" where
  "pstatus_str Pending = ''pending''"
| "pstatus_str Approved = ''approved''"
| "pstatus_str Declined = ''declined''"

text \<open>meetings.py lines 247-251: the roles the join route writes.\<close>

fun prole_str :: "prole \<Rightarrow> string" where
  "prole_str Host = ''host''"
| "prole_str CoHost = ''co-host''"
| "prole_str Attendee = ''attendee''"

fun action_str :: "action \<Rightarrow> string" where
  "action_str Created = ''created''"
| "action_str Joined = ''joined''"
| "action_str ApprovedParticipant = ''approved_participant''"
| "action_str RejectedParticipant = ''rejected_participant''"
| "action_str AddedCoHost = ''added_co_host''"
| "action_str RemovedCoHost = ''removed_co_host''"

section \<open>Columns only the serialisations read\<close>

record meeting_cols =
  mc_updated_at :: instant
  mc_recording_url :: "string option"

record participant_cols =
  pc_updated_at :: instant
  pc_total_time :: "int option"
  pc_connection_quality :: "(int \<times> int) option"
  pc_participation_score :: "(int \<times> int) option"
  pc_feedback :: "string option"

record row_stamps =
  rs_id :: nat
  rs_created_at :: instant
  rs_updated_at :: instant

section \<open>Constructors\<close>

text \<open>meeting.py lines 32-42: the id and \<open>created_at\<close> are set by the flush;
  \<open>ended_at\<close>, \<open>recurring_pattern\<close> and \<open>parent_meeting_id\<close> stay \<open>None\<close>.\<close>

definition meeting_init ::
  "nat \<Rightarrow> instant \<Rightarrow> string \<Rightarrow> string \<Rightarrow> instant \<Rightarrow> instant \<Rightarrow> user_id \<Rightarrow> meeting_type
   \<Rightarrow> int option \<Rightarrow> bool \<Rightarrow> bool \<Rightarrow> meeting" where
  "meeting_init i at t d st en cb ty mx ra rec =
     \<lparr>mtg_id = i, title = t, description = d, start_time = st, end_time = en, created_by = cb,
      mtg_created_at = at, ended_at = None, mtg_type = ty, max_participants = mx,
      requires_approval = ra, is_recorded = rec, recurring_pattern = None, parent_meeting_id = None\<rparr>"

text \<open>meeting_participant.py lines 27-31: \<open>joined_at\<close> and \<open>left_at\<close> stay \<open>None\<close>,
  \<open>is_banned\<close> takes its default.\<close>

definition participant_init ::
  "row_id \<Rightarrow> instant \<Rightarrow> nat \<Rightarrow> user_id \<Rightarrow> pstatus \<Rightarrow> prole \<Rightarrow> participant" where
  "participant_init i at m u st rl =
     \<lparr>p_id = i, p_meeting = m, p_user = u, status = st, role = rl, joined_at = None, left_at = None,
      is_banned = False, p_created_at = at\<rparr>"

section \<open>Serialisations\<close>

text \<open>The idiom \<open>x.isoformat() if x else None\<close> and the nullable columns.\<close>

definition opt_iso :: "(instant \<Rightarrow> string) \<Rightarrow> instant option \<Rightarrow> pyval" where
  "opt_iso isoformat x = (case x of None \<Rightarrow> PNone | Some t \<Rightarrow> PStr (isoformat t))"

definition opt_int :: "int option \<Rightarrow> pyval" where
  "opt_int x = (case x of None \<Rightarrow> PNone | Some n \<Rightarrow> PInt n)"

definition opt_str :: "string option \<Rightarrow> pyval" where
  "opt_str x = (case x of None \<Rightarrow> PNone | Some s \<Rightarrow> PStr s)"

definition opt_float :: "(int \<times> int) option \<Rightarrow> pyval" where
  "opt_float x = (case x of None \<Rightarrow> PNone | Some (m, e) \<Rightarrow> PFloat m e)"

text \<open>The \<open>details\<close> dicts of the audit entries (meetings.py lines 171-176, 284-287,
  449, 488, 578, 621).\<close>

fun details_json :: "details \<Rightarrow> pyval" where
  "details_json (CreatedDetails ty ra rec pat) =
     PDict [(''meeting_type'', PStr (meeting_type_str ty)), (''requires_approval'', PBool ra),
            (''is_recorded'', PBool rec), (''recurring_pattern'', opt_str pat)]"
| "details_json (JoinedDetails rl st) =
     PDict [(''role'', PStr (prole_str rl)),
            (''status'', PStr (case st of None \<Rightarrow> ''host'' | Some x \<Rightarrow> pstatus_str x))]"
| "details_json (ParticipantDetails pid) = PDict [(''participant_id'', PInt (int pid))]"
| "details_json (CoHostDetails c) = PDict [(''co_host_id'', PInt (int c))]"

text \<open>meeting.py lines 44-62.\<close>

definition meeting_to_dict :: "(instant \<Rightarrow> string) \<Rightarrow> meeting \<Rightarrow> meeting_cols \<Rightarrow> pydict" where
  "meeting_to_dict isoformat m x =
     [(''id'', PInt (int (mtg_id m))), (''title'', PStr (title m)), (''description'', PStr (description m)),
      (''start_time'', PStr (isoformat (start_time m))), (''end_time'', PStr (isoformat (end_time m))),
      (''created_by'', PInt (int (created_by m))), (''created_at'', PStr (isoformat (mtg_created_at m))),
      (''updated_at'', PStr (isoformat (mc_updated_at x))), (''ended_at'', opt_iso isoformat (ended_at m)),
      (''meeting_type'', PStr (meeting_type_str (mtg_type m))),
      (''max_participants'', opt_int (max_participants m)),
      (''requires_approval'', PBool (requires_approval m)), (''is_recorded'', PBool (is_recorded m)),
      (''recording_url'', opt_str (mc_recording_url x)),
      (''recurring_pattern'', opt_str (recurring_pattern m)),
      (''parent_meeting_id'', opt_int (map_option int (parent_meeting_id m)))]"

text \<open>meeting_participant.py lines 33-49.\<close>

definition participant_to_dict :: "(instant \<Rightarrow> string) \<Rightarrow> participant \<Rightarrow> participant_cols \<Rightarrow> pydict" where
  "participant_to_dict isoformat p x =
     [(''id'', PInt (int (p_id p))), (''meeting_id'', PInt (int (p_meeting p))),
      (''user_id'', PInt (int (p_user p))), (''status'', PStr (pstatus_str (status p))),
      (''role'', PStr (prole_str (role p))), (''joined_at'', opt_iso isoformat (joined_at p)),
      (''left_at'', opt_iso isoformat (left_at p)), (''is_banned'', PBool (is_banned p)),
      (''created_at'', PStr (isoformat (p_created_at p))), (''updated_at'', PStr (isoformat (pc_updated_at x))),
      (''total_time'', opt_int (pc_total_time x)), (''connection_quality'', opt_float (pc_connection_quality x)),
      (''participation_score'', opt_float (pc_participation_score x)), (''feedback'', opt_str (pc_feedback x))]"

text \<open>meeting_co_host.py lines 20-27.\<close>

definition co_host_to_dict :: "(instant \<Rightarrow> string) \<Rightarrow> row_stamps \<Rightarrow> co_host \<Rightarrow> pydict" where
  "co_host_to_dict isoformat r c =
     [(''id'', PInt (int (rs_id r))), (''meeting_id'', opt_int (map_option int (ch_meeting c))),
      (''user_id'', PInt (int (ch_user c))), (''created_at'', PStr (isoformat (rs_created_at r))),
      (''updated_at'', PStr (isoformat (rs_updated_at r)))]"

text \<open>meeting_audit_log.py lines 24-32; \<open>created_at\<close> is the instant of the entry.\<close>

definition audit_to_dict :: "(instant \<Rightarrow> string) \<Rightarrow> nat \<Rightarrow> audit_entry \<Rightarrow> pydict" where
  "audit_to_dict isoformat i a =
     [(''id'', PInt (int i)), (''meeting_id'', opt_int (map_option int (log_meeting a))),
      (''user_id'', PInt (int (log_user a))), (''action'', PStr (action_str (log_action a))),
      (''details'', details_json (log_details a)), (''created_at'', PStr (isoformat (log_at a)))]"

section \<open>Values of a column's type\<close>

text \<open>The JSON value a column of the given type serialises to: integers, strings (the
  length bound of \<open>String(n)\<close> is the database's check on insert and is not repeated),
  ISO strings for date-times, booleans, floats, and any JSON for \<open>JSONB\<close>.\<close>

fun json_type :: "sqltype \<Rightarrow> pyval \<Rightarrow> bool" where
  "json_type SInteger v = (case v of PInt _ \<Rightarrow> True | _ \<Rightarrow> False)"
| "json_type (SString n) v = (case v of PStr _ \<Rightarrow> True | _ \<Rightarrow> False)"
| "json_type SText v = (case v of PStr _ \<Rightarrow> True | _ \<Rightarrow> False)"
| "json_type SDateTime v = (case v of PStr _ \<Rightarrow> True | _ \<Rightarrow> False)"
| "json_type SBoolean v = (case v of PBool _ \<Rightarrow> True | _ \<Rightarrow> False)"
| "json_type SFloat v = (case v of PFloat _ _ \<Rightarrow> True | _ \<Rightarrow> False)"
| "json_type SJSONB v = (case v of PNone \<Rightarrow> False | PData _ \<Rightarrow> False | _ \<Rightarrow> True)"

definition column_value :: "column \<Rightarrow> pyval \<Rightarrow> bool" where
  "column_value c v \<longleftrightarrow> (if v = PNone then col_nullable c else json_type (col_type c) v)"

text \<open>A dict that has exactly the columns of the table, in order, with values of their
  types.\<close>

definition table_typed :: "table \<Rightarrow> pydict \<Rightarrow> bool" where
  "table_typed t d \<longleftrightarrow> list_all2 (\<lambda>c kv. fst kv = col_name c \<and> column_value c (snd kv)) (tbl_cols t) d"


section \<open>Lemmas\<close>

lemmas column_simps = column_value_def col_def opt_iso_def opt_int_def opt_str_def opt_float_def

lemma meeting_type_roundtrip: "parse_meeting_type (meeting_type_str t) = Some t"
  by (cases t) (simp_all add: parse_meeting_type_def)

lemma details_json_typed: "json_type SJSONB (details_json d)"
  by (cases d) simp_all

lemma meeting_typed: "table_typed meetings_table (meeting_to_dict isoformat m x)"
  by (simp add: table_typed_def meeting_to_dict_def meetings_table_def column_simps split: option.split)

lemma participant_typed: "table_typed participants_table (participant_to_dict isoformat p x)"
  by (simp add: table_typed_def participant_to_dict_def participants_table_def column_simps
      split: option.split prod.split)

lemma co_host_typed:
  "ch_meeting c \<noteq> None \<Longrightarrow> table_typed co_hosts_table (co_host_to_dict isoformat r c)"
  by (auto simp: table_typed_def co_host_to_dict_def co_hosts_table_def column_simps)

lemma audit_typed:
  "log_meeting a \<noteq> None \<Longrightarrow> table_typed audit_logs_table (audit_to_dict isoformat i a)"
  using details_json_typed[of "log_details a"]
  by (auto simp: table_typed_def audit_to_dict_def audit_logs_table_def column_simps)

text \<open>C38. Type of the stored rows: in a store whose commit succeeds, every meeting,
  participant, co-host and audit row serialises through its model's to_dict to a dict
  with exactly the columns of its table in the migration, in the table's order, each
  value of the column's type and None only in nullable columns.\<close>

theorem committed_rows_typed:
  assumes "integrity_ok s"
  shows "list_all (\<lambda>m. table_typed meetings_table (meeting_to_dict isoformat m (mx m))) (meetings s)
   \<and> list_all (\<lambda>p. table_typed participants_table (participant_to_dict isoformat p (px p))) (participants s)
   \<and> list_all (\<lambda>c. table_typed co_hosts_table (co_host_to_dict isoformat (cx c) c)) (co_hosts s)
   \<and> list_all (\<lambda>a. table_typed audit_logs_table (audit_to_dict isoformat (ax a) a)) (audit_logs s)"
  using assms
  by (auto simp: integrity_ok_def list_all_iff meeting_typed participant_typed co_host_typed audit_typed)

theorem committed_rows_typed_witness:
  "integrity_ok demo_store
   \<and> list_all (\<lambda>m. table_typed meetings_table (meeting_to_dict (\<lambda>_. ''1970-01-01T00:00:00'') m
        \<lparr>mc_updated_at = 0, mc_recording_url = None\<rparr>)) (meetings demo_store)
   \<and> list_all (\<lambda>p. table_typed participants_table (participant_to_dict (\<lambda>_. ''1970-01-01T00:00:00'') p
        \<lparr>pc_updated_at = 0, pc_total_time = None, pc_connection_quality = Some (3, -2),
         pc_participation_score = None, pc_feedback = None\<rparr>)) (participants demo_store)
   \<and> list_all (\<lambda>c. table_typed co_hosts_table (co_host_to_dict (\<lambda>_. ''1970-01-01T00:00:00'')
        \<lparr>rs_id = 1, rs_created_at = 0, rs_updated_at = 0\<rparr> c)) (co_hosts demo_store)
   \<and> list_all (\<lambda>a. table_typed audit_logs_table (audit_to_dict (\<lambda>_. ''1970-01-01T00:00:00'') 1 a))
        (audit_logs demo_store)"
proof -
  have i: "integrity_ok demo_store" using demo_inv by (simp add: store_inv_def wf_store_def)
  show ?thesis
    using committed_rows_typed[OF i, of "\<lambda>_. ''1970-01-01T00:00:00''"
        "\<lambda>_. \<lparr>mc_updated_at = 0, mc_recording_url = None\<rparr>"
        "\<lambda>_. \<lparr>pc_updated_at = 0, pc_total_time = None, pc_connection_quality = Some (3, -2),
              pc_participation_score = None, pc_feedback = None\<rparr>"
        "\<lambda>_. \<lparr>rs_id = 1, rs_created_at = 0, rs_updated_at = 0\<rparr>" "\<lambda>_. 1"] i
    by simp
qed

end
