(* ===== verification/Spec2Isabelle.thy ===== *)
theory Spec2Isabelle
  imports Service Concurrency Legacy Sockets Responses App Models
begin

text \<open>
  Verification development of the Flask meeting service under
  \<open>src/backend/flask-service/src\<close>: the meeting routes (\<open>routes/meetings.py\<close>), the
  authentication routes (\<open>routes/auth.py\<close>), the ORM models (\<open>models/\<close>), the
  transaction helpers and response helpers (\<open>utils/database.py\<close>,
  \<open>utils/responses.py\<close>) and the Socket.IO relay (\<open>utils/socket_events.py\<close>).
  A request enters a route of a blueprint registered in \<open>__init__.py\<close>; the
  \<open>token_required\<close> decorator resolves its user; the route reads and updates the rows
  of the SQLAlchemy session and commits, or rolls back and answers an error.

  \<^bold>\<open>Theories.\<close>
  \<^item> \<open>Prelude\<close>: instants as \<open>int\<close> microseconds since the epoch (\<open>seconds n\<close> is
    \<open>n * 10^6\<close>; Python's \<open>datetime\<close> arithmetic is exact at that resolution), user and
    row ids as \<open>nat\<close>, Python's \<open>round\<close> of a quotient, \<open>str.isspace\<close> and
    \<open>str.strip\<close>, dicts as association lists with \<open>dict.__setitem__\<close> and
    \<open>dict.update\<close>, Python's datetime comparison \<open>dt_less\<close> on naive and aware values
    (it raises \<open>TypeError\<close>, \<open>None\<close>, for a mixed pair), and the list lemmas the
    components share.
  \<^item> \<open>Store\<close>: the tables of \<open>models/meeting*.py\<close> as one record \<open>store\<close>, the
    lookups the routes issue (\<open>Query.get\<close>, \<open>filter_by(...).first/count\<close>), the
    in-place update of a loaded row (\<open>replace_by\<close>), \<open>commit\<close> with the NOT NULL and
    unique constraints of the schema (\<open>IntegrityError\<close> is \<open>None\<close>), and the store
    invariant \<open>store_inv\<close>: well-formed keys, capacity and exclusivity (spec section 3).
  \<^item> \<open>Admission\<close>: \<open>join_meeting\<close>, \<open>get_waiting_room\<close>, \<open>approve_participant\<close> and
    \<open>reject_participant\<close> (meetings.py 188-305, 500-631), each check in source order and
    each early return a value of \<open>reason\<close>; an example store used by the witnesses.
    The clock check of line 206 compares the aware current time with the naive
    \<open>start_time\<close> of the loaded row, so every join of a meeting that has not ended
    raises \<open>TypeError\<close> (500) there, and the code behind it, though modelled, is never
    reached.
  \<^item> \<open>Lifecycle\<close>: \<open>create_meeting\<close> (43-186), \<open>end_meeting\<close> (388-407),
    \<open>delete_meeting\<close> (367-386) with the cascades of the ORM relationships.
  \<^item> \<open>CoHosts\<close>, \<open>Queries\<close>: \<open>add_co_host\<close>, \<open>remove_co_host\<close> (409-498),
    \<open>list_meetings\<close> and \<open>get_meeting\<close> (307-365).
  \<^item> \<open>Service\<close>: the routes as one step function \<open>handle\<close> over a datatype of
    requests, the reachable stores \<open>reach\<close> (an inductive relation) and the executable
    trace semantics \<open>run\<close>.
  \<^item> \<open>Concurrency\<close>: the approval route split into its read and write phases, and
    two approvals interleaved as two workers serve them (read, read, write, write).
  \<^item> \<open>Validation\<close>, \<open>Users\<close>, \<open>Auth\<close>: the validators of \<open>routes/auth.py\<close> as
    predicates on the language of their regular expressions, the \<open>User\<close> model with
    lockout, e-mail verification and \<open>to_dict\<close>, \<open>register\<close>, \<open>login\<close>, \<open>verify_token\<close> and the
    \<open>token_required\<close> decorator over the PyJWT exception hierarchy.
  \<^item> \<open>Legacy\<close>: the legacy blueprints \<open>routes/auth.py\<close> and \<open>routes/meetings.py\<close>
    beside the \<open>src\<close> package, over tables with the columns they use; the modules
    they import (\<open>app\<close>, \<open>models.user\<close>, \<open>models.meeting\<close>) are absent, so the
    application never registers them.
  \<^item> \<open>Sockets\<close>: \<open>socket_auth_required\<close> and the six event handlers as a step on the
    room membership that answers the emitted messages.
  \<^item> \<open>Responses\<close>: \<open>api_response\<close>, \<open>error_response\<close>, \<open>success_response\<close>.
  \<^item> \<open>Schema\<close>: the Alembic migration \<open>migrations/versions/initial_schema.py\<close>
    as DDL operations on a catalogue with PostgreSQL's checks; the upgrade builds the
    schema and the downgrade empties it again; the ON DELETE CASCADE closure is a
    worklist loop (\<open>partial_function\<close>) proved to return on every input.
  \<^item> \<open>Models\<close>: the constructors and \<open>to_dict\<close> serialisations of the ORM models,
    and the typing of committed rows against the tables of the migration.
  \<^item> \<open>App\<close>: \<open>__init__.py\<close>: the required environment variables, the configuration,
    the start-up sequence (the database set-up and the Redis ping are arguments), the
    health endpoints, the blueprint prefixes and the error handlers.

  \<^bold>\<open>What is shown.\<close>  Every route preserves \<open>store_inv\<close>, so capacity and
  exclusivity hold in every reachable store; an error leaves the store unchanged; the
  audit trail only grows at its end; the waiting room can always be emptied by its
  moderators, one rejection per queued row.  Functional lemmas fix each route's answer on
  each branch, including the defects modelling showed: every join of a live meeting
  raises \<open>TypeError\<close> at the clock check, every meeting creation fails at commit (the
  dependent rows are built before the meeting has an id), deleting a meeting with an
  audit entry fails, and two approvals served concurrently exceed the limit in every
  store where one place is left.  The authentication lemmas give round trips (register
  then login, login then the decorator), the equivalence of the two token checks, the
  LIKE semantics of the e-mail lookup, the lockout bound (and that \<open>is_locked\<close> raises
  once a lock is set), and that \<open>verify_email\<close> never verifies a stored account.  The
  legacy decorator answers 500 to a header without a space.  Every row of a committed
  store serialises to the columns of its table with values of the columns' types; the
  deletion-cascade loop over the schema returns on every input (measure: unvisited
  tables, then worklist length).

  \<^bold>\<open>Modelling choices.\<close>  Library calls are parameters or injective constructors:
  \<open>bleach.clean\<close> is the argument \<open>clean\<close>, \<open>generate_password_hash\<close> the constructor
  \<open>PwHash\<close>, \<open>jwt.decode\<close> the argument \<open>decode\<close>.  The store holds what the
  database holds: a datetime column is \<open>timestamp without time zone\<close>, its value the
  UTC reading, and code that compares it with \<open>datetime.now(UTC)\<close> compares a
  \<open>Naive\<close> with an \<open>Aware\<close> value (\<open>Prelude.dt_less\<close>).  Comparisons the database
  evaluates (the overlap query of \<open>create_meeting\<close>) and values the route itself
  parsed (aware, by the time-zone check) compare as instants.  No route loops on
  unbounded data, so every definition is total and no fuel is needed; the drain theorem
  is proved by induction on the list of queued rows, and the cascade loop of \<open>Schema\<close>
  is a \<open>partial_function\<close> with a totality proof.

  \<^bold>\<open>Not modelled.\<close>  Logging and the initialisation of Flask, SQLAlchemy and Redis
  in \<open>__init__.py\<close> are I/O; the tests
  call functions absent from the code; the spec's Leave operation has no implementation
  (nothing sets \<open>left_at\<close>); \<open>jsonify\<close>, the encoding of a dict as JSON text, and
  \<open>datetime.isoformat\<close> are library calls (the latter an argument of the serialisations).
\<close>

end
